theory Spec2Isabelle
  imports Main
begin

section \<open>The materials aggregation script\<close>

text \<open>
  The script \<^verbatim>\<open>aggregate_materials_final.py\<close> loads six spreadsheets into data frames,
  fixes three columns, cleans every text column, chains five left joins, selects thirteen
  columns, replaces the remaining nulls by \<^verbatim>\<open>N/A\<close> and writes the result.

  A data frame is modelled the way the library stores it: a row count and a list of named
  columns. The operations of the library are modelled with the meaning they have in the
  1.x and 2.x releases, for which the script is written: a text column has dtype
  \<^verbatim>\<open>object\<close>, and \<^verbatim>\<open>df[col].replace(..., inplace=True)\<close> changes the frame.
\<close>

subsection \<open>Cells\<close>

text \<open>
  A cell is missing (\<^verbatim>\<open>NaN\<close>, \<^verbatim>\<open>pd.NA\<close>), a string, an integer, or a float with
  an integral value (what a numeric column with a missing entry holds).

  The floats of the model are the integers from \<open>- 2\<^sup>5\<^sup>3\<close> to \<open>2\<^sup>5\<^sup>3\<close>: the 64-bit format
  holds each of them exactly, and \<^verbatim>\<open>str\<close> writes each of them with all its digits (the
  exponent form starts at \<open>10\<^sup>1\<^sup>6\<close>). Floats with a fraction and larger floats are not
  values of the type. A character is a code point below 256.
\<close>

typedef integral_float = "{i :: int. \<bar>i\<bar> \<le> 2 ^ 53}"
  morphisms float_value integral_float_of
  by (rule exI [where x = 0]) simp

datatype cell = NA | Str string | IntV int | FltV integral_float

datatype error =
    KeyError string
  | SubscriptError
  | ValueError
  | MergeError

fun isna :: "cell \<Rightarrow> bool" where
  "isna NA = True"
| "isna _ = False"

fun is_str :: "cell \<Rightarrow> bool" where
  "is_str (Str _) = True"
| "is_str _ = False"

subsection \<open>Strings\<close>

definition digit_char :: "nat \<Rightarrow> char" where
  "digit_char d = ''0123456789'' ! d"

fun show_nat :: "nat \<Rightarrow> string" where
  "show_nat n = (if n < 10 then [digit_char n] else show_nat (n div 10) @ [digit_char (n mod 10)])"

declare show_nat.simps [simp del]

definition show_int :: "int \<Rightarrow> string" where
  "show_int i = (if i < 0 then CHR ''-'' # show_nat (nat (- i)) else show_nat (nat i))"

text \<open>\<^verbatim>\<open>str(x)\<close> of a cell, which is what \<^verbatim>\<open>astype(str)\<close> applies to every element.\<close>

fun astype_str :: "cell \<Rightarrow> string" where
  "astype_str NA = ''nan''"
| "astype_str (Str s) = s"
| "astype_str (IntV i) = show_int i"
| "astype_str (FltV f) = show_int (float_value f) @ ''.0''"

text \<open>The characters that \<^verbatim>\<open>str.strip()\<close> removes, which are those for which
  \<^verbatim>\<open>str.isspace\<close> holds. Below 256 they are tab, line feed, vertical tab, form feed,
  carriage return, the four separators \<open>0x1c\<close> to \<open>0x1f\<close>, space, next line (\<open>0x85\<close>) and
  no-break space (\<open>0xa0\<close>).\<close>

definition is_space :: "char \<Rightarrow> bool" where
  "is_space c = (of_char c \<in> {9, 10, 11, 12, 13, 28, 29, 30, 31, 32, 133, 160 :: nat})"

definition strip :: "string \<Rightarrow> string" where
  "strip s = rev (dropWhile is_space (rev (dropWhile is_space s)))"

text \<open>\<^verbatim>\<open>str.zfill(width)\<close>: a string of at least \<open>width\<close> characters is returned as it
  is; otherwise zeros are inserted on the left, after a leading sign.\<close>

definition zfill :: "nat \<Rightarrow> string \<Rightarrow> string" where
  "zfill width s =
     (if width \<le> length s then s
      else (case s of
              [] \<Rightarrow> replicate width (CHR ''0'')
            | c # rest \<Rightarrow>
                if c = CHR ''+'' \<or> c = CHR ''-''
                then c # replicate (width - length s) (CHR ''0'') @ rest
                else replicate (width - length s) (CHR ''0'') @ s))"

text \<open>The slice \<^verbatim>\<open>s[-2:]\<close>: the last two characters, or all of a shorter string.\<close>

definition last_two :: "string \<Rightarrow> string" where
  "last_two s = drop (length s - 2) s"

subsection \<open>Data frames\<close>

record frame =
  nrows :: nat
  cols :: "(string \<times> cell list) list"

definition column_names :: "frame \<Rightarrow> string list" where
  "column_names df = map fst (cols df)"

text \<open>What every frame built by the library satisfies: column labels read from a sheet
  are distinct, and every column has one cell per row.\<close>

definition wf_frame :: "frame \<Rightarrow> bool" where
  "wf_frame df = (distinct (column_names df) \<and> (\<forall>c \<in> set (cols df). length (snd c) = nrows df))"

definition andThen :: "error + 'a \<Rightarrow> ('a \<Rightarrow> error + 'b) \<Rightarrow> error + 'b" where
  "andThen m f = (case m of Inl e \<Rightarrow> Inl e | Inr x \<Rightarrow> f x)"

text \<open>\<^verbatim>\<open>df[name]\<close> raises \<^verbatim>\<open>KeyError\<close> for a label that is not a column.\<close>

definition get_column :: "frame \<Rightarrow> string \<Rightarrow> error + cell list" where
  "get_column df name =
     (case map_of (cols df) name of None \<Rightarrow> Inl (KeyError name) | Some c \<Rightarrow> Inr c)"

text \<open>\<^verbatim>\<open>df[name] = values\<close> for a column that exists.\<close>

definition set_column :: "frame \<Rightarrow> string \<Rightarrow> cell list \<Rightarrow> frame" where
  "set_column df name values =
     df\<lparr>cols := map (\<lambda>(n, c). if n = name then (n, values) else (n, c)) (cols df)\<rparr>"

definition map_column :: "(cell \<Rightarrow> cell) \<Rightarrow> string \<Rightarrow> frame \<Rightarrow> error + frame" where
  "map_column f name df =
     andThen (get_column df name) (\<lambda>c. Inr (set_column df name (map f c)))"

text \<open>A column read from a sheet has dtype \<^verbatim>\<open>object\<close> when it holds a string, or when
  the sheet has no rows; columns of numbers and missing values are numeric. The field
  fixes keep this, since they only put strings into a column.\<close>

definition is_object :: "cell list \<Rightarrow> bool" where
  "is_object c = (c = [] \<or> (\<exists>x \<in> set c. is_str x))"

record dataset =
  materials :: frame
  plants :: frame
  storage :: frame
  suppliers :: frame
  supplier_names :: frame
  manufacturer_names :: frame

subsection \<open>Field fixes (lines 59 and 88 to 97)\<close>

text \<open>\<^verbatim>\<open>data['storage']['DeletedStorageLevel'].replace(' ', 'ACTIVE', inplace=True)\<close>\<close>

definition replace_value :: "string \<Rightarrow> cell \<Rightarrow> cell \<Rightarrow> cell" where
  "replace_value old new x = (if x = Str old then new else x)"

definition replace_deleted_storage_level :: "frame \<Rightarrow> error + frame" where
  "replace_deleted_storage_level st =
     map_column (replace_value '' '' (Str ''ACTIVE'')) ''DeletedStorageLevel'' st"

text \<open>
  The backfill lambda, applied to one row:
  \<^verbatim>\<open>'TC00000000' + row['MaterialReference'][-2:] if pd.isna(row['TypeCode']) else row['TypeCode']\<close>.
  Subscripting a value that is not a string raises (\<^verbatim>\<open>TypeError\<close> for a Python number,
  \<^verbatim>\<open>IndexError\<close> for a numpy scalar); both are \<open>SubscriptError\<close> here.
\<close>

definition backfill_row :: "cell \<Rightarrow> cell \<Rightarrow> error + cell" where
  "backfill_row material_reference type_code =
     (if isna type_code
      then (case material_reference of
              Str s \<Rightarrow> Inr (Str (''TC00000000'' @ last_two s))
            | _ \<Rightarrow> Inl SubscriptError)
      else Inr type_code)"

fun apply_rows :: "('a \<Rightarrow> error + 'b) \<Rightarrow> 'a list \<Rightarrow> error + 'b list" where
  "apply_rows f [] = Inr []"
| "apply_rows f (x # xs) =
     (case f x of
        Inl e \<Rightarrow> Inl e
      | Inr y \<Rightarrow> (case apply_rows f xs of Inl e \<Rightarrow> Inl e | Inr ys \<Rightarrow> Inr (y # ys)))"

text \<open>
  \<^verbatim>\<open>data['materials']['TypeCode'] = data['materials'].apply(lambda row: ..., axis=1)\<close>.
  The lambda reads \<^verbatim>\<open>row['TypeCode']\<close> first and \<^verbatim>\<open>row['MaterialReference']\<close> only for
  a missing type code. On a frame without rows \<^verbatim>\<open>apply\<close> returns a copy of the frame,
  which cannot be assigned to one column, so the assignment raises.
\<close>

definition fill_typecode :: "frame \<Rightarrow> error + frame" where
  "fill_typecode m =
     (if nrows m = 0 then Inl ValueError
      else andThen (get_column m ''TypeCode'') (\<lambda>tcs.
        if \<exists>t \<in> set tcs. isna t
        then andThen (get_column m ''MaterialReference'') (\<lambda>mrs.
               andThen (apply_rows (\<lambda>(mr, tc). backfill_row mr tc) (zip mrs tcs)) (\<lambda>filled.
                 Inr (set_column m ''TypeCode'' filled)))
        else Inr m))"

text \<open>\<^verbatim>\<open>df['Plant'] = df['Plant'].astype(str).str.zfill(4)\<close>\<close>

definition pad_plant_cell :: "cell \<Rightarrow> cell" where
  "pad_plant_cell x = Str (zfill 4 (astype_str x))"

definition pad_plant :: "frame \<Rightarrow> error + frame" where
  "pad_plant df = map_column pad_plant_cell ''Plant'' df"

subsection \<open>Cleaning (lines 109 to 120)\<close>

text \<open>
  For a column of dtype \<^verbatim>\<open>object\<close>:
  \<^verbatim>\<open>astype(str).str.strip()\<close>, then \<^verbatim>\<open>replace('', pd.NA)\<close>, then \<^verbatim>\<open>replace('nan', pd.NA)\<close>.
\<close>

definition clean_cell :: "cell \<Rightarrow> cell" where
  "clean_cell x =
     replace_value ''nan'' NA (replace_value [] NA (Str (strip (astype_str x))))"

definition clean_column :: "cell list \<Rightarrow> cell list" where
  "clean_column c = (if is_object c then map clean_cell c else c)"

definition clean_frame :: "frame \<Rightarrow> frame" where
  "clean_frame df = df\<lparr>cols := map (\<lambda>(n, c). (n, clean_column c)) (cols df)\<rparr>"

subsection \<open>Left joins (lines 144 to 175)\<close>

text \<open>
  \<^verbatim>\<open>left.merge(right, on=keys, how='left')\<close>. Every left row is kept, in order; it is
  paired with each right row that has the same key, in the order of the right frame, or
  with a row of missing values when there is none. Missing keys match missing keys, and
  numbers are compared by value. The key columns of the right frame are not repeated;
  a label that both frames have besides the keys gets the suffixes \<^verbatim>\<open>_x\<close> and \<^verbatim>\<open>_y\<close>,
  and labels that the suffixes make equal within one frame are an error.

  Two things the library does on account of the dtype of a column are not modelled: it
  refuses to join a text key column with a numeric one (the key columns of the data model
  hold text), and it turns a column of integers into floats of the same values when a
  left row has no partner (the model keeps the integer cells).
\<close>

fun key_of :: "cell \<Rightarrow> cell" where
  "key_of (FltV f) = IntV (float_value f)"
| "key_of x = x"

definition key_row :: "cell list list \<Rightarrow> nat \<Rightarrow> cell list" where
  "key_row key_columns i = map (\<lambda>c. key_of (c ! i)) key_columns"

definition matching_rows :: "cell list list \<Rightarrow> cell list list \<Rightarrow> nat \<Rightarrow> nat \<Rightarrow> nat list" where
  "matching_rows lk rk m i = filter (\<lambda>j. key_row lk i = key_row rk j) [0..<m]"

definition join_rows :: "cell list list \<Rightarrow> cell list list \<Rightarrow> nat \<Rightarrow> nat \<Rightarrow> (nat \<times> nat option) list" where
  "join_rows lk rk m i =
     (case matching_rows lk rk m i of [] \<Rightarrow> [(i, None)] | js \<Rightarrow> map (\<lambda>j. (i, Some j)) js)"

definition join_indexer :: "cell list list \<Rightarrow> nat \<Rightarrow> cell list list \<Rightarrow> nat \<Rightarrow> (nat \<times> nat option) list" where
  "join_indexer lk n rk m = concat (map (join_rows lk rk m) [0..<n])"

definition take_left :: "(nat \<times> nat option) list \<Rightarrow> cell list \<Rightarrow> cell list" where
  "take_left ix c = map (\<lambda>(i, j). c ! i) ix"

definition take_right :: "(nat \<times> nat option) list \<Rightarrow> cell list \<Rightarrow> cell list" where
  "take_right ix c = map (\<lambda>(i, j). case j of None \<Rightarrow> NA | Some k \<Rightarrow> c ! k) ix"

definition add_suffix :: "string list \<Rightarrow> string \<Rightarrow> string \<Rightarrow> string" where
  "add_suffix overlap suffix n = (if n \<in> set overlap then n @ suffix else n)"

definition merge_indexer :: "frame \<Rightarrow> frame \<Rightarrow> string list \<Rightarrow> error + (nat \<times> nat option) list" where
  "merge_indexer left right keys =
     andThen (apply_rows (get_column left) keys) (\<lambda>lk.
     andThen (apply_rows (get_column right) keys) (\<lambda>rk.
       Inr (join_indexer lk (nrows left) rk (nrows right))))"

definition merge_left :: "frame \<Rightarrow> frame \<Rightarrow> string list \<Rightarrow> error + frame" where
  "merge_left left right keys =
     andThen (merge_indexer left right keys) (\<lambda>ix.
       let others = filter (\<lambda>(n, c). n \<notin> set keys) (cols right);
           overlap = filter (\<lambda>n. n \<in> set (map fst others)) (column_names left);
           lcols = map (\<lambda>(n, c). (add_suffix overlap ''_x'' n, take_left ix c)) (cols left);
           rcols = map (\<lambda>(n, c). (add_suffix overlap ''_y'' n, take_right ix c)) others
       in if distinct (map fst lcols) \<and> distinct (map fst rcols)
          then Inr \<lparr>nrows = length ix, cols = lcols @ rcols\<rparr>
          else Inl MergeError)"

text \<open>\<^verbatim>\<open>result.drop(columns=[name], inplace=True)\<close>\<close>

definition drop_column :: "string \<Rightarrow> frame \<Rightarrow> error + frame" where
  "drop_column name df =
     (if name \<in> set (column_names df)
      then Inr (df\<lparr>cols := filter (\<lambda>(n, c). n \<noteq> name) (cols df)\<rparr>)
      else Inl (KeyError name))"

subsection \<open>Formatting (lines 186 to 211)\<close>

definition output_columns :: "string list" where
  "output_columns =
     [''MaterialReference'', ''ManufacturerName'', ''ArticleNumber'', ''TypeCode'',
      ''ShortText'', ''Plant'', ''Disposition'', ''ReporderPoint'', ''SupplierName'',
      ''SupplierArticleNumber'', ''StorageLocation'', ''StorageBin'', ''DeletedStorageLevel'']"

text \<open>\<^verbatim>\<open>result[[...]]\<close>: the listed columns in the listed order, \<^verbatim>\<open>KeyError\<close> for a
  label that is not there.\<close>

definition select_columns :: "string list \<Rightarrow> frame \<Rightarrow> error + frame" where
  "select_columns names df =
     andThen (apply_rows (get_column df) names) (\<lambda>cs.
       Inr \<lparr>nrows = nrows df, cols = zip names cs\<rparr>)"

definition fill_cell :: "string \<Rightarrow> cell \<Rightarrow> cell" where
  "fill_cell v x = (if isna x then Str v else x)"

definition fillna :: "string \<Rightarrow> frame \<Rightarrow> frame" where
  "fillna v df = df\<lparr>cols := map (\<lambda>(n, c). (n, map (fill_cell v) c)) (cols df)\<rparr>"

subsection \<open>The pipeline between loading and export\<close>

text \<open>The data quality summary of lines 65 to 80 only reads the frames and prints.\<close>

definition prepare :: "dataset \<Rightarrow> error + dataset" where
  "prepare d =
     andThen (replace_deleted_storage_level (storage d)) (\<lambda>st.
     andThen (fill_typecode (materials d)) (\<lambda>ma.
     andThen (pad_plant (plants d)) (\<lambda>pl.
     andThen (pad_plant st) (\<lambda>st'.
       Inr \<lparr>materials = clean_frame ma,
            plants = clean_frame pl,
            storage = clean_frame st',
            suppliers = clean_frame (suppliers d),
            supplier_names = clean_frame (supplier_names d),
            manufacturer_names = clean_frame (manufacturer_names d)\<rparr>))))"

definition step1 :: "dataset \<Rightarrow> error + frame" where
  "step1 p =
     andThen (merge_left (materials p) (manufacturer_names p) [''ManufacturerID''])
       (drop_column ''ManufacturerID'')"

definition step2 :: "dataset \<Rightarrow> frame \<Rightarrow> error + frame" where
  "step2 p result = merge_left result (plants p) [''MaterialReference'']"

definition step3 :: "dataset \<Rightarrow> frame \<Rightarrow> error + frame" where
  "step3 p result = merge_left result (suppliers p) [''MaterialReference'']"

definition step4 :: "dataset \<Rightarrow> frame \<Rightarrow> error + frame" where
  "step4 p result =
     andThen (merge_left result (supplier_names p) [''SupplierID''])
       (drop_column ''SupplierID'')"

definition step5 :: "dataset \<Rightarrow> frame \<Rightarrow> error + frame" where
  "step5 p result = merge_left result (storage p) [''MaterialReference'', ''Plant'']"

definition aggregate :: "dataset \<Rightarrow> error + frame" where
  "aggregate p =
     andThen (step1 p) (\<lambda>r1.
     andThen (step2 p r1) (\<lambda>r2.
     andThen (step3 p r2) (\<lambda>r3.
     andThen (step4 p r3) (\<lambda>r4.
       step5 p r4))))"

definition joined :: "dataset \<Rightarrow> error + frame" where
  "joined d = andThen (andThen (prepare d) aggregate) (select_columns output_columns)"

definition transform :: "dataset \<Rightarrow> error + frame" where
  "transform d = andThen (joined d) (\<lambda>r. Inr (fillna ''N/A'' r))"

subsection \<open>Loading, export and the exit status (lines 29 to 50 and 246 to 257)\<close>

text \<open>
  What the outside world decides: for each of the six files whether \<^verbatim>\<open>read_excel\<close>
  returns a frame or raises (\<^verbatim>\<open>FileNotFoundError\<close>, or any other exception, each with
  its message), and whether writing \<^verbatim>\<open>result.xlsx\<close> raises.
\<close>

datatype load_failure = FileNotFound string | OtherFailure string

record sources =
  materials_file :: "load_failure + frame"
  plants_file :: "load_failure + frame"
  storage_file :: "load_failure + frame"
  suppliers_file :: "load_failure + frame"
  supplier_names_file :: "load_failure + frame"
  manufacturer_names_file :: "load_failure + frame"
  export_failure :: "string option"

text \<open>The dictionary literal reads the files in the order written; the first exception
  leaves the \<^verbatim>\<open>try\<close> block.\<close>

definition load :: "sources \<Rightarrow> load_failure + dataset" where
  "load w =
     (case materials_file w of Inl e \<Rightarrow> Inl e | Inr ma \<Rightarrow>
     (case plants_file w of Inl e \<Rightarrow> Inl e | Inr pl \<Rightarrow>
     (case storage_file w of Inl e \<Rightarrow> Inl e | Inr st \<Rightarrow>
     (case suppliers_file w of Inl e \<Rightarrow> Inl e | Inr su \<Rightarrow>
     (case supplier_names_file w of Inl e \<Rightarrow> Inl e | Inr sn \<Rightarrow>
     (case manufacturer_names_file w of Inl e \<Rightarrow> Inl e | Inr mn \<Rightarrow>
        Inr \<lparr>materials = ma, plants = pl, storage = st, suppliers = su,
             supplier_names = sn, manufacturer_names = mn\<rparr>))))))"

text \<open>
  What a run leaves behind: the exit status of the process, the messages logged at level
  \<^verbatim>\<open>ERROR\<close>, the error lines printed to the console, and the table written to
  \<^verbatim>\<open>result.xlsx\<close>, if any. Progress lines and timings are not modelled.
\<close>

record outcome =
  exit_status :: int
  logged_errors :: "string list"
  console_errors :: "string list"
  written :: "frame option"

fun load_aborted :: "load_failure \<Rightarrow> outcome" where
  "load_aborted (FileNotFound msg) =
     \<lparr>exit_status = 1, logged_errors = [''File not found: '' @ msg],
      console_errors = [''Error: '' @ msg], written = None\<rparr>"
| "load_aborted (OtherFailure msg) =
     \<lparr>exit_status = 1, logged_errors = [''An unexpected error occurred: '' @ msg],
      console_errors = [''Error: '' @ msg], written = None\<rparr>"

text \<open>An exception between loading and export is not caught: the interpreter prints the
  traceback and ends with status 1. A failed export is caught, logged and echoed, and
  ends the run with status 1 as well; a completed run ends with status 0.\<close>

definition uncaught :: "error \<Rightarrow> outcome" where
  "uncaught e = \<lparr>exit_status = 1, logged_errors = [], console_errors = [], written = None\<rparr>"

definition export :: "string option \<Rightarrow> frame \<Rightarrow> outcome" where
  "export failure result =
     (case failure of
        Some msg \<Rightarrow>
          \<lparr>exit_status = 1, logged_errors = [''Error exporting to Excel: '' @ msg],
           console_errors = [''Error exporting to Excel: '' @ msg], written = None\<rparr>
      | None \<Rightarrow>
          \<lparr>exit_status = 0, logged_errors = [], console_errors = [], written = Some result\<rparr>)"

definition run :: "sources \<Rightarrow> outcome" where
  "run w =
     (case load w of
        Inl e \<Rightarrow> load_aborted e
      | Inr d \<Rightarrow>
          (case transform d of
             Inl e \<Rightarrow> uncaught e
           | Inr result \<Rightarrow> export (export_failure w) result))"

definition source_files :: "sources \<Rightarrow> (load_failure + frame) list" where
  "source_files w =
     [materials_file w, plants_file w, storage_file w, suppliers_file w,
      supplier_names_file w, manufacturer_names_file w]"

subsection \<open>The tables of the data model\<close>

text \<open>
  The labels the script reads, placed in the six sheets as the data model places them.
  Statements that follow one column through the joins are made for frames with these
  labels.
\<close>

definition schema :: "dataset \<Rightarrow> bool" where
  "schema d =
    (column_names (materials d) =
       [''MaterialReference'', ''ManufacturerID'', ''ArticleNumber'', ''TypeCode'', ''ShortText''] \<and>
     column_names (manufacturer_names d) = [''ManufacturerID'', ''ManufacturerName''] \<and>
     column_names (plants d) =
       [''MaterialReference'', ''Plant'', ''Disposition'', ''ReporderPoint''] \<and>
     column_names (suppliers d) =
       [''MaterialReference'', ''SupplierID'', ''SupplierArticleNumber''] \<and>
     column_names (supplier_names d) = [''SupplierID'', ''SupplierName''] \<and>
     column_names (storage d) =
       [''MaterialReference'', ''Plant'', ''StorageLocation'', ''StorageBin'',
        ''DeletedStorageLevel''])"

definition wf_dataset :: "dataset \<Rightarrow> bool" where
  "wf_dataset d =
    (wf_frame (materials d) \<and> wf_frame (plants d) \<and> wf_frame (storage d) \<and>
     wf_frame (suppliers d) \<and> wf_frame (supplier_names d) \<and> wf_frame (manufacturer_names d))"

subsection \<open>Sample tables\<close>

definition sample_materials :: frame where
  "sample_materials =
     \<lparr>nrows = 1,
      cols = [(''MaterialReference'', [Str ''ABC123XY'']), (''ManufacturerID'', [Str ''MF1'']),
              (''ArticleNumber'', [Str ''A-1'']), (''TypeCode'', [NA]),
              (''ShortText'', [Str ''Bolt''])]\<rparr>"

definition sample_materials_filled :: frame where
  "sample_materials_filled =
     \<lparr>nrows = 1,
      cols = [(''MaterialReference'', [Str ''ABC123XY'']), (''ManufacturerID'', [Str ''MF1'']),
              (''ArticleNumber'', [Str ''A-1'']), (''TypeCode'', [Str ''TC00000000XY'']),
              (''ShortText'', [Str ''Bolt''])]\<rparr>"

definition sample_manufacturer_names :: frame where
  "sample_manufacturer_names =
     \<lparr>nrows = 1,
      cols = [(''ManufacturerID'', [Str ''MF1'']), (''ManufacturerName'', [Str ''Acme''])]\<rparr>"

text \<open>A materials sheet with a row that has neither a type code nor a reference.\<close>

definition unreferenced_materials :: frame where
  "unreferenced_materials =
     \<lparr>nrows = 2,
      cols = [(''MaterialReference'', [Str ''M1'', NA]), (''ManufacturerID'', [Str ''MF1'', Str ''MF1'']),
              (''ArticleNumber'', [Str ''A-1'', Str ''A-2'']), (''TypeCode'', [Str ''T1'', NA]),
              (''ShortText'', [Str ''Bolt'', Str ''Nut''])]\<rparr>"

definition empty_frame :: "string list \<Rightarrow> frame" where
  "empty_frame names = \<lparr>nrows = 0, cols = map (\<lambda>n. (n, [])) names\<rparr>"

definition failure_message :: "load_failure \<Rightarrow> string" where
  "failure_message e = (case e of FileNotFound msg \<Rightarrow> msg | OtherFailure msg \<Rightarrow> msg)"

text \<open>A run in which the third file is missing.\<close>

definition missing_storage :: sources where
  "missing_storage =
     \<lparr>materials_file = Inr sample_materials,
      plants_file = Inr (empty_frame [''MaterialReference'', ''Plant'', ''Disposition'', ''ReporderPoint'']),
      storage_file = Inl (FileNotFound ''storage.xlsx''),
      suppliers_file = Inr (empty_frame [''MaterialReference'', ''SupplierID'', ''SupplierArticleNumber'']),
      supplier_names_file = Inr (empty_frame [''SupplierID'', ''SupplierName'']),
      manufacturer_names_file = Inr sample_manufacturer_names,
      export_failure = None\<rparr>"

text \<open>A run that loads the six sheets, with that materials sheet and no other rows.\<close>

definition unreferenced_dataset :: dataset where
  "unreferenced_dataset =
     \<lparr>materials = unreferenced_materials,
      plants = empty_frame [''MaterialReference'', ''Plant'', ''Disposition'', ''ReporderPoint''],
      storage = empty_frame [''MaterialReference'', ''Plant'', ''StorageLocation'', ''StorageBin'',
                             ''DeletedStorageLevel''],
      suppliers = empty_frame [''MaterialReference'', ''SupplierID'', ''SupplierArticleNumber''],
      supplier_names = empty_frame [''SupplierID'', ''SupplierName''],
      manufacturer_names = sample_manufacturer_names\<rparr>"

definition unreferenced_run :: sources where
  "unreferenced_run =
     \<lparr>materials_file = Inr (materials unreferenced_dataset),
      plants_file = Inr (plants unreferenced_dataset),
      storage_file = Inr (storage unreferenced_dataset),
      suppliers_file = Inr (suppliers unreferenced_dataset),
      supplier_names_file = Inr (supplier_names unreferenced_dataset),
      manufacturer_names_file = Inr (manufacturer_names unreferenced_dataset),
      export_failure = None\<rparr>"

subsection \<open>Rows with the same key\<close>

text \<open>
  What \<^verbatim>\<open>on=keys\<close> means for two rows, read off the key columns themselves: in every key
  column the two cells are both missing, or the same string, or the same number. The
  partners of a left row are the right rows with the same key.
\<close>

fun number_of :: "cell \<Rightarrow> int option" where
  "number_of (IntV i) = Some i"
| "number_of (FltV f) = Some (float_value f)"
| "number_of _ = None"

fun same_value :: "cell \<Rightarrow> cell \<Rightarrow> bool" where
  "same_value NA y = isna y"
| "same_value (Str s) y = (y = Str s)"
| "same_value (IntV i) y = (number_of y = Some i)"
| "same_value (FltV f) y = (number_of y = Some (float_value f))"

definition same_key :: "frame \<Rightarrow> nat \<Rightarrow> frame \<Rightarrow> nat \<Rightarrow> string list \<Rightarrow> bool" where
  "same_key left i right j keys =
     (\<forall>k \<in> set keys.
        (case get_column left k of
           Inl _ \<Rightarrow> False
         | Inr a \<Rightarrow>
             (case get_column right k of
                Inl _ \<Rightarrow> False
              | Inr b \<Rightarrow> same_value (a ! i) (b ! j))))"

definition partners :: "frame \<Rightarrow> frame \<Rightarrow> string list \<Rightarrow> nat \<Rightarrow> nat set" where
  "partners left right keys i = {j \<in> {..<nrows right}. same_key left i right j keys}"

definition at_most_one_partner :: "frame \<Rightarrow> frame \<Rightarrow> string list \<Rightarrow> bool" where
  "at_most_one_partner left right keys =
     (\<forall>i \<in> {..<nrows left}. card (partners left right keys i) \<le> 1)"

subsection \<open>Joins that match at most one row\<close>

text \<open>The five joins of a run, each with the left side the run has accumulated: none of
  them gives a left row two partners.\<close>

definition unique_matches :: "dataset \<Rightarrow> bool" where
  "unique_matches d =
     (case prepare d of Inl _ \<Rightarrow> False | Inr p \<Rightarrow>
        at_most_one_partner (materials p) (manufacturer_names p) [''ManufacturerID''] \<and>
     (case step1 p of Inl _ \<Rightarrow> False | Inr r1 \<Rightarrow>
        at_most_one_partner r1 (plants p) [''MaterialReference''] \<and>
     (case step2 p r1 of Inl _ \<Rightarrow> False | Inr r2 \<Rightarrow>
        at_most_one_partner r2 (suppliers p) [''MaterialReference''] \<and>
     (case step3 p r2 of Inl _ \<Rightarrow> False | Inr r3 \<Rightarrow>
        at_most_one_partner r3 (supplier_names p) [''SupplierID''] \<and>
     (case step4 p r3 of Inl _ \<Rightarrow> False | Inr r4 \<Rightarrow>
        at_most_one_partner r4 (storage p) [''MaterialReference'', ''Plant''])))))"

subsection \<open>Cells of a frame\<close>

definition rectangular :: "frame \<Rightarrow> bool" where
  "rectangular df = (\<forall>c \<in> set (cols df). length (snd c) = nrows df)"

definition cells :: "frame \<Rightarrow> cell set" where
  "cells df = (\<Union>c \<in> set (cols df). set (snd c))"

text \<open>The representations of a missing value other than the sentinel: the empty string,
  the string \<^verbatim>\<open>nan\<close>, and a string of whitespace only.\<close>

fun null_text :: "cell \<Rightarrow> bool" where
  "null_text (Str s) = (s = [] \<or> s = ''nan'' \<or> list_all is_space s)"
| "null_text _ = False"

subsection \<open>The last join\<close>

text \<open>The pairs of row numbers that the join with the storage sheet produces: the row of
  the table accumulated so far, and the storage row joined to it, if any. The rows of the
  export are in this order.\<close>

definition storage_indexer :: "dataset \<Rightarrow> error + (nat \<times> nat option) list" where
  "storage_indexer d =
     andThen (prepare d) (\<lambda>p.
     andThen (step1 p) (\<lambda>r1.
     andThen (step2 p r1) (\<lambda>r2.
     andThen (step3 p r2) (\<lambda>r3.
     andThen (step4 p r3) (\<lambda>r4.
       merge_indexer r4 (storage p) [''MaterialReference'', ''Plant''])))))"

subsection \<open>Sample runs\<close>

text \<open>Six sheets with one row each. The plant of the material is missing in the plants
  sheet and in the storage sheet, and the storage level is a single space.\<close>

definition sample_dataset :: dataset where
  "sample_dataset =
     \<lparr>materials =
        \<lparr>nrows = 1,
          cols = [(''MaterialReference'', [Str ''ABC123XY'']), (''ManufacturerID'', [Str ''MF1'']),
                 (''ArticleNumber'', [Str ''A-1'']), (''TypeCode'', [NA]),
                 (''ShortText'', [Str ''Bolt''])]\<rparr>,
      plants =
        \<lparr>nrows = 1,
          cols = [(''MaterialReference'', [Str ''ABC123XY'']), (''Plant'', [NA]),
                 (''Disposition'', [Str ''D1'']), (''ReporderPoint'', [IntV 5])]\<rparr>,
      storage =
        \<lparr>nrows = 1,
          cols = [(''MaterialReference'', [Str ''ABC123XY'']), (''Plant'', [NA]),
                 (''StorageLocation'', [Str ''L1'']), (''StorageBin'', [Str ''B1'']),
                 (''DeletedStorageLevel'', [Str '' ''])]\<rparr>,
      suppliers =
        \<lparr>nrows = 1,
          cols = [(''MaterialReference'', [Str ''ABC123XY'']), (''SupplierID'', [Str ''S1'']),
                 (''SupplierArticleNumber'', [Str ''SA-1''])]\<rparr>,
      supplier_names =
        \<lparr>nrows = 1,
          cols = [(''SupplierID'', [Str ''S1'']), (''SupplierName'', [Str ''Sup''])]\<rparr>,
      manufacturer_names =
        \<lparr>nrows = 1,
          cols = [(''ManufacturerID'', [Str ''MF1'']), (''ManufacturerName'', [Str ''Acme''])]\<rparr>\<rparr>"

definition sample_dataset_prepared :: dataset where
  "sample_dataset_prepared =
     \<lparr>materials =
        \<lparr>nrows = 1,
          cols = [(''MaterialReference'', [Str ''ABC123XY'']), (''ManufacturerID'', [Str ''MF1'']),
                 (''ArticleNumber'', [Str ''A-1'']), (''TypeCode'', [Str ''TC00000000XY'']),
                 (''ShortText'', [Str ''Bolt''])]\<rparr>,
      plants =
        \<lparr>nrows = 1,
          cols = [(''MaterialReference'', [Str ''ABC123XY'']), (''Plant'', [Str ''0nan'']),
                 (''Disposition'', [Str ''D1'']), (''ReporderPoint'', [IntV 5])]\<rparr>,
      storage =
        \<lparr>nrows = 1,
          cols = [(''MaterialReference'', [Str ''ABC123XY'']), (''Plant'', [Str ''0nan'']),
                 (''StorageLocation'', [Str ''L1'']), (''StorageBin'', [Str ''B1'']),
                 (''DeletedStorageLevel'', [Str ''ACTIVE''])]\<rparr>,
      suppliers =
        \<lparr>nrows = 1,
          cols = [(''MaterialReference'', [Str ''ABC123XY'']), (''SupplierID'', [Str ''S1'']),
                 (''SupplierArticleNumber'', [Str ''SA-1''])]\<rparr>,
      supplier_names =
        \<lparr>nrows = 1,
          cols = [(''SupplierID'', [Str ''S1'']), (''SupplierName'', [Str ''Sup''])]\<rparr>,
      manufacturer_names =
        \<lparr>nrows = 1,
          cols = [(''ManufacturerID'', [Str ''MF1'']), (''ManufacturerName'', [Str ''Acme''])]\<rparr>\<rparr>"

definition sample_dataset_step1 :: frame where
  "sample_dataset_step1 =
     \<lparr>nrows = 1,
       cols = [(''MaterialReference'', [Str ''ABC123XY'']), (''ArticleNumber'', [Str ''A-1'']),
              (''TypeCode'', [Str ''TC00000000XY'']), (''ShortText'', [Str ''Bolt'']),
              (''ManufacturerName'', [Str ''Acme''])]\<rparr>"

definition sample_dataset_step2 :: frame where
  "sample_dataset_step2 =
     \<lparr>nrows = 1,
       cols = [(''MaterialReference'', [Str ''ABC123XY'']), (''ArticleNumber'', [Str ''A-1'']),
              (''TypeCode'', [Str ''TC00000000XY'']), (''ShortText'', [Str ''Bolt'']),
              (''ManufacturerName'', [Str ''Acme'']), (''Plant'', [Str ''0nan'']),
              (''Disposition'', [Str ''D1'']), (''ReporderPoint'', [IntV 5])]\<rparr>"

definition sample_dataset_step3 :: frame where
  "sample_dataset_step3 =
     \<lparr>nrows = 1,
       cols = [(''MaterialReference'', [Str ''ABC123XY'']), (''ArticleNumber'', [Str ''A-1'']),
              (''TypeCode'', [Str ''TC00000000XY'']), (''ShortText'', [Str ''Bolt'']),
              (''ManufacturerName'', [Str ''Acme'']), (''Plant'', [Str ''0nan'']),
              (''Disposition'', [Str ''D1'']), (''ReporderPoint'', [IntV 5]),
              (''SupplierID'', [Str ''S1'']), (''SupplierArticleNumber'', [Str ''SA-1''])]\<rparr>"

definition sample_dataset_step4 :: frame where
  "sample_dataset_step4 =
     \<lparr>nrows = 1,
       cols = [(''MaterialReference'', [Str ''ABC123XY'']), (''ArticleNumber'', [Str ''A-1'']),
              (''TypeCode'', [Str ''TC00000000XY'']), (''ShortText'', [Str ''Bolt'']),
              (''ManufacturerName'', [Str ''Acme'']), (''Plant'', [Str ''0nan'']),
              (''Disposition'', [Str ''D1'']), (''ReporderPoint'', [IntV 5]),
              (''SupplierArticleNumber'', [Str ''SA-1'']), (''SupplierName'', [Str ''Sup''])]\<rparr>"

definition sample_dataset_step5 :: frame where
  "sample_dataset_step5 =
     \<lparr>nrows = 1,
       cols = [(''MaterialReference'', [Str ''ABC123XY'']), (''ArticleNumber'', [Str ''A-1'']),
              (''TypeCode'', [Str ''TC00000000XY'']), (''ShortText'', [Str ''Bolt'']),
              (''ManufacturerName'', [Str ''Acme'']), (''Plant'', [Str ''0nan'']),
              (''Disposition'', [Str ''D1'']), (''ReporderPoint'', [IntV 5]),
              (''SupplierArticleNumber'', [Str ''SA-1'']), (''SupplierName'', [Str ''Sup'']),
              (''StorageLocation'', [Str ''L1'']), (''StorageBin'', [Str ''B1'']),
              (''DeletedStorageLevel'', [Str ''ACTIVE''])]\<rparr>"

definition sample_dataset_result :: frame where
  "sample_dataset_result =
     \<lparr>nrows = 1,
       cols = [(''MaterialReference'', [Str ''ABC123XY'']), (''ManufacturerName'', [Str ''Acme'']),
              (''ArticleNumber'', [Str ''A-1'']), (''TypeCode'', [Str ''TC00000000XY'']),
              (''ShortText'', [Str ''Bolt'']), (''Plant'', [Str ''0nan'']),
              (''Disposition'', [Str ''D1'']), (''ReporderPoint'', [IntV 5]),
              (''SupplierName'', [Str ''Sup'']), (''SupplierArticleNumber'', [Str ''SA-1'']),
              (''StorageLocation'', [Str ''L1'']), (''StorageBin'', [Str ''B1'']),
              (''DeletedStorageLevel'', [Str ''ACTIVE''])]\<rparr>"

text \<open>The end-to-end scenario: one material \<^verbatim>\<open>M1\<close> of manufacturer \<^verbatim>\<open>MF1\<close> without type code,
  the manufacturer name \<^verbatim>\<open>Acme\<close>, and no row in the plants, suppliers and storage sheets.\<close>

definition scenario :: dataset where
  "scenario =
     \<lparr>materials =
        \<lparr>nrows = 1,
          cols = [(''MaterialReference'', [Str ''M1'']), (''ManufacturerID'', [Str ''MF1'']),
                 (''ArticleNumber'', [Str ''A-1'']), (''TypeCode'', [NA]),
                 (''ShortText'', [Str ''Bolt''])]\<rparr>,
      plants =
        \<lparr>nrows = 0,
          cols = [(''MaterialReference'', []), (''Plant'', []), (''Disposition'', []),
                 (''ReporderPoint'', [])]\<rparr>,
      storage =
        \<lparr>nrows = 0,
          cols = [(''MaterialReference'', []), (''Plant'', []), (''StorageLocation'', []),
                 (''StorageBin'', []), (''DeletedStorageLevel'', [])]\<rparr>,
      suppliers =
        \<lparr>nrows = 0,
          cols = [(''MaterialReference'', []), (''SupplierID'', []), (''SupplierArticleNumber'', [])]\<rparr>,
      supplier_names =
        \<lparr>nrows = 0,
          cols = [(''SupplierID'', []), (''SupplierName'', [])]\<rparr>,
      manufacturer_names =
        \<lparr>nrows = 1,
          cols = [(''ManufacturerID'', [Str ''MF1'']), (''ManufacturerName'', [Str ''Acme''])]\<rparr>\<rparr>"

definition scenario_prepared :: dataset where
  "scenario_prepared =
     \<lparr>materials =
        \<lparr>nrows = 1,
          cols = [(''MaterialReference'', [Str ''M1'']), (''ManufacturerID'', [Str ''MF1'']),
                 (''ArticleNumber'', [Str ''A-1'']), (''TypeCode'', [Str ''TC00000000M1'']),
                 (''ShortText'', [Str ''Bolt''])]\<rparr>,
      plants =
        \<lparr>nrows = 0,
          cols = [(''MaterialReference'', []), (''Plant'', []), (''Disposition'', []),
                 (''ReporderPoint'', [])]\<rparr>,
      storage =
        \<lparr>nrows = 0,
          cols = [(''MaterialReference'', []), (''Plant'', []), (''StorageLocation'', []),
                 (''StorageBin'', []), (''DeletedStorageLevel'', [])]\<rparr>,
      suppliers =
        \<lparr>nrows = 0,
          cols = [(''MaterialReference'', []), (''SupplierID'', []), (''SupplierArticleNumber'', [])]\<rparr>,
      supplier_names =
        \<lparr>nrows = 0,
          cols = [(''SupplierID'', []), (''SupplierName'', [])]\<rparr>,
      manufacturer_names =
        \<lparr>nrows = 1,
          cols = [(''ManufacturerID'', [Str ''MF1'']), (''ManufacturerName'', [Str ''Acme''])]\<rparr>\<rparr>"

definition scenario_step1 :: frame where
  "scenario_step1 =
     \<lparr>nrows = 1,
       cols = [(''MaterialReference'', [Str ''M1'']), (''ArticleNumber'', [Str ''A-1'']),
              (''TypeCode'', [Str ''TC00000000M1'']), (''ShortText'', [Str ''Bolt'']),
              (''ManufacturerName'', [Str ''Acme''])]\<rparr>"

definition scenario_step2 :: frame where
  "scenario_step2 =
     \<lparr>nrows = 1,
       cols = [(''MaterialReference'', [Str ''M1'']), (''ArticleNumber'', [Str ''A-1'']),
              (''TypeCode'', [Str ''TC00000000M1'']), (''ShortText'', [Str ''Bolt'']),
              (''ManufacturerName'', [Str ''Acme'']), (''Plant'', [NA]), (''Disposition'', [NA]),
              (''ReporderPoint'', [NA])]\<rparr>"

definition scenario_step3 :: frame where
  "scenario_step3 =
     \<lparr>nrows = 1,
       cols = [(''MaterialReference'', [Str ''M1'']), (''ArticleNumber'', [Str ''A-1'']),
              (''TypeCode'', [Str ''TC00000000M1'']), (''ShortText'', [Str ''Bolt'']),
              (''ManufacturerName'', [Str ''Acme'']), (''Plant'', [NA]), (''Disposition'', [NA]),
              (''ReporderPoint'', [NA]), (''SupplierID'', [NA]), (''SupplierArticleNumber'', [NA])]\<rparr>"

definition scenario_step4 :: frame where
  "scenario_step4 =
     \<lparr>nrows = 1,
       cols = [(''MaterialReference'', [Str ''M1'']), (''ArticleNumber'', [Str ''A-1'']),
              (''TypeCode'', [Str ''TC00000000M1'']), (''ShortText'', [Str ''Bolt'']),
              (''ManufacturerName'', [Str ''Acme'']), (''Plant'', [NA]), (''Disposition'', [NA]),
              (''ReporderPoint'', [NA]), (''SupplierArticleNumber'', [NA]),
              (''SupplierName'', [NA])]\<rparr>"

definition scenario_step5 :: frame where
  "scenario_step5 =
     \<lparr>nrows = 1,
       cols = [(''MaterialReference'', [Str ''M1'']), (''ArticleNumber'', [Str ''A-1'']),
              (''TypeCode'', [Str ''TC00000000M1'']), (''ShortText'', [Str ''Bolt'']),
              (''ManufacturerName'', [Str ''Acme'']), (''Plant'', [NA]), (''Disposition'', [NA]),
              (''ReporderPoint'', [NA]), (''SupplierArticleNumber'', [NA]),
              (''SupplierName'', [NA]), (''StorageLocation'', [NA]), (''StorageBin'', [NA]),
              (''DeletedStorageLevel'', [NA])]\<rparr>"

definition scenario_result :: frame where
  "scenario_result =
     \<lparr>nrows = 1,
       cols = [(''MaterialReference'', [Str ''M1'']), (''ManufacturerName'', [Str ''Acme'']),
              (''ArticleNumber'', [Str ''A-1'']), (''TypeCode'', [Str ''TC00000000M1'']),
              (''ShortText'', [Str ''Bolt'']), (''Plant'', [Str ''N/A'']),
              (''Disposition'', [Str ''N/A'']), (''ReporderPoint'', [Str ''N/A'']),
              (''SupplierName'', [Str ''N/A'']), (''SupplierArticleNumber'', [Str ''N/A'']),
              (''StorageLocation'', [Str ''N/A'']), (''StorageBin'', [Str ''N/A'']),
              (''DeletedStorageLevel'', [Str ''N/A''])]\<rparr>"

text \<open>A material whose plant is the number 12345.\<close>

definition long_plant :: dataset where
  "long_plant =
     \<lparr>materials =
        \<lparr>nrows = 1,
          cols = [(''MaterialReference'', [Str ''M1'']), (''ManufacturerID'', [Str ''MF1'']),
                 (''ArticleNumber'', [Str ''A-1'']), (''TypeCode'', [Str ''T1'']),
                 (''ShortText'', [Str ''Bolt''])]\<rparr>,
      plants =
        \<lparr>nrows = 1,
          cols = [(''MaterialReference'', [Str ''M1'']), (''Plant'', [IntV 12345]),
                 (''Disposition'', [Str ''D1'']), (''ReporderPoint'', [IntV 5])]\<rparr>,
      storage =
        \<lparr>nrows = 0,
          cols = [(''MaterialReference'', []), (''Plant'', []), (''StorageLocation'', []),
                 (''StorageBin'', []), (''DeletedStorageLevel'', [])]\<rparr>,
      suppliers =
        \<lparr>nrows = 0,
          cols = [(''MaterialReference'', []), (''SupplierID'', []), (''SupplierArticleNumber'', [])]\<rparr>,
      supplier_names =
        \<lparr>nrows = 0,
          cols = [(''SupplierID'', []), (''SupplierName'', [])]\<rparr>,
      manufacturer_names =
        \<lparr>nrows = 1,
          cols = [(''ManufacturerID'', [Str ''MF1'']), (''ManufacturerName'', [Str ''Acme''])]\<rparr>\<rparr>"

definition long_plant_prepared :: dataset where
  "long_plant_prepared =
     \<lparr>materials =
        \<lparr>nrows = 1,
          cols = [(''MaterialReference'', [Str ''M1'']), (''ManufacturerID'', [Str ''MF1'']),
                 (''ArticleNumber'', [Str ''A-1'']), (''TypeCode'', [Str ''T1'']),
                 (''ShortText'', [Str ''Bolt''])]\<rparr>,
      plants =
        \<lparr>nrows = 1,
          cols = [(''MaterialReference'', [Str ''M1'']), (''Plant'', [Str ''12345'']),
                 (''Disposition'', [Str ''D1'']), (''ReporderPoint'', [IntV 5])]\<rparr>,
      storage =
        \<lparr>nrows = 0,
          cols = [(''MaterialReference'', []), (''Plant'', []), (''StorageLocation'', []),
                 (''StorageBin'', []), (''DeletedStorageLevel'', [])]\<rparr>,
      suppliers =
        \<lparr>nrows = 0,
          cols = [(''MaterialReference'', []), (''SupplierID'', []), (''SupplierArticleNumber'', [])]\<rparr>,
      supplier_names =
        \<lparr>nrows = 0,
          cols = [(''SupplierID'', []), (''SupplierName'', [])]\<rparr>,
      manufacturer_names =
        \<lparr>nrows = 1,
          cols = [(''ManufacturerID'', [Str ''MF1'']), (''ManufacturerName'', [Str ''Acme''])]\<rparr>\<rparr>"

definition long_plant_step1 :: frame where
  "long_plant_step1 =
     \<lparr>nrows = 1,
       cols = [(''MaterialReference'', [Str ''M1'']), (''ArticleNumber'', [Str ''A-1'']),
              (''TypeCode'', [Str ''T1'']), (''ShortText'', [Str ''Bolt'']),
              (''ManufacturerName'', [Str ''Acme''])]\<rparr>"

definition long_plant_step2 :: frame where
  "long_plant_step2 =
     \<lparr>nrows = 1,
       cols = [(''MaterialReference'', [Str ''M1'']), (''ArticleNumber'', [Str ''A-1'']),
              (''TypeCode'', [Str ''T1'']), (''ShortText'', [Str ''Bolt'']),
              (''ManufacturerName'', [Str ''Acme'']), (''Plant'', [Str ''12345'']),
              (''Disposition'', [Str ''D1'']), (''ReporderPoint'', [IntV 5])]\<rparr>"

definition long_plant_step3 :: frame where
  "long_plant_step3 =
     \<lparr>nrows = 1,
       cols = [(''MaterialReference'', [Str ''M1'']), (''ArticleNumber'', [Str ''A-1'']),
              (''TypeCode'', [Str ''T1'']), (''ShortText'', [Str ''Bolt'']),
              (''ManufacturerName'', [Str ''Acme'']), (''Plant'', [Str ''12345'']),
              (''Disposition'', [Str ''D1'']), (''ReporderPoint'', [IntV 5]),
              (''SupplierID'', [NA]), (''SupplierArticleNumber'', [NA])]\<rparr>"

definition long_plant_step4 :: frame where
  "long_plant_step4 =
     \<lparr>nrows = 1,
       cols = [(''MaterialReference'', [Str ''M1'']), (''ArticleNumber'', [Str ''A-1'']),
              (''TypeCode'', [Str ''T1'']), (''ShortText'', [Str ''Bolt'']),
              (''ManufacturerName'', [Str ''Acme'']), (''Plant'', [Str ''12345'']),
              (''Disposition'', [Str ''D1'']), (''ReporderPoint'', [IntV 5]),
              (''SupplierArticleNumber'', [NA]), (''SupplierName'', [NA])]\<rparr>"

definition long_plant_step5 :: frame where
  "long_plant_step5 =
     \<lparr>nrows = 1,
       cols = [(''MaterialReference'', [Str ''M1'']), (''ArticleNumber'', [Str ''A-1'']),
              (''TypeCode'', [Str ''T1'']), (''ShortText'', [Str ''Bolt'']),
              (''ManufacturerName'', [Str ''Acme'']), (''Plant'', [Str ''12345'']),
              (''Disposition'', [Str ''D1'']), (''ReporderPoint'', [IntV 5]),
              (''SupplierArticleNumber'', [NA]), (''SupplierName'', [NA]),
              (''StorageLocation'', [NA]), (''StorageBin'', [NA]), (''DeletedStorageLevel'', [NA])]\<rparr>"

definition long_plant_result :: frame where
  "long_plant_result =
     \<lparr>nrows = 1,
       cols = [(''MaterialReference'', [Str ''M1'']), (''ManufacturerName'', [Str ''Acme'']),
              (''ArticleNumber'', [Str ''A-1'']), (''TypeCode'', [Str ''T1'']),
              (''ShortText'', [Str ''Bolt'']), (''Plant'', [Str ''12345'']),
              (''Disposition'', [Str ''D1'']), (''ReporderPoint'', [IntV 5]),
              (''SupplierName'', [Str ''N/A'']), (''SupplierArticleNumber'', [Str ''N/A'']),
              (''StorageLocation'', [Str ''N/A'']), (''StorageBin'', [Str ''N/A'']),
              (''DeletedStorageLevel'', [Str ''N/A''])]\<rparr>"

text \<open>The scenario with rows of another material \<^verbatim>\<open>M2\<close> in the plants, suppliers and
  storage sheets.\<close>

definition scenario_with_other_rows :: dataset where
  "scenario_with_other_rows =
     \<lparr>materials =
        \<lparr>nrows = 1,
         cols = [(''MaterialReference'', [Str ''M1'']), (''ManufacturerID'', [Str ''MF1'']),
                 (''ArticleNumber'', [Str ''A-1'']), (''TypeCode'', [NA]),
                 (''ShortText'', [Str ''Bolt''])]\<rparr>,
      plants =
        \<lparr>nrows = 1,
         cols = [(''MaterialReference'', [Str ''M2'']), (''Plant'', [IntV 7]),
                 (''Disposition'', [Str ''D1'']), (''ReporderPoint'', [IntV 5])]\<rparr>,
      storage =
        \<lparr>nrows = 1,
         cols = [(''MaterialReference'', [Str ''M2'']), (''Plant'', [IntV 7]),
                 (''StorageLocation'', [Str ''L1'']), (''StorageBin'', [Str ''B1'']),
                 (''DeletedStorageLevel'', [Str '' ''])]\<rparr>,
      suppliers =
        \<lparr>nrows = 1,
         cols = [(''MaterialReference'', [Str ''M2'']), (''SupplierID'', [Str ''S1'']),
                 (''SupplierArticleNumber'', [Str ''SA-1''])]\<rparr>,
      supplier_names =
        \<lparr>nrows = 1,
         cols = [(''SupplierID'', [Str ''S1'']), (''SupplierName'', [Str ''Sup''])]\<rparr>,
      manufacturer_names =
        \<lparr>nrows = 1,
         cols = [(''ManufacturerID'', [Str ''MF1'']), (''ManufacturerName'', [Str ''Acme''])]\<rparr>\<rparr>"

subsection \<open>A run in which a join fans out\<close>

text \<open>A material that is kept in two plants, 7 and 42, and stored in the first of them.\<close>

definition two_plants :: dataset where
  "two_plants =
     \<lparr>materials =
        \<lparr>nrows = 1,
          cols = [(''MaterialReference'', [Str ''M1'']), (''ManufacturerID'', [Str ''MF1'']),
                 (''ArticleNumber'', [Str ''A-1'']), (''TypeCode'', [Str ''T1'']),
                 (''ShortText'', [Str ''Bolt''])]\<rparr>,
      plants =
        \<lparr>nrows = 2,
          cols = [(''MaterialReference'', [Str ''M1'', Str ''M1'']), (''Plant'', [IntV 7, IntV 42]),
                 (''Disposition'', [Str ''D1'', Str ''D2'']), (''ReporderPoint'', [IntV 5, IntV 9])]\<rparr>,
      storage =
        \<lparr>nrows = 1,
          cols = [(''MaterialReference'', [Str ''M1'']), (''Plant'', [IntV 7]),
                 (''StorageLocation'', [Str ''L1'']), (''StorageBin'', [Str ''B1'']),
                 (''DeletedStorageLevel'', [Str '' ''])]\<rparr>,
      suppliers =
        \<lparr>nrows = 0,
          cols = [(''MaterialReference'', []), (''SupplierID'', []), (''SupplierArticleNumber'', [])]\<rparr>,
      supplier_names =
        \<lparr>nrows = 0,
          cols = [(''SupplierID'', []), (''SupplierName'', [])]\<rparr>,
      manufacturer_names =
        \<lparr>nrows = 1,
          cols = [(''ManufacturerID'', [Str ''MF1'']), (''ManufacturerName'', [Str ''Acme''])]\<rparr>\<rparr>"

definition two_plants_prepared :: dataset where
  "two_plants_prepared =
     \<lparr>materials =
        \<lparr>nrows = 1,
          cols = [(''MaterialReference'', [Str ''M1'']), (''ManufacturerID'', [Str ''MF1'']),
                 (''ArticleNumber'', [Str ''A-1'']), (''TypeCode'', [Str ''T1'']),
                 (''ShortText'', [Str ''Bolt''])]\<rparr>,
      plants =
        \<lparr>nrows = 2,
          cols = [(''MaterialReference'', [Str ''M1'', Str ''M1'']),
                 (''Plant'', [Str ''0007'', Str ''0042'']),
                 (''Disposition'', [Str ''D1'', Str ''D2'']), (''ReporderPoint'', [IntV 5, IntV 9])]\<rparr>,
      storage =
        \<lparr>nrows = 1,
          cols = [(''MaterialReference'', [Str ''M1'']), (''Plant'', [Str ''0007'']),
                 (''StorageLocation'', [Str ''L1'']), (''StorageBin'', [Str ''B1'']),
                 (''DeletedStorageLevel'', [Str ''ACTIVE''])]\<rparr>,
      suppliers =
        \<lparr>nrows = 0,
          cols = [(''MaterialReference'', []), (''SupplierID'', []), (''SupplierArticleNumber'', [])]\<rparr>,
      supplier_names =
        \<lparr>nrows = 0,
          cols = [(''SupplierID'', []), (''SupplierName'', [])]\<rparr>,
      manufacturer_names =
        \<lparr>nrows = 1,
          cols = [(''ManufacturerID'', [Str ''MF1'']), (''ManufacturerName'', [Str ''Acme''])]\<rparr>\<rparr>"

definition two_plants_step1 :: frame where
  "two_plants_step1 =
     \<lparr>nrows = 1,
       cols = [(''MaterialReference'', [Str ''M1'']), (''ArticleNumber'', [Str ''A-1'']),
              (''TypeCode'', [Str ''T1'']), (''ShortText'', [Str ''Bolt'']),
              (''ManufacturerName'', [Str ''Acme''])]\<rparr>"

definition two_plants_step2 :: frame where
  "two_plants_step2 =
     \<lparr>nrows = 2,
       cols = [(''MaterialReference'', [Str ''M1'', Str ''M1'']),
              (''ArticleNumber'', [Str ''A-1'', Str ''A-1'']),
              (''TypeCode'', [Str ''T1'', Str ''T1'']),
              (''ShortText'', [Str ''Bolt'', Str ''Bolt'']),
              (''ManufacturerName'', [Str ''Acme'', Str ''Acme'']),
              (''Plant'', [Str ''0007'', Str ''0042'']),
              (''Disposition'', [Str ''D1'', Str ''D2'']), (''ReporderPoint'', [IntV 5, IntV 9])]\<rparr>"

definition two_plants_step3 :: frame where
  "two_plants_step3 =
     \<lparr>nrows = 2,
       cols = [(''MaterialReference'', [Str ''M1'', Str ''M1'']),
              (''ArticleNumber'', [Str ''A-1'', Str ''A-1'']),
              (''TypeCode'', [Str ''T1'', Str ''T1'']),
              (''ShortText'', [Str ''Bolt'', Str ''Bolt'']),
              (''ManufacturerName'', [Str ''Acme'', Str ''Acme'']),
              (''Plant'', [Str ''0007'', Str ''0042'']),
              (''Disposition'', [Str ''D1'', Str ''D2'']), (''ReporderPoint'', [IntV 5, IntV 9]),
              (''SupplierID'', [NA, NA]), (''SupplierArticleNumber'', [NA, NA])]\<rparr>"

definition two_plants_step4 :: frame where
  "two_plants_step4 =
     \<lparr>nrows = 2,
       cols = [(''MaterialReference'', [Str ''M1'', Str ''M1'']),
              (''ArticleNumber'', [Str ''A-1'', Str ''A-1'']),
              (''TypeCode'', [Str ''T1'', Str ''T1'']),
              (''ShortText'', [Str ''Bolt'', Str ''Bolt'']),
              (''ManufacturerName'', [Str ''Acme'', Str ''Acme'']),
              (''Plant'', [Str ''0007'', Str ''0042'']),
              (''Disposition'', [Str ''D1'', Str ''D2'']), (''ReporderPoint'', [IntV 5, IntV 9]),
              (''SupplierArticleNumber'', [NA, NA]), (''SupplierName'', [NA, NA])]\<rparr>"

definition two_plants_step5 :: frame where
  "two_plants_step5 =
     \<lparr>nrows = 2,
       cols = [(''MaterialReference'', [Str ''M1'', Str ''M1'']),
              (''ArticleNumber'', [Str ''A-1'', Str ''A-1'']),
              (''TypeCode'', [Str ''T1'', Str ''T1'']),
              (''ShortText'', [Str ''Bolt'', Str ''Bolt'']),
              (''ManufacturerName'', [Str ''Acme'', Str ''Acme'']),
              (''Plant'', [Str ''0007'', Str ''0042'']),
              (''Disposition'', [Str ''D1'', Str ''D2'']), (''ReporderPoint'', [IntV 5, IntV 9]),
              (''SupplierArticleNumber'', [NA, NA]), (''SupplierName'', [NA, NA]),
              (''StorageLocation'', [Str ''L1'', NA]), (''StorageBin'', [Str ''B1'', NA]),
              (''DeletedStorageLevel'', [Str ''ACTIVE'', NA])]\<rparr>"

definition two_plants_result :: frame where
  "two_plants_result =
     \<lparr>nrows = 2,
       cols = [(''MaterialReference'', [Str ''M1'', Str ''M1'']),
              (''ManufacturerName'', [Str ''Acme'', Str ''Acme'']),
              (''ArticleNumber'', [Str ''A-1'', Str ''A-1'']),
              (''TypeCode'', [Str ''T1'', Str ''T1'']),
              (''ShortText'', [Str ''Bolt'', Str ''Bolt'']),
              (''Plant'', [Str ''0007'', Str ''0042'']),
              (''Disposition'', [Str ''D1'', Str ''D2'']), (''ReporderPoint'', [IntV 5, IntV 9]),
              (''SupplierName'', [Str ''N/A'', Str ''N/A'']),
              (''SupplierArticleNumber'', [Str ''N/A'', Str ''N/A'']),
              (''StorageLocation'', [Str ''L1'', Str ''N/A'']),
              (''StorageBin'', [Str ''B1'', Str ''N/A'']),
              (''DeletedStorageLevel'', [Str ''ACTIVE'', Str ''N/A''])]\<rparr>"

section \<open>Properties\<close>

subsection \<open>Results and errors\<close>

lemma andThen_Inr_iff: "andThen m f = Inr y \<longleftrightarrow> (\<exists>x. m = Inr x \<and> f x = Inr y)"
  by (cases m) (simp_all add: andThen_def)

lemma andThen_Inl_iff: "andThen m f = Inl e \<longleftrightarrow> (m = Inl e \<or> (\<exists>x. m = Inr x \<and> f x = Inl e))"
  by (cases m) (simp_all add: andThen_def)

lemma andThen_simps [simp]: "andThen (Inl e) f = Inl e" "andThen (Inr x) f = f x"
  by (simp_all add: andThen_def)

lemma apply_rows_Inr:
  "apply_rows f xs = Inr ys \<Longrightarrow> length ys = length xs \<and> (\<forall>i<length xs. f (xs ! i) = Inr (ys ! i))"
proof (induction xs arbitrary: ys)
  case Nil
  then show ?case by simp
next
  case (Cons x xs)
  from Cons.prems obtain y zs where fx: "f x = Inr y" and rest: "apply_rows f xs = Inr zs" and ys: "ys = y # zs"
    by (auto split: sum.splits)
  from Cons.IH [OF rest] have len: "length zs = length xs" and nth: "\<forall>i<length xs. f (xs ! i) = Inr (zs ! i)"
    by simp_all
  show ?case
  proof (intro conjI allI impI)
    show "length ys = length (x # xs)" using len ys by simp
  next
    fix i assume "i < length (x # xs)"
    then show "f ((x # xs) ! i) = Inr (ys ! i)"
      using fx nth ys by (cases i) simp_all
  qed
qed

lemma apply_rows_Inl: "apply_rows f xs = Inl e \<Longrightarrow> \<exists>x \<in> set xs. f x = Inl e"
  by (induction xs) (auto split: sum.splits)

lemma apply_rows_total:
  "(\<forall>x \<in> set xs. \<exists>y. f x = Inr y) \<Longrightarrow> \<exists>ys. apply_rows f xs = Inr ys"
  by (induction xs) auto

lemma apply_rows_fails:
  assumes "x \<in> set xs" and "f x = Inl e"
  shows "\<exists>e'. apply_rows f xs = Inl e'"
proof (cases "apply_rows f xs")
  case (Inl e')
  then show ?thesis by blast
next
  case (Inr ys)
  from assms(1) obtain i where "i < length xs" and "xs ! i = x"
    by (auto simp: in_set_conv_nth)
  with apply_rows_Inr [OF Inr] assms(2) show ?thesis by auto
qed

subsection \<open>Columns\<close>

lemma map_of_set_column:
  "map_of (map (\<lambda>(n, c). if n = name then (n, v) else (n, c)) xs) k =
     (if k = name then (if name \<in> fst ` set xs then Some v else None) else map_of xs k)"
  by (induction xs) (force split: if_splits)+

lemma get_column_Inr_iff: "get_column df n = Inr c \<longleftrightarrow> map_of (cols df) n = Some c"
  by (simp add: get_column_def split: option.splits)

lemma get_column_set_column:
  "get_column (set_column df name v) k =
     (if k = name then (if name \<in> set (column_names df) then Inr v else Inl (KeyError name))
      else get_column df k)"
  by (simp add: get_column_def set_column_def map_of_set_column column_names_def)

lemma get_column_in_names: "get_column df n = Inr c \<Longrightarrow> n \<in> set (column_names df)"
  by (auto simp: get_column_def column_names_def split: option.splits dest: map_of_SomeD intro: rev_image_eqI)

lemma get_column_length: "wf_frame df \<Longrightarrow> get_column df n = Inr c \<Longrightarrow> length c = nrows df"
  by (auto simp: get_column_def wf_frame_def split: option.splits dest!: map_of_SomeD)

subsection \<open>The type code backfill\<close>

lemma backfill_row_cases:
  "backfill_row mr tc = Inr y \<longleftrightarrow>
     (if isna tc then (\<exists>s. mr = Str s \<and> y = Str (''TC00000000'' @ last_two s)) else y = tc)"
  by (cases mr) (auto simp: backfill_row_def)

lemma backfill_row_error: "backfill_row mr tc = Inl e \<longleftrightarrow> (isna tc \<and> \<not> is_str mr \<and> e = SubscriptError)"
  by (cases mr) (auto simp: backfill_row_def)

lemma last_two_chars: "2 \<le> length s \<Longrightarrow> last_two s = [s ! (length s - 2), s ! (length s - 1)]"
proof -
  assume len: "2 \<le> length s"
  have a: "Suc (length s - 2) = length s - 1" using len by arith
  have "\<forall>i<2. last_two s ! i = [s ! (length s - 2), s ! (length s - 1)] ! i"
    using len a by (auto simp: last_two_def less_Suc_eq numeral_2_eq_2)
  moreover have "length (last_two s) = length [s ! (length s - 2), s ! (length s - 1)]"
    using len by (simp add: last_two_def)
  ultimately show ?thesis by (simp add: list_eq_iff_nth_eq)
qed

lemma fill_typecode_unchanged:
  assumes "fill_typecode m = Inr m'" and "get_column m ''TypeCode'' = Inr tcs"
    and "\<not> (\<exists>t \<in> set tcs. isna t)"
  shows "m' = m"
proof -
  have "nrows m \<noteq> 0" using assms(1) by (auto simp: fill_typecode_def split: if_splits)
  then show ?thesis using assms unfolding fill_typecode_def by simp
qed

lemma fill_typecode_filled:
  assumes "fill_typecode m = Inr m'" and "get_column m ''TypeCode'' = Inr tcs"
    and "get_column m ''MaterialReference'' = Inr mrs"
    and "\<exists>t \<in> set tcs. isna t"
  shows "\<exists>filled. apply_rows (\<lambda>(mr, tc). backfill_row mr tc) (zip mrs tcs) = Inr filled \<and>
           m' = set_column m ''TypeCode'' filled"
proof -
  have "nrows m \<noteq> 0" using assms(1) by (auto simp: fill_typecode_def split: if_splits)
  then have "andThen (apply_rows (\<lambda>(mr, tc). backfill_row mr tc) (zip mrs tcs))
               (\<lambda>filled. Inr (set_column m ''TypeCode'' filled)) = Inr m'"
    using assms unfolding fill_typecode_def by simp
  then show ?thesis by (auto simp: andThen_Inr_iff)
qed


text \<open>
  Claim C4. When the backfill succeeds, the type code of a row that had none is
  \<^verbatim>\<open>TC00000000\<close> followed by the last two characters of the material reference of that
  row, and the type code of any other row is what it was; the reference \<^verbatim>\<open>ABC123XY\<close>
  gives \<^verbatim>\<open>TC00000000XY\<close>.
\<close>

theorem typecode_backfill:
  assumes wf: "wf_frame m"
    and ok: "fill_typecode m = Inr m'"
    and tcs: "get_column m ''TypeCode'' = Inr tcs"
    and mrs: "get_column m ''MaterialReference'' = Inr mrs"
    and i: "i < nrows m"
  shows "\<exists>tcs'. get_column m' ''TypeCode'' = Inr tcs' \<and> length tcs' = nrows m \<and>
           (isna (tcs ! i) \<longrightarrow>
              (\<exists>s. mrs ! i = Str s \<and> tcs' ! i = Str (''TC00000000'' @ last_two s) \<and>
                   (2 \<le> length s \<longrightarrow> last_two s = [s ! (length s - 2), s ! (length s - 1)]))) \<and>
           (\<not> isna (tcs ! i) \<longrightarrow> tcs' ! i = tcs ! i) \<and>
           backfill_row (Str ''ABC123XY'') NA = Inr (Str ''TC00000000XY'')"
proof -
  have ex: "backfill_row (Str ''ABC123XY'') NA = Inr (Str ''TC00000000XY'')"
    by (simp add: backfill_row_def last_two_def)
  have ltcs: "length tcs = nrows m" and lmrs: "length mrs = nrows m"
    using wf tcs mrs by (simp_all add: get_column_length)
  show ?thesis
  proof (cases "\<exists>t \<in> set tcs. isna t")
    case False
    have same: "m' = m" using fill_typecode_unchanged [OF ok tcs False] .
    have "tcs ! i \<in> set tcs" using i ltcs by simp
    then have present: "\<not> isna (tcs ! i)" using False by auto
    show ?thesis
      apply (rule exI [where x = tcs])
      using same tcs ltcs ex present by simp
  next
    case True
    from fill_typecode_filled [OF ok tcs mrs True] obtain filled
      where f: "apply_rows (\<lambda>(mr, tc). backfill_row mr tc) (zip mrs tcs) = Inr filled"
        and m': "m' = set_column m ''TypeCode'' filled"
      by blast
    have iz: "i < length (zip mrs tcs)" using i ltcs lmrs by simp
    from apply_rows_Inr [OF f] have lf: "length filled = length (zip mrs tcs)"
      and all: "\<forall>k<length (zip mrs tcs). (\<lambda>(mr, tc). backfill_row mr tc) (zip mrs tcs ! k) = Inr (filled ! k)"
      by simp_all
    from all iz have "(\<lambda>(mr, tc). backfill_row mr tc) (zip mrs tcs ! i) = Inr (filled ! i)"
      by blast
    then have row: "backfill_row (mrs ! i) (tcs ! i) = Inr (filled ! i)"
      using iz by simp
    have lf': "length filled = nrows m" using lf ltcs lmrs by simp
    have g: "get_column m' ''TypeCode'' = Inr filled"
      using m' get_column_in_names [OF tcs] by (simp add: get_column_set_column)
    have a: "isna (tcs ! i) \<longrightarrow>
              (\<exists>s. mrs ! i = Str s \<and> filled ! i = Str (''TC00000000'' @ last_two s) \<and>
                   (2 \<le> length s \<longrightarrow> last_two s = [s ! (length s - 2), s ! (length s - 1)]))"
    proof
      assume "isna (tcs ! i)"
      with row obtain s where s: "mrs ! i = Str s" "filled ! i = Str (''TC00000000'' @ last_two s)"
        unfolding backfill_row_cases by auto
      show "\<exists>s. mrs ! i = Str s \<and> filled ! i = Str (''TC00000000'' @ last_two s) \<and>
                   (2 \<le> length s \<longrightarrow> last_two s = [s ! (length s - 2), s ! (length s - 1)])"
        using s last_two_chars [of s] by simp
    qed
    have b: "\<not> isna (tcs ! i) \<longrightarrow> filled ! i = tcs ! i"
      using row unfolding backfill_row_cases by auto
    show ?thesis
      by (rule exI [where x = filled]) (intro conjI g lf' a b ex)
  qed
qed


lemma sample_fill: "fill_typecode sample_materials = Inr sample_materials_filled"
  by (simp add: fill_typecode_def sample_materials_def sample_materials_filled_def get_column_def
      set_column_def backfill_row_def last_two_def)

lemma sample_wf: "wf_frame sample_materials"
  by (simp add: wf_frame_def sample_materials_def column_names_def)

text \<open>The theorem at the sample materials sheet, whose only row has no type code.\<close>

theorem typecode_backfill_witness:
  "wf_frame sample_materials \<and>
   fill_typecode sample_materials = Inr sample_materials_filled \<and>
   get_column sample_materials ''TypeCode'' = Inr [NA] \<and>
   get_column sample_materials ''MaterialReference'' = Inr [Str ''ABC123XY''] \<and>
   (0::nat) < nrows sample_materials \<and>
   (\<exists>tcs'. get_column sample_materials_filled ''TypeCode'' = Inr tcs' \<and>
            tcs' ! 0 = Str ''TC00000000XY'')"
proof -
  have tc: "get_column sample_materials ''TypeCode'' = Inr [NA]"
    by (simp add: get_column_def sample_materials_def)
  have mr: "get_column sample_materials ''MaterialReference'' = Inr [Str ''ABC123XY'']"
    by (simp add: get_column_def sample_materials_def)
  have n: "(0::nat) < nrows sample_materials"
    by (simp add: sample_materials_def)
  from typecode_backfill [OF sample_wf sample_fill tc mr n]
  obtain tcs' where g: "get_column sample_materials_filled ''TypeCode'' = Inr tcs'"
    and v: "\<exists>s. [Str ''ABC123XY''] ! 0 = Str s \<and> tcs' ! 0 = Str (''TC00000000'' @ last_two s)"
    by auto
  from v have "tcs' ! 0 = Str (''TC00000000'' @ last_two ''ABC123XY'')" by simp
  then have "tcs' ! 0 = Str ''TC00000000XY''" by (simp add: last_two_def)
  with g have "get_column sample_materials_filled ''TypeCode'' = Inr tcs' \<and> tcs' ! 0 = Str ''TC00000000XY''"
    by simp
  then have "\<exists>tcs'. get_column sample_materials_filled ''TypeCode'' = Inr tcs' \<and> tcs' ! 0 = Str ''TC00000000XY''"
    by (rule exI [where x = tcs'])
  with sample_wf sample_fill tc mr n show ?thesis by simp
qed


subsection \<open>Loading\<close>

lemma load_Inl_iff:
  "(\<exists>e. load w = Inl e) \<longleftrightarrow> (\<exists>f \<in> set (source_files w). isl f)"
  by (cases "materials_file w"; cases "plants_file w"; cases "storage_file w";
      cases "suppliers_file w"; cases "supplier_names_file w"; cases "manufacturer_names_file w")
     (simp_all add: load_def source_files_def)

lemma load_Inl_source: "load w = Inl e \<Longrightarrow> Inl e \<in> set (source_files w)"
  by (cases "materials_file w"; cases "plants_file w"; cases "storage_file w";
      cases "suppliers_file w"; cases "supplier_names_file w"; cases "manufacturer_names_file w")
     (simp_all add: load_def source_files_def)

lemma load_aborted_fields:
  "exit_status (load_aborted e) = 1 \<and> written (load_aborted e) = None \<and>
   logged_errors (load_aborted e) =
     [(case e of FileNotFound msg \<Rightarrow> ''File not found: '' @ msg
              | OtherFailure msg \<Rightarrow> ''An unexpected error occurred: '' @ msg)] \<and>
   console_errors (load_aborted e) = [''Error: '' @ failure_message e]"
  by (cases e) (simp_all add: failure_message_def)

text \<open>
  Claim C7. When one of the six files is missing or fails to load, the run is the
  abort of the first failing file: the error is logged, echoed to the console with the
  prefix \<^verbatim>\<open>Error:\<close>, the exit status is 1 and no file is written, whatever the other
  files hold.
\<close>

theorem load_failure_aborts:
  assumes "\<exists>f \<in> set (source_files w). isl f"
  shows "\<exists>e. load w = Inl e \<and> Inl e \<in> set (source_files w) \<and> run w = load_aborted e \<and>
             exit_status (run w) = 1 \<and> exit_status (run w) \<noteq> 0 \<and> written (run w) = None \<and>
             logged_errors (run w) =
               [(case e of FileNotFound msg \<Rightarrow> ''File not found: '' @ msg
                        | OtherFailure msg \<Rightarrow> ''An unexpected error occurred: '' @ msg)] \<and>
             console_errors (run w) = [''Error: '' @ failure_message e]"
proof -
  from assms obtain e where e: "load w = Inl e" using load_Inl_iff [of w] by blast
  have r: "run w = load_aborted e" using e by (simp add: run_def)
  show ?thesis
    apply (rule exI [where x = e])
    using e r load_Inl_source [OF e] load_aborted_fields [of e] by simp
qed

text \<open>The theorem at the run whose storage file is missing.\<close>

theorem load_failure_aborts_witness:
  "(\<exists>f \<in> set (source_files missing_storage). isl f) \<and>
   run missing_storage =
     \<lparr>exit_status = 1, logged_errors = [''File not found: storage.xlsx''],
      console_errors = [''Error: storage.xlsx''], written = None\<rparr>"
proof -
  have h: "\<exists>f \<in> set (source_files missing_storage). isl f"
    by (simp add: source_files_def missing_storage_def)
  have l: "load missing_storage = Inl (FileNotFound ''storage.xlsx'')"
    by (simp add: load_def missing_storage_def)
  from load_failure_aborts [OF h] obtain e where "load missing_storage = Inl e"
    and r: "run missing_storage = load_aborted e"
    by auto
  with l have "e = FileNotFound ''storage.xlsx''" by simp
  with r have "run missing_storage = load_aborted (FileNotFound ''storage.xlsx'')" by simp
  then show ?thesis using h by simp
qed

subsection \<open>Rows the backfill cannot serve\<close>

lemma fill_typecode_Inr_iff:
  assumes wf: "wf_frame m"
    and tcs: "get_column m ''TypeCode'' = Inr tcs"
    and mrs: "get_column m ''MaterialReference'' = Inr mrs"
  shows "(\<exists>m'. fill_typecode m = Inr m') \<longleftrightarrow>
         (nrows m \<noteq> 0 \<and> (\<forall>i<nrows m. isna (tcs ! i) \<longrightarrow> is_str (mrs ! i)))"
proof
  have ltcs: "length tcs = nrows m" and lmrs: "length mrs = nrows m"
    using wf tcs mrs by (simp_all add: get_column_length)
  {
    assume "\<exists>m'. fill_typecode m = Inr m'"
    then obtain m' where ok: "fill_typecode m = Inr m'" by blast
    have n: "nrows m \<noteq> 0" using ok by (auto simp: fill_typecode_def split: if_splits)
    have "\<forall>i<nrows m. isna (tcs ! i) \<longrightarrow> is_str (mrs ! i)"
    proof (intro allI impI)
      fix i assume i: "i < nrows m" and na: "isna (tcs ! i)"
      have "tcs ! i \<in> set tcs" using i ltcs by simp
      with na have some: "\<exists>t \<in> set tcs. isna t" by blast
      from fill_typecode_filled [OF ok tcs mrs some] obtain filled
        where f: "apply_rows (\<lambda>(mr, tc). backfill_row mr tc) (zip mrs tcs) = Inr filled"
        by blast
      have iz: "i < length (zip mrs tcs)" using i ltcs lmrs by simp
      from apply_rows_Inr [OF f] iz
      have "(\<lambda>(mr, tc). backfill_row mr tc) (zip mrs tcs ! i) = Inr (filled ! i)" by blast
      then have "backfill_row (mrs ! i) (tcs ! i) = Inr (filled ! i)" using iz by simp
      with na show "is_str (mrs ! i)" unfolding backfill_row_cases by auto
    qed
    with n show "nrows m \<noteq> 0 \<and> (\<forall>i<nrows m. isna (tcs ! i) \<longrightarrow> is_str (mrs ! i))" by simp
  }
  {
    assume pre: "nrows m \<noteq> 0 \<and> (\<forall>i<nrows m. isna (tcs ! i) \<longrightarrow> is_str (mrs ! i))"
    have "\<forall>x \<in> set (zip mrs tcs). \<exists>y. (\<lambda>(mr, tc). backfill_row mr tc) x = Inr y"
    proof
      fix x assume "x \<in> set (zip mrs tcs)"
      then obtain i where i: "i < length (zip mrs tcs)" and x: "x = zip mrs tcs ! i"
        by (auto simp: in_set_conv_nth)
      have x': "x = (mrs ! i, tcs ! i)" using i x by simp
      have "i < nrows m" using i ltcs by simp
      with pre have "isna (tcs ! i) \<longrightarrow> is_str (mrs ! i)" by blast
      then have "\<exists>y. backfill_row (mrs ! i) (tcs ! i) = Inr y"
        by (cases "mrs ! i") (auto simp: backfill_row_def)
      then show "\<exists>y. (\<lambda>(mr, tc). backfill_row mr tc) x = Inr y" using x' by simp
    qed
    from apply_rows_total [OF this] obtain filled
      where "apply_rows (\<lambda>(mr, tc). backfill_row mr tc) (zip mrs tcs) = Inr filled" by blast
    then show "\<exists>m'. fill_typecode m = Inr m'"
      using pre tcs mrs by (simp add: fill_typecode_def)
  }
qed

lemma fill_typecode_both_missing:
  assumes wf: "wf_frame m"
    and tcs: "get_column m ''TypeCode'' = Inr tcs"
    and mrs: "get_column m ''MaterialReference'' = Inr mrs"
    and i: "i < nrows m" and na: "isna (tcs ! i)" "isna (mrs ! i)"
  shows "fill_typecode m = Inl SubscriptError"
proof -
  have ltcs: "length tcs = nrows m" and lmrs: "length mrs = nrows m"
    using wf tcs mrs by (simp_all add: get_column_length)
  have "tcs ! i \<in> set tcs" using i ltcs by simp
  with na have some: "\<exists>t \<in> set tcs. isna t" by blast
  have iz: "i < length (zip mrs tcs)" using i ltcs lmrs by simp
  then have mem: "(mrs ! i, tcs ! i) \<in> set (zip mrs tcs)"
    by (metis nth_mem nth_zip length_zip min_less_iff_conj)
  have "\<not> is_str (mrs ! i)" using na(2) by (cases "mrs ! i") simp_all
  then have bad: "(\<lambda>(mr, tc). backfill_row mr tc) (mrs ! i, tcs ! i) = Inl SubscriptError"
    using na(1) by (simp add: backfill_row_error)
  from apply_rows_fails [where f = "\<lambda>(mr, tc). backfill_row mr tc" and x = "(mrs ! i, tcs ! i)"
      and xs = "zip mrs tcs" and e = SubscriptError, OF mem bad] obtain e
    where e: "apply_rows (\<lambda>(mr, tc). backfill_row mr tc) (zip mrs tcs) = Inl e" by blast
  from apply_rows_Inl [OF e] obtain x where "(\<lambda>(mr, tc). backfill_row mr tc) x = Inl e" by blast
  then have "e = SubscriptError" by (cases x) (simp add: backfill_row_error)
  with e some tcs mrs i show ?thesis by (simp add: fill_typecode_def)
qed

lemma prepare_fill_error:
  "fill_typecode (materials d) = Inl e \<Longrightarrow> isl (prepare d)"
  by (cases "replace_deleted_storage_level (storage d)") (simp_all add: prepare_def)

lemma transform_prepare_error: "isl (prepare d) \<Longrightarrow> isl (transform d)"
  by (cases "prepare d") (simp_all add: transform_def joined_def)

text \<open>
  Claim C9. The backfill succeeds only when every row without a type code has a string
  as material reference (and, on a sheet with rows, whenever that holds). A row that has
  neither makes the lambda subscript a missing value: the exception is not caught, nothing
  is logged, the run ends with status 1 and writes no file.
\<close>

theorem backfill_needs_string_reference:
  assumes l: "load w = Inr d"
    and wf: "wf_frame (materials d)"
    and tcs: "get_column (materials d) ''TypeCode'' = Inr tcs"
    and mrs: "get_column (materials d) ''MaterialReference'' = Inr mrs"
  shows "((\<exists>m'. fill_typecode (materials d) = Inr m') \<longleftrightarrow>
            (nrows (materials d) \<noteq> 0 \<and>
             (\<forall>i<nrows (materials d). isna (tcs ! i) \<longrightarrow> is_str (mrs ! i)))) \<and>
         ((\<exists>i<nrows (materials d). isna (tcs ! i) \<and> isna (mrs ! i)) \<longrightarrow>
            fill_typecode (materials d) = Inl SubscriptError \<and> isl (transform d) \<and>
            exit_status (run w) = 1 \<and> logged_errors (run w) = [] \<and> written (run w) = None)"
proof (intro conjI impI)
  show "(\<exists>m'. fill_typecode (materials d) = Inr m') \<longleftrightarrow>
            (nrows (materials d) \<noteq> 0 \<and>
             (\<forall>i<nrows (materials d). isna (tcs ! i) \<longrightarrow> is_str (mrs ! i)))"
    by (rule fill_typecode_Inr_iff [OF wf tcs mrs])
next
  assume "\<exists>i<nrows (materials d). isna (tcs ! i) \<and> isna (mrs ! i)"
  then obtain i where i: "i < nrows (materials d)" "isna (tcs ! i)" "isna (mrs ! i)" by blast
  have f: "fill_typecode (materials d) = Inl SubscriptError"
    by (rule fill_typecode_both_missing [OF wf tcs mrs i])
  have t: "isl (transform d)"
    by (rule transform_prepare_error [OF prepare_fill_error [OF f]])
  then obtain e where e: "transform d = Inl e" by (cases "transform d") simp_all
  have r: "run w = uncaught e" using l e by (simp add: run_def)
  show "fill_typecode (materials d) = Inl SubscriptError" by (rule f)
  show "isl (transform d)" by (rule t)
  show "exit_status (run w) = 1" using r by (simp add: uncaught_def)
  show "logged_errors (run w) = []" using r by (simp add: uncaught_def)
  show "written (run w) = None" using r by (simp add: uncaught_def)
qed

text \<open>The theorem at the sheet whose second row has neither value.\<close>

theorem backfill_needs_string_reference_witness:
  "load unreferenced_run = Inr unreferenced_dataset \<and>
   wf_frame (materials unreferenced_dataset) \<and>
   get_column (materials unreferenced_dataset) ''TypeCode'' = Inr [Str ''T1'', NA] \<and>
   get_column (materials unreferenced_dataset) ''MaterialReference'' = Inr [Str ''M1'', NA] \<and>
   (\<exists>i<nrows (materials unreferenced_dataset). isna ([Str ''T1'', NA] ! i) \<and> isna ([Str ''M1'', NA] ! i)) \<and>
   fill_typecode (materials unreferenced_dataset) = Inl SubscriptError \<and>
   exit_status (run unreferenced_run) = 1 \<and>
   written (run unreferenced_run) = None"
proof -
  have l: "load unreferenced_run = Inr unreferenced_dataset"
    by (simp add: load_def unreferenced_run_def unreferenced_dataset_def)
  have wf: "wf_frame (materials unreferenced_dataset)"
    by (simp add: wf_frame_def unreferenced_dataset_def unreferenced_materials_def column_names_def)
  have tc: "get_column (materials unreferenced_dataset) ''TypeCode'' = Inr [Str ''T1'', NA]"
    by (simp add: get_column_def unreferenced_dataset_def unreferenced_materials_def)
  have mr: "get_column (materials unreferenced_dataset) ''MaterialReference'' = Inr [Str ''M1'', NA]"
    by (simp add: get_column_def unreferenced_dataset_def unreferenced_materials_def)
  have "(1::nat) < nrows (materials unreferenced_dataset) \<and> isna ([Str ''T1'', NA] ! 1) \<and> isna ([Str ''M1'', NA] ! 1)"
    by (simp add: unreferenced_dataset_def unreferenced_materials_def)
  then have both: "\<exists>i<nrows (materials unreferenced_dataset). isna ([Str ''T1'', NA] ! i) \<and> isna ([Str ''M1'', NA] ! i)"
    by (rule exI [where x = 1])
  from backfill_needs_string_reference [OF l wf tc mr] both
  have "fill_typecode (materials unreferenced_dataset) = Inl SubscriptError \<and>
        exit_status (run unreferenced_run) = 1 \<and> written (run unreferenced_run) = None"
    by simp
  with l wf tc mr both show ?thesis by simp
qed

subsection \<open>Row counts of the joins\<close>

lemma length_join_rows:
  "length (join_rows lk rk m i) = max 1 (length (matching_rows lk rk m i))"
  by (cases "matching_rows lk rk m i") (simp_all add: join_rows_def)

lemma length_concat_ge:
  assumes "\<forall>x \<in> set xs. 1 \<le> length (f x)"
  shows "length xs \<le> length (concat (map f xs)) \<and>
         (length (concat (map f xs)) = length xs \<longleftrightarrow> (\<forall>x \<in> set xs. length (f x) = 1))"
  using assms
proof (induction xs)
  case Nil
  then show ?case by simp
next
  case (Cons x xs)
  then have ih: "length xs \<le> length (concat (map f xs))"
    and iheq: "length (concat (map f xs)) = length xs \<longleftrightarrow> (\<forall>x \<in> set xs. length (f x) = 1)"
    and x: "1 \<le> length (f x)"
    by simp_all
  show ?case
  proof (intro conjI)
    show "length (x # xs) \<le> length (concat (map f (x # xs)))" using ih x by simp
    show "length (concat (map f (x # xs))) = length (x # xs) \<longleftrightarrow> (\<forall>y \<in> set (x # xs). length (f y) = 1)"
    proof
      assume "length (concat (map f (x # xs))) = length (x # xs)"
      then have "length (f x) + length (concat (map f xs)) = Suc (length xs)" by simp
      with ih x have "length (f x) = 1 \<and> length (concat (map f xs)) = length xs" by arith
      with iheq show "\<forall>y \<in> set (x # xs). length (f y) = 1" by simp
    next
      assume "\<forall>y \<in> set (x # xs). length (f y) = 1"
      then have "length (f x) = 1" and "\<forall>y \<in> set xs. length (f y) = 1" by simp_all
      with iheq show "length (concat (map f (x # xs))) = length (x # xs)" by simp
    qed
  qed
qed

lemma length_join_indexer:
  "n \<le> length (join_indexer lk n rk m) \<and>
   (length (join_indexer lk n rk m) = n \<longleftrightarrow> (\<forall>i \<in> {..<n}. length (matching_rows lk rk m i) \<le> 1))"
proof -
  have one: "\<forall>i \<in> set [0..<n]. 1 \<le> length (join_rows lk rk m i)"
    by (simp add: length_join_rows)
  have eq: "(\<forall>i \<in> set [0..<n]. length (join_rows lk rk m i) = 1) \<longleftrightarrow>
            (\<forall>i \<in> {..<n}. length (matching_rows lk rk m i) \<le> 1)"
  proof -
    have "\<And>i. length (join_rows lk rk m i) = 1 \<longleftrightarrow> length (matching_rows lk rk m i) \<le> 1"
      unfolding length_join_rows by arith
    then show ?thesis by auto
  qed
  from length_concat_ge [OF one] eq show ?thesis
    by (simp add: join_indexer_def)
qed

lemma merge_left_Inr:
  assumes "merge_left left right keys = Inr res"
  shows "\<exists>lk rk. apply_rows (get_column left) keys = Inr lk \<and>
                 apply_rows (get_column right) keys = Inr rk \<and>
                 merge_indexer left right keys = Inr (join_indexer lk (nrows left) rk (nrows right)) \<and>
                 nrows res = length (join_indexer lk (nrows left) rk (nrows right))"
proof -
  from assms obtain ix where ix: "merge_indexer left right keys = Inr ix" and n: "nrows res = length ix"
    by (auto simp: merge_left_def andThen_Inr_iff Let_def split: if_splits)
  from ix obtain lk rk where lk: "apply_rows (get_column left) keys = Inr lk"
    and rk: "apply_rows (get_column right) keys = Inr rk"
    and j: "ix = join_indexer lk (nrows left) rk (nrows right)"
    by (auto simp: merge_indexer_def andThen_Inr_iff)
  show ?thesis
    apply (rule exI [where x = lk])
    apply (rule exI [where x = rk])
    using lk rk j n ix by simp
qed

lemma same_value_key_of: "same_value x y \<longleftrightarrow> key_of x = key_of y"
  by (cases x; cases y) auto

lemma key_row_eq_same_key:
  assumes lk: "apply_rows (get_column left) keys = Inr lk"
    and rk: "apply_rows (get_column right) keys = Inr rk"
  shows "key_row lk i = key_row rk j \<longleftrightarrow> same_key left i right j keys"
proof -
  from apply_rows_Inr [OF lk] have ll: "length lk = length keys"
    and ln: "\<forall>n<length keys. get_column left (keys ! n) = Inr (lk ! n)" by simp_all
  from apply_rows_Inr [OF rk] have rl: "length rk = length keys"
    and rn: "\<forall>n<length keys. get_column right (keys ! n) = Inr (rk ! n)" by simp_all
  have "key_row lk i = key_row rk j \<longleftrightarrow>
          (\<forall>n<length keys. key_of (lk ! n ! i) = key_of (rk ! n ! j))"
    by (simp add: key_row_def list_eq_iff_nth_eq ll rl)
  also have "\<dots> \<longleftrightarrow> (\<forall>n<length keys. same_value (lk ! n ! i) (rk ! n ! j))"
    by (simp add: same_value_key_of)
  also have "\<dots> \<longleftrightarrow> same_key left i right j keys"
    unfolding same_key_def all_set_conv_all_nth using ln rn by simp
  finally show ?thesis .
qed

lemma card_partners:
  assumes lk: "apply_rows (get_column left) keys = Inr lk"
    and rk: "apply_rows (get_column right) keys = Inr rk"
  shows "card (partners left right keys i) = length (matching_rows lk rk (nrows right) i)"
proof -
  have "partners left right keys i = set (matching_rows lk rk (nrows right) i)"
    by (auto simp: partners_def matching_rows_def key_row_eq_same_key [OF lk rk])
  moreover have "distinct (matching_rows lk rk (nrows right) i)"
    by (simp add: matching_rows_def)
  ultimately show ?thesis by (simp add: distinct_card)
qed

lemma length_join_indexer_sum:
  "length (join_indexer lk n rk m) = (\<Sum>i<n. max 1 (length (matching_rows lk rk m i)))"
proof -
  have "length (join_indexer lk n rk m) =
          sum_list (map (\<lambda>i. max 1 (length (matching_rows lk rk m i))) [0..<n])"
    by (simp add: join_indexer_def length_concat comp_def length_join_rows)
  also have "\<dots> = (\<Sum>i<n. max 1 (length (matching_rows lk rk m i)))"
    by (simp add: interv_sum_list_conv_sum_set_nat lessThan_atLeast0)
  finally show ?thesis .
qed

lemma merge_left_partners:
  assumes "merge_left left right keys = Inr res"
  shows "\<exists>lk rk. nrows res = length (join_indexer lk (nrows left) rk (nrows right)) \<and>
           (\<forall>i. card (partners left right keys i) = length (matching_rows lk rk (nrows right) i))"
proof -
  from merge_left_Inr [OF assms] obtain lk rk
    where lk: "apply_rows (get_column left) keys = Inr lk"
      and rk: "apply_rows (get_column right) keys = Inr rk"
      and n: "nrows res = length (join_indexer lk (nrows left) rk (nrows right))"
    by blast
  from n card_partners [OF lk rk] show ?thesis by blast
qed

lemma merge_left_nrows:
  assumes "merge_left left right keys = Inr res"
  shows "nrows left \<le> nrows res \<and>
         (nrows res = nrows left \<longleftrightarrow> at_most_one_partner left right keys)"
proof -
  from merge_left_partners [OF assms] obtain lk rk
    where n: "nrows res = length (join_indexer lk (nrows left) rk (nrows right))"
      and c: "\<And>i. card (partners left right keys i) = length (matching_rows lk rk (nrows right) i)"
    by blast
  have u: "at_most_one_partner left right keys \<longleftrightarrow>
           (\<forall>i \<in> {..<nrows left}. length (matching_rows lk rk (nrows right) i) \<le> 1)"
    by (simp add: at_most_one_partner_def c)
  from length_join_indexer [of "nrows left" lk rk "nrows right"] n u show ?thesis by simp
qed

lemma merge_left_sum:
  assumes "merge_left left right keys = Inr res"
  shows "nrows res = (\<Sum>i<nrows left. max 1 (card (partners left right keys i)))"
proof -
  from merge_left_partners [OF assms] obtain lk rk
    where n: "nrows res = length (join_indexer lk (nrows left) rk (nrows right))"
      and c: "\<And>i. card (partners left right keys i) = length (matching_rows lk rk (nrows right) i)"
    by blast
  show ?thesis by (simp add: n length_join_indexer_sum c)
qed

lemma drop_column_nrows: "drop_column name df = Inr res \<Longrightarrow> nrows res = nrows df"
  by (auto simp: drop_column_def split: if_splits)

lemma select_columns_nrows: "select_columns names df = Inr res \<Longrightarrow> nrows res = nrows df"
  by (auto simp: select_columns_def andThen_Inr_iff)

lemma fillna_nrows [simp]: "nrows (fillna v df) = nrows df"
  by (simp add: fillna_def)

lemma clean_frame_nrows [simp]: "nrows (clean_frame df) = nrows df"
  by (simp add: clean_frame_def)

lemma set_column_nrows [simp]: "nrows (set_column df n v) = nrows df"
  by (simp add: set_column_def)

lemma map_column_nrows: "map_column f n df = Inr res \<Longrightarrow> nrows res = nrows df"
  by (auto simp: map_column_def andThen_Inr_iff)

lemma fill_typecode_nrows: "fill_typecode m = Inr m' \<Longrightarrow> nrows m' = nrows m"
  by (auto simp: fill_typecode_def andThen_Inr_iff split: if_splits)

lemma prepare_Inr:
  assumes "prepare d = Inr p"
  shows "\<exists>st ma pl st'.
           replace_deleted_storage_level (storage d) = Inr st \<and>
           fill_typecode (materials d) = Inr ma \<and>
           pad_plant (plants d) = Inr pl \<and>
           pad_plant st = Inr st' \<and>
           p = \<lparr>materials = clean_frame ma, plants = clean_frame pl, storage = clean_frame st',
                suppliers = clean_frame (suppliers d),
                supplier_names = clean_frame (supplier_names d),
                manufacturer_names = clean_frame (manufacturer_names d)\<rparr>"
  using assms unfolding prepare_def andThen_Inr_iff by blast

lemma prepare_nrows_materials: "prepare d = Inr p \<Longrightarrow> nrows (materials p) = nrows (materials d)"
  using prepare_Inr [of d p] by (auto simp: fill_typecode_nrows)

lemma step1_nrows:
  assumes "step1 p = Inr r"
  shows "nrows (materials p) \<le> nrows r \<and>
         (nrows r = nrows (materials p) \<longleftrightarrow>
            at_most_one_partner (materials p) (manufacturer_names p) [''ManufacturerID''])"
proof -
  from assms obtain m where m: "merge_left (materials p) (manufacturer_names p) [''ManufacturerID''] = Inr m"
    and d: "drop_column ''ManufacturerID'' m = Inr r"
    by (auto simp: step1_def andThen_Inr_iff)
  from merge_left_nrows [OF m] drop_column_nrows [OF d] show ?thesis by simp
qed

lemma step4_nrows:
  assumes "step4 p r3 = Inr r"
  shows "nrows r3 \<le> nrows r \<and>
         (nrows r = nrows r3 \<longleftrightarrow> at_most_one_partner r3 (supplier_names p) [''SupplierID''])"
proof -
  from assms obtain m where m: "merge_left r3 (supplier_names p) [''SupplierID''] = Inr m"
    and d: "drop_column ''SupplierID'' m = Inr r"
    by (auto simp: step4_def andThen_Inr_iff)
  from merge_left_nrows [OF m] drop_column_nrows [OF d] show ?thesis by simp
qed

lemma transform_Inr:
  assumes "transform d = Inr out"
  shows "\<exists>p r1 r2 r3 r4 r5 sel.
           prepare d = Inr p \<and> step1 p = Inr r1 \<and> step2 p r1 = Inr r2 \<and> step3 p r2 = Inr r3 \<and>
           step4 p r3 = Inr r4 \<and> step5 p r4 = Inr r5 \<and>
           select_columns output_columns r5 = Inr sel \<and> joined d = Inr sel \<and>
           out = fillna ''N/A'' sel"
proof -
  from assms obtain sel where j: "joined d = Inr sel" and out: "out = fillna ''N/A'' sel"
    by (auto simp: transform_def andThen_Inr_iff)
  from j obtain p r5 where p: "prepare d = Inr p" and a: "aggregate p = Inr r5"
    and s: "select_columns output_columns r5 = Inr sel"
    by (auto simp: joined_def andThen_Inr_iff)
  from a obtain r1 r2 r3 r4 where "step1 p = Inr r1" "step2 p r1 = Inr r2" "step3 p r2 = Inr r3"
    "step4 p r3 = Inr r4" "step5 p r4 = Inr r5"
    by (auto simp: aggregate_def andThen_Inr_iff)
  with p s j out show ?thesis by blast
qed

text \<open>
  Claim C6. A run that reaches the export has at least as many rows as the materials
  sheet, and exactly as many when, and only when, in none of the five joins a row of the
  left side has two partners on the right, a partner being a right row with the same
  cells in the key columns. Every left join keeps each row of its left side: a row with
  partners appears once for each of them, a row without partner once.
\<close>

theorem row_count_grows:
  assumes "transform d = Inr out"
  shows "nrows (materials d) \<le> nrows out \<and>
         (nrows out = nrows (materials d) \<longleftrightarrow> unique_matches d) \<and>
         (\<forall>left right keys res. merge_left left right keys = Inr res \<longrightarrow>
            nrows left \<le> nrows res \<and>
            nrows res = (\<Sum>i<nrows left. max 1 (card (partners left right keys i))))"
proof -
  from transform_Inr [OF assms] obtain p r1 r2 r3 r4 r5 sel
    where p: "prepare d = Inr p" and s1: "step1 p = Inr r1" and s2: "step2 p r1 = Inr r2"
      and s3: "step3 p r2 = Inr r3" and s4: "step4 p r3 = Inr r4" and s5: "step5 p r4 = Inr r5"
      and sel: "select_columns output_columns r5 = Inr sel" and out: "out = fillna ''N/A'' sel"
    by blast
  have n0: "nrows (materials p) = nrows (materials d)" by (rule prepare_nrows_materials [OF p])
  have n6: "nrows out = nrows r5" using out select_columns_nrows [OF sel] by simp
  note a1 = step1_nrows [OF s1]
  note a2 = merge_left_nrows [OF s2 [unfolded step2_def]]
  note a3 = merge_left_nrows [OF s3 [unfolded step3_def]]
  note a4 = step4_nrows [OF s4]
  note a5 = merge_left_nrows [OF s5 [unfolded step5_def]]
  have u: "unique_matches d \<longleftrightarrow>
             at_most_one_partner (materials p) (manufacturer_names p) [''ManufacturerID''] \<and>
             at_most_one_partner r1 (plants p) [''MaterialReference''] \<and>
             at_most_one_partner r2 (suppliers p) [''MaterialReference''] \<and>
             at_most_one_partner r3 (supplier_names p) [''SupplierID''] \<and>
             at_most_one_partner r4 (storage p) [''MaterialReference'', ''Plant'']"
    using p s1 s2 s3 s4 by (simp add: unique_matches_def)
  have le: "nrows (materials d) \<le> nrows out" using n0 n6 a1 a2 a3 a4 a5 by linarith
  have eq: "nrows out = nrows (materials d) \<longleftrightarrow> unique_matches d"
  proof -
    have "nrows out = nrows (materials d) \<longleftrightarrow>
            nrows r1 = nrows (materials p) \<and> nrows r2 = nrows r1 \<and> nrows r3 = nrows r2 \<and>
            nrows r4 = nrows r3 \<and> nrows r5 = nrows r4"
      using n0 n6 a1 a2 a3 a4 a5 by linarith
    then show ?thesis using a1 a2 a3 a4 a5 u by simp
  qed
  have gen: "\<forall>left right keys res. merge_left left right keys = Inr res \<longrightarrow>
            nrows left \<le> nrows res \<and>
            nrows res = (\<Sum>i<nrows left. max 1 (card (partners left right keys i)))"
    using merge_left_nrows merge_left_sum by blast
  from le eq gen show ?thesis by (intro conjI)
qed

subsection \<open>The joins on the tables of the data model\<close>

lemmas merge_defs = merge_left_def merge_indexer_def get_column_def column_names_def
  add_suffix_def Let_def drop_column_def

lemma step1_explicit:
  assumes "materials p = \<lparr>nrows = n, cols = [(''MaterialReference'', a1), (''ManufacturerID'', a2),
              (''ArticleNumber'', a3), (''TypeCode'', a4), (''ShortText'', a5)]\<rparr>"
    and "manufacturer_names p = \<lparr>nrows = m, cols = [(''ManufacturerID'', b1), (''ManufacturerName'', b2)]\<rparr>"
    and "ix = join_indexer [a2] n [b1] m"
  shows "step1 p = Inr \<lparr>nrows = length ix,
           cols = [(''MaterialReference'', take_left ix a1), (''ArticleNumber'', take_left ix a3),
                   (''TypeCode'', take_left ix a4), (''ShortText'', take_left ix a5),
                   (''ManufacturerName'', take_right ix b2)]\<rparr>"
  using assms by (simp add: step1_def merge_defs)

lemma step2_explicit:
  assumes "r = \<lparr>nrows = n, cols = [(''MaterialReference'', a1), (''ArticleNumber'', a3),
                   (''TypeCode'', a4), (''ShortText'', a5), (''ManufacturerName'', b2)]\<rparr>"
    and "plants p = \<lparr>nrows = m, cols = [(''MaterialReference'', c1), (''Plant'', c2),
                   (''Disposition'', c3), (''ReporderPoint'', c4)]\<rparr>"
    and "ix = join_indexer [a1] n [c1] m"
  shows "step2 p r = Inr \<lparr>nrows = length ix,
           cols = [(''MaterialReference'', take_left ix a1), (''ArticleNumber'', take_left ix a3),
                   (''TypeCode'', take_left ix a4), (''ShortText'', take_left ix a5),
                   (''ManufacturerName'', take_left ix b2),
                   (''Plant'', take_right ix c2), (''Disposition'', take_right ix c3),
                   (''ReporderPoint'', take_right ix c4)]\<rparr>"
  using assms by (simp add: step2_def merge_defs)

lemma step3_explicit:
  assumes "r = \<lparr>nrows = n, cols = [(''MaterialReference'', a1), (''ArticleNumber'', a3),
                   (''TypeCode'', a4), (''ShortText'', a5), (''ManufacturerName'', b2),
                   (''Plant'', c2), (''Disposition'', c3), (''ReporderPoint'', c4)]\<rparr>"
    and "suppliers p = \<lparr>nrows = m, cols = [(''MaterialReference'', d1), (''SupplierID'', d2),
                   (''SupplierArticleNumber'', d3)]\<rparr>"
    and "ix = join_indexer [a1] n [d1] m"
  shows "step3 p r = Inr \<lparr>nrows = length ix,
           cols = [(''MaterialReference'', take_left ix a1), (''ArticleNumber'', take_left ix a3),
                   (''TypeCode'', take_left ix a4), (''ShortText'', take_left ix a5),
                   (''ManufacturerName'', take_left ix b2),
                   (''Plant'', take_left ix c2), (''Disposition'', take_left ix c3),
                   (''ReporderPoint'', take_left ix c4),
                   (''SupplierID'', take_right ix d2), (''SupplierArticleNumber'', take_right ix d3)]\<rparr>"
  using assms by (simp add: step3_def merge_defs)

lemma step4_explicit:
  assumes "r = \<lparr>nrows = n, cols = [(''MaterialReference'', a1), (''ArticleNumber'', a3),
                   (''TypeCode'', a4), (''ShortText'', a5), (''ManufacturerName'', b2),
                   (''Plant'', c2), (''Disposition'', c3), (''ReporderPoint'', c4),
                   (''SupplierID'', d2), (''SupplierArticleNumber'', d3)]\<rparr>"
    and "supplier_names p = \<lparr>nrows = m, cols = [(''SupplierID'', e1), (''SupplierName'', e2)]\<rparr>"
    and "ix = join_indexer [d2] n [e1] m"
  shows "step4 p r = Inr \<lparr>nrows = length ix,
           cols = [(''MaterialReference'', take_left ix a1), (''ArticleNumber'', take_left ix a3),
                   (''TypeCode'', take_left ix a4), (''ShortText'', take_left ix a5),
                   (''ManufacturerName'', take_left ix b2),
                   (''Plant'', take_left ix c2), (''Disposition'', take_left ix c3),
                   (''ReporderPoint'', take_left ix c4),
                   (''SupplierArticleNumber'', take_left ix d3),
                   (''SupplierName'', take_right ix e2)]\<rparr>"
  using assms by (simp add: step4_def merge_defs)

lemma step5_explicit:
  assumes "r = \<lparr>nrows = n, cols = [(''MaterialReference'', a1), (''ArticleNumber'', a3),
                   (''TypeCode'', a4), (''ShortText'', a5), (''ManufacturerName'', b2),
                   (''Plant'', c2), (''Disposition'', c3), (''ReporderPoint'', c4),
                   (''SupplierArticleNumber'', d3), (''SupplierName'', e2)]\<rparr>"
    and "storage p = \<lparr>nrows = m, cols = [(''MaterialReference'', f1), (''Plant'', f2),
                   (''StorageLocation'', f3), (''StorageBin'', f4), (''DeletedStorageLevel'', f5)]\<rparr>"
    and "ix = join_indexer [a1, c2] n [f1, f2] m"
  shows "step5 p r = Inr \<lparr>nrows = length ix,
           cols = [(''MaterialReference'', take_left ix a1), (''ArticleNumber'', take_left ix a3),
                   (''TypeCode'', take_left ix a4), (''ShortText'', take_left ix a5),
                   (''ManufacturerName'', take_left ix b2),
                   (''Plant'', take_left ix c2), (''Disposition'', take_left ix c3),
                   (''ReporderPoint'', take_left ix c4),
                   (''SupplierArticleNumber'', take_left ix d3),
                   (''SupplierName'', take_left ix e2),
                   (''StorageLocation'', take_right ix f3), (''StorageBin'', take_right ix f4),
                   (''DeletedStorageLevel'', take_right ix f5)]\<rparr>"
  using assms by (simp add: step5_def merge_defs)

lemma format_explicit:
  assumes "r = \<lparr>nrows = n, cols = [(''MaterialReference'', a1), (''ArticleNumber'', a3),
                   (''TypeCode'', a4), (''ShortText'', a5), (''ManufacturerName'', b2),
                   (''Plant'', c2), (''Disposition'', c3), (''ReporderPoint'', c4),
                   (''SupplierArticleNumber'', d3), (''SupplierName'', e2),
                   (''StorageLocation'', f3), (''StorageBin'', f4), (''DeletedStorageLevel'', f5)]\<rparr>"
  shows "select_columns output_columns r = Inr \<lparr>nrows = n,
           cols = [(''MaterialReference'', a1), (''ManufacturerName'', b2), (''ArticleNumber'', a3),
                   (''TypeCode'', a4), (''ShortText'', a5),
                   (''Plant'', c2), (''Disposition'', c3), (''ReporderPoint'', c4),
                   (''SupplierName'', e2), (''SupplierArticleNumber'', d3),
                   (''StorageLocation'', f3), (''StorageBin'', f4), (''DeletedStorageLevel'', f5)]\<rparr>"
  using assms by (simp add: select_columns_def output_columns_def get_column_def)

subsection \<open>The field fixes on the tables of the data model\<close>

lemma frame_eq: "df = \<lparr>nrows = nrows df, cols = cols df\<rparr>"
  by simp

lemma names2: "map fst xs = [a, b] \<Longrightarrow> \<exists>x y. xs = [(a, x), (b, y)]"
  by (auto simp: map_eq_Cons_conv)

lemma names3: "map fst xs = [a, b, c] \<Longrightarrow> \<exists>x y z. xs = [(a, x), (b, y), (c, z)]"
  by (auto simp: map_eq_Cons_conv)

lemma names4: "map fst xs = [a, b, c, d] \<Longrightarrow> \<exists>x y z u. xs = [(a, x), (b, y), (c, z), (d, u)]"
  by (auto simp: map_eq_Cons_conv)

lemma names5: "map fst xs = [a, b, c, d, e] \<Longrightarrow> \<exists>x y z u v. xs = [(a, x), (b, y), (c, z), (d, u), (e, v)]"
  by (auto simp: map_eq_Cons_conv)

lemma fill_typecode_explicit:
  assumes "fill_typecode m = Inr m'"
    and "cols m = [(''MaterialReference'', m1), (''ManufacturerID'', m2),
              (''ArticleNumber'', m3), (''TypeCode'', m4), (''ShortText'', m5)]"
  shows "\<exists>t. ((\<forall>x \<in> set m4. \<not> isna x) \<and> t = m4 \<or>
              apply_rows (\<lambda>(mr, tc). backfill_row mr tc) (zip m1 m4) = Inr t) \<and>
             m' = \<lparr>nrows = nrows m, cols = [(''MaterialReference'', m1), (''ManufacturerID'', m2),
              (''ArticleNumber'', m3), (''TypeCode'', t), (''ShortText'', m5)]\<rparr>"
proof -
  have tc: "get_column m ''TypeCode'' = Inr m4" using assms(2) by (simp add: get_column_def)
  have mr: "get_column m ''MaterialReference'' = Inr m1" using assms(2) by (simp add: get_column_def)
  show ?thesis
  proof (cases "\<exists>t \<in> set m4. isna t")
    case False
    have "m' = m" by (rule fill_typecode_unchanged [OF assms(1) tc False])
    then have "m' = \<lparr>nrows = nrows m, cols = [(''MaterialReference'', m1), (''ManufacturerID'', m2),
              (''ArticleNumber'', m3), (''TypeCode'', m4), (''ShortText'', m5)]\<rparr>"
      using assms(2) frame_eq [of m] by simp
    with False show ?thesis by (intro exI [where x = m4]) simp
  next
    case True
    from fill_typecode_filled [OF assms(1) tc mr True] obtain filled
      where f: "apply_rows (\<lambda>(mr, tc). backfill_row mr tc) (zip m1 m4) = Inr filled"
        and m': "m' = set_column m ''TypeCode'' filled"
      by blast
    have "m' = \<lparr>nrows = nrows m, cols = [(''MaterialReference'', m1), (''ManufacturerID'', m2),
              (''ArticleNumber'', m3), (''TypeCode'', filled), (''ShortText'', m5)]\<rparr>"
      using m' assms(2) by (simp add: set_column_def)
    with f show ?thesis by (intro exI [where x = filled]) simp
  qed
qed

lemma pad_plant_plants:
  assumes "cols df = [(''MaterialReference'', c1), (''Plant'', c2), (''Disposition'', c3), (''ReporderPoint'', c4)]"
  shows "pad_plant df = Inr \<lparr>nrows = nrows df, cols = [(''MaterialReference'', c1),
           (''Plant'', map pad_plant_cell c2), (''Disposition'', c3), (''ReporderPoint'', c4)]\<rparr>"
  using assms by (simp add: pad_plant_def map_column_def get_column_def set_column_def)

lemma prepare_storage:
  assumes "cols df = [(''MaterialReference'', f1), (''Plant'', f2), (''StorageLocation'', f3),
                      (''StorageBin'', f4), (''DeletedStorageLevel'', f5)]"
  shows "andThen (replace_deleted_storage_level df) pad_plant =
         Inr \<lparr>nrows = nrows df, cols = [(''MaterialReference'', f1),
           (''Plant'', map pad_plant_cell f2), (''StorageLocation'', f3), (''StorageBin'', f4),
           (''DeletedStorageLevel'', map (replace_value '' '' (Str ''ACTIVE'')) f5)]\<rparr>"
  using assms
  by (simp add: replace_deleted_storage_level_def pad_plant_def map_column_def get_column_def set_column_def)

subsection \<open>Which rows a join pairs\<close>

lemma matching_rows_iff: "j \<in> set (matching_rows lk rk m i) \<longleftrightarrow> j < m \<and> key_row lk i = key_row rk j"
  by (auto simp: matching_rows_def)

lemma join_rows_iff:
  "(i', j) \<in> set (join_rows lk rk m i) \<longleftrightarrow>
     i' = i \<and> (case j of None \<Rightarrow> matching_rows lk rk m i = []
                | Some k \<Rightarrow> k \<in> set (matching_rows lk rk m i))"
  by (cases "matching_rows lk rk m i"; cases j) (auto simp: join_rows_def)

lemma join_indexer_iff:
  "(i, j) \<in> set (join_indexer lk n rk m) \<longleftrightarrow>
     i < n \<and> (case j of None \<Rightarrow> matching_rows lk rk m i = []
               | Some k \<Rightarrow> k \<in> set (matching_rows lk rk m i))"
  by (auto simp: join_indexer_def join_rows_iff)

lemma join_indexer_left_bound: "(i, j) \<in> set (join_indexer lk n rk m) \<Longrightarrow> i < n"
  by (simp add: join_indexer_iff)

lemma join_indexer_right_bound: "(i, Some k) \<in> set (join_indexer lk n rk m) \<Longrightarrow> k < m"
  by (simp add: join_indexer_iff matching_rows_iff)

lemma join_indexer_covers:
  assumes "i < n"
  shows "\<exists>j. (i, j) \<in> set (join_indexer lk n rk m)"
proof (cases "matching_rows lk rk m i")
  case Nil
  then have "(i, None) \<in> set (join_indexer lk n rk m)" using assms by (simp add: join_indexer_iff)
  then show ?thesis by (rule exI [where x = None])
next
  case (Cons k ks)
  then have "(i, Some k) \<in> set (join_indexer lk n rk m)" using assms by (simp add: join_indexer_iff)
  then show ?thesis by (rule exI [where x = "Some k"])
qed

subsection \<open>Where the cells of a joined column come from\<close>

lemma length_take_left [simp]: "length (take_left ix c) = length ix"
  by (simp add: take_left_def)

lemma length_take_right [simp]: "length (take_right ix c) = length ix"
  by (simp add: take_right_def)


lemma nth_take_right:
  "k < length ix \<Longrightarrow> take_right ix c ! k = (case snd (ix ! k) of None \<Rightarrow> NA | Some j \<Rightarrow> c ! j)"
  by (simp add: take_right_def case_prod_beta)

lemma set_take_left:
  assumes "length c = n"
  shows "set (take_left (join_indexer lk n rk m) c) = set c"
proof
  show "set (take_left (join_indexer lk n rk m) c) \<subseteq> set c"
    using assms by (auto simp: take_left_def dest: join_indexer_left_bound)
  show "set c \<subseteq> set (take_left (join_indexer lk n rk m) c)"
  proof
    fix x assume "x \<in> set c"
    then obtain i where i: "i < n" and x: "x = c ! i" using assms by (auto simp: in_set_conv_nth)
    from join_indexer_covers [OF i] obtain j where "(i, j) \<in> set (join_indexer lk n rk m)" by blast
    then have "x \<in> (\<lambda>(i, j). c ! i) ` set (join_indexer lk n rk m)"
      using x by (intro image_eqI [where x = "(i, j)"]) simp_all
    then show "x \<in> set (take_left (join_indexer lk n rk m) c)" by (simp add: take_left_def)
  qed
qed

lemma set_take_right:
  assumes "length c = m"
  shows "set (take_right (join_indexer lk n rk m) c) \<subseteq> insert NA (set c)"
proof
  fix x assume "x \<in> set (take_right (join_indexer lk n rk m) c)"
  then obtain i j where ij: "(i, j) \<in> set (join_indexer lk n rk m)"
    and x: "x = (case j of None \<Rightarrow> NA | Some k \<Rightarrow> c ! k)"
    by (auto simp: take_right_def)
  show "x \<in> insert NA (set c)"
  proof (cases j)
    case None
    then show ?thesis using x by simp
  next
    case (Some k)
    then have "k < m" using ij join_indexer_right_bound by blast
    then show ?thesis using x Some assms by simp
  qed
qed


subsection \<open>Cleaned cells\<close>

lemma strip_last: "strip s \<noteq> [] \<Longrightarrow> \<not> is_space (last (strip s))"
proof -
  assume ne: "strip s \<noteq> []"
  let ?t = "dropWhile is_space (rev (dropWhile is_space s))"
  have t: "?t \<noteq> []" using ne by (simp add: strip_def)
  have "last (strip s) = hd ?t" using t by (simp add: strip_def last_rev)
  moreover have "\<not> is_space (hd ?t)" using t by (rule hd_dropWhile)
  ultimately show ?thesis by simp
qed

lemma strip_not_blank: "strip s \<noteq> [] \<Longrightarrow> \<not> list_all is_space (strip s)"
proof
  assume ne: "strip s \<noteq> []" and all: "list_all is_space (strip s)"
  from ne have "last (strip s) \<in> set (strip s)" by simp
  with all have "is_space (last (strip s))" by (simp add: list_all_iff)
  with strip_last [OF ne] show False by simp
qed

lemma clean_cell_cases:
  "clean_cell x = NA \<or> (\<exists>s. clean_cell x = Str s \<and> s = strip (astype_str x) \<and> s \<noteq> [] \<and> s \<noteq> ''nan'')"
  by (simp add: clean_cell_def replace_value_def)

lemma clean_cell_tidy: "\<not> null_text (clean_cell x)"
proof -
  from clean_cell_cases [of x] show ?thesis
  proof
    assume "clean_cell x = NA"
    then show ?thesis by simp
  next
    assume "\<exists>s. clean_cell x = Str s \<and> s = strip (astype_str x) \<and> s \<noteq> [] \<and> s \<noteq> ''nan''"
    then obtain s where s: "clean_cell x = Str s" "s = strip (astype_str x)" "s \<noteq> []" "s \<noteq> ''nan''"
      by blast
    from s(2,3) have "\<not> list_all is_space s" using strip_not_blank [of "astype_str x"] by simp
    with s show ?thesis by simp
  qed
qed

lemma not_str_tidy: "\<not> is_str x \<Longrightarrow> \<not> null_text x"
  by (cases x) simp_all

lemma clean_column_tidy: "x \<in> set (clean_column c) \<Longrightarrow> \<not> null_text x"
proof -
  assume x: "x \<in> set (clean_column c)"
  show ?thesis
  proof (cases "is_object c")
    case True
    with x obtain y where "x = clean_cell y" by (auto simp: clean_column_def)
    then show ?thesis by (simp add: clean_cell_tidy)
  next
    case False
    with x have "x \<in> set c" and "\<not> is_str x" by (auto simp: clean_column_def is_object_def)
    then show ?thesis by (simp add: not_str_tidy)
  qed
qed

lemma length_clean_column [simp]: "length (clean_column c) = length c"
  by (simp add: clean_column_def)

lemma cells_clean_frame: "x \<in> cells (clean_frame df) \<Longrightarrow> \<not> null_text x"
  by (auto simp: cells_def clean_frame_def dest: clean_column_tidy)

lemma rectangular_clean_frame: "rectangular df \<Longrightarrow> rectangular (clean_frame df)"
  by (auto simp: rectangular_def clean_frame_def)

lemma wf_rectangular: "wf_frame df \<Longrightarrow> rectangular df"
  by (simp add: wf_frame_def rectangular_def)

lemma rectangular_set_column:
  "rectangular df \<Longrightarrow> length v = nrows df \<Longrightarrow> rectangular (set_column df n v)"
  by (auto simp: rectangular_def set_column_def split: if_splits)

lemma rectangular_get_column: "rectangular df \<Longrightarrow> get_column df n = Inr c \<Longrightarrow> length c = nrows df"
  by (auto simp: get_column_def rectangular_def split: option.splits dest!: map_of_SomeD)

lemma rectangular_map_column:
  assumes "rectangular df" and "map_column f n df = Inr res"
  shows "rectangular res"
proof -
  from assms(2) obtain c where c: "get_column df n = Inr c" and res: "res = set_column df n (map f c)"
    by (auto simp: map_column_def andThen_Inr_iff)
  from rectangular_get_column [OF assms(1) c] have "length (map f c) = nrows df" by simp
  from rectangular_set_column [OF assms(1) this] res show ?thesis by simp
qed

lemma rectangular_fill_typecode:
  assumes "rectangular m" and "fill_typecode m = Inr m'"
  shows "rectangular m'"
proof -
  from assms(2) obtain tcs where tcs: "get_column m ''TypeCode'' = Inr tcs"
    by (auto simp: fill_typecode_def andThen_Inr_iff split: if_splits)
  show ?thesis
  proof (cases "\<exists>t \<in> set tcs. isna t")
    case False
    from fill_typecode_unchanged [OF assms(2) tcs False] assms(1) show ?thesis by simp
  next
    case True
    from assms(2) tcs True obtain mrs where mrs: "get_column m ''MaterialReference'' = Inr mrs"
      by (auto simp: fill_typecode_def andThen_Inr_iff split: if_splits)
    from fill_typecode_filled [OF assms(2) tcs mrs True] obtain filled
      where f: "apply_rows (\<lambda>(mr, tc). backfill_row mr tc) (zip mrs tcs) = Inr filled"
        and m': "m' = set_column m ''TypeCode'' filled"
      by blast
    have "length filled = length (zip mrs tcs)" using apply_rows_Inr [OF f] by simp
    then have "length filled = nrows m"
      using rectangular_get_column [OF assms(1) tcs] rectangular_get_column [OF assms(1) mrs] by simp
    from rectangular_set_column [OF assms(1) this] m' show ?thesis by simp
  qed
qed

lemma prepare_clean:
  assumes "wf_dataset d" and "prepare d = Inr p"
  shows "rectangular (materials p) \<and> rectangular (plants p) \<and> rectangular (storage p) \<and>
         rectangular (suppliers p) \<and> rectangular (supplier_names p) \<and>
         rectangular (manufacturer_names p) \<and>
         (\<forall>x \<in> cells (materials p) \<union> cells (plants p) \<union> cells (storage p) \<union> cells (suppliers p) \<union>
               cells (supplier_names p) \<union> cells (manufacturer_names p). \<not> null_text x)"
proof -
  from prepare_Inr [OF assms(2)] obtain st ma pl st'
    where st: "replace_deleted_storage_level (storage d) = Inr st"
      and ma: "fill_typecode (materials d) = Inr ma"
      and pl: "pad_plant (plants d) = Inr pl"
      and st': "pad_plant st = Inr st'"
      and p: "p = \<lparr>materials = clean_frame ma, plants = clean_frame pl, storage = clean_frame st',
                suppliers = clean_frame (suppliers d),
                supplier_names = clean_frame (supplier_names d),
                manufacturer_names = clean_frame (manufacturer_names d)\<rparr>"
    by blast
  from assms(1) have r: "rectangular (materials d)" "rectangular (plants d)" "rectangular (storage d)"
    "rectangular (suppliers d)" "rectangular (supplier_names d)" "rectangular (manufacturer_names d)"
    by (simp_all add: wf_dataset_def wf_rectangular)
  have r1: "rectangular ma" by (rule rectangular_fill_typecode [OF r(1) ma])
  have r2: "rectangular pl" by (rule rectangular_map_column [OF r(2) pl [unfolded pad_plant_def]])
  have "rectangular st"
    by (rule rectangular_map_column [OF r(3) st [unfolded replace_deleted_storage_level_def]])
  then have r3: "rectangular st'" by (rule rectangular_map_column [OF _ st' [unfolded pad_plant_def]])
  show ?thesis
    using p r1 r2 r3 r(4,5,6)
    by (auto simp: rectangular_clean_frame dest: cells_clean_frame)
qed

subsection \<open>Cells through the joins\<close>

lemma cellsI: "(n, c) \<in> set (cols df) \<Longrightarrow> x \<in> set c \<Longrightarrow> x \<in> cells df"
  unfolding cells_def by (rule UN_I [where a = "(n, c)"]) simp_all

lemma merge_left_form:
  assumes "merge_left left right keys = Inr res"
  shows "\<exists>lk rk f g.
           res = \<lparr>nrows = length (join_indexer lk (nrows left) rk (nrows right)),
                  cols = map (\<lambda>(n, c). (f n, take_left (join_indexer lk (nrows left) rk (nrows right)) c)) (cols left) @
                         map (\<lambda>(n, c). (g n, take_right (join_indexer lk (nrows left) rk (nrows right)) c))
                           (filter (\<lambda>(n, c). n \<notin> set keys) (cols right))\<rparr>"
proof -
  from assms obtain ix where ix: "merge_indexer left right keys = Inr ix"
    by (auto simp: merge_left_def andThen_Inr_iff)
  from ix obtain lk rk where j: "ix = join_indexer lk (nrows left) rk (nrows right)"
    by (auto simp: merge_indexer_def andThen_Inr_iff)
  define others where "others = filter (\<lambda>(n, c). n \<notin> set keys) (cols right)"
  define overlap where "overlap = filter (\<lambda>n. n \<in> set (map fst others)) (column_names left)"
  have "res = \<lparr>nrows = length ix,
                cols = map (\<lambda>(n, c). (add_suffix overlap ''_x'' n, take_left ix c)) (cols left) @
                       map (\<lambda>(n, c). (add_suffix overlap ''_y'' n, take_right ix c)) others\<rparr>"
    using assms ix unfolding merge_left_def others_def overlap_def
    by (simp add: Let_def split: if_splits)
  then show ?thesis
    unfolding j others_def
    by (intro exI [where x = lk] exI [where x = rk] exI [where x = "add_suffix overlap ''_x''"]
        exI [where x = "add_suffix overlap ''_y''"])
qed

lemma merge_left_cells:
  assumes m: "merge_left left right keys = Inr res"
    and l: "rectangular left" and r: "rectangular right"
  shows "rectangular res \<and> cells res \<subseteq> insert NA (cells left \<union> cells right)"
proof -
  from merge_left_form [OF m] obtain lk rk f g where
    res: "res = \<lparr>nrows = length (join_indexer lk (nrows left) rk (nrows right)),
                  cols = map (\<lambda>(n, c). (f n, take_left (join_indexer lk (nrows left) rk (nrows right)) c)) (cols left) @
                         map (\<lambda>(n, c). (g n, take_right (join_indexer lk (nrows left) rk (nrows right)) c))
                           (filter (\<lambda>(n, c). n \<notin> set keys) (cols right))\<rparr>"
    by blast
  let ?ix = "join_indexer lk (nrows left) rk (nrows right)"
  have rect: "rectangular res" unfolding res by (auto simp: rectangular_def)
  have "cells res \<subseteq> insert NA (cells left \<union> cells right)"
  proof
    fix x assume "x \<in> cells res"
    then consider (L) n c where "(n, c) \<in> set (cols left)" "x \<in> set (take_left ?ix c)"
      | (R) n c where "(n, c) \<in> set (cols right)" "x \<in> set (take_right ?ix c)"
      unfolding res cells_def by auto
    then show "x \<in> insert NA (cells left \<union> cells right)"
    proof cases
      case L
      from L(1) l have "length c = nrows left" by (auto simp: rectangular_def)
      from set_take_left [OF this] L(2) have "x \<in> set c" by simp
      with L(1) show ?thesis by (simp add: cellsI)
    next
      case R
      from R(1) r have "length c = nrows right" by (auto simp: rectangular_def)
      from set_take_right [OF this] R(2) have "x \<in> insert NA (set c)" by blast
      with R(1) show ?thesis by (auto simp: cellsI)
    qed
  qed
  with rect show ?thesis by simp
qed

lemma drop_column_cells:
  assumes "drop_column name df = Inr res" and "rectangular df"
  shows "rectangular res \<and> cells res \<subseteq> cells df"
proof -
  from assms(1) have "res = df\<lparr>cols := filter (\<lambda>(n, c). n \<noteq> name) (cols df)\<rparr>"
    by (auto simp: drop_column_def split: if_splits)
  with assms(2) show ?thesis by (auto simp: rectangular_def cells_def)
qed

lemma get_column_cells: "get_column df n = Inr c \<Longrightarrow> set c \<subseteq> cells df"
  by (auto simp: get_column_def cells_def split: option.splits dest!: map_of_SomeD)

lemma select_columns_Inr:
  assumes "select_columns names df = Inr res"
  shows "\<exists>cs. apply_rows (get_column df) names = Inr cs \<and> length cs = length names \<and>
              res = \<lparr>nrows = nrows df, cols = zip names cs\<rparr>"
proof -
  from assms obtain cs where cs: "apply_rows (get_column df) names = Inr cs"
    and res: "res = \<lparr>nrows = nrows df, cols = zip names cs\<rparr>"
    by (auto simp: select_columns_def andThen_Inr_iff)
  from apply_rows_Inr [OF cs] have "length cs = length names" by simp
  with cs res show ?thesis by (intro exI [where x = cs]) simp
qed

lemma select_columns_cells:
  assumes "select_columns names df = Inr res"
  shows "cells res \<subseteq> cells df"
proof
  fix x assume x: "x \<in> cells res"
  from select_columns_Inr [OF assms] obtain cs where cs: "apply_rows (get_column df) names = Inr cs"
    and len: "length cs = length names" and res: "res = \<lparr>nrows = nrows df, cols = zip names cs\<rparr>"
    by blast
  from x res obtain n c where "(n, c) \<in> set (zip names cs)" and xc: "x \<in> set c"
    by (auto simp: cells_def)
  then obtain i where i: "i < length names" and c: "c = cs ! i"
    using len by (auto simp: in_set_zip)
  from apply_rows_Inr [OF cs] i have "get_column df (names ! i) = Inr (cs ! i)" by simp
  from get_column_cells [OF this] xc c show "x \<in> cells df" by blast
qed

lemma cells_fillna: "cells (fillna v df) = fill_cell v ` cells df"
proof
  show "cells (fillna v df) \<subseteq> fill_cell v ` cells df"
    by (auto simp: cells_def fillna_def intro!: imageI cellsI [unfolded cells_def])
  show "fill_cell v ` cells df \<subseteq> cells (fillna v df)"
    by (force simp: cells_def fillna_def)
qed

lemma select_columns_names: "select_columns names df = Inr res \<Longrightarrow> column_names res = names"
  using select_columns_Inr [of names df res] by (auto simp: column_names_def)

lemma column_names_fillna [simp]: "column_names (fillna v df) = column_names df"
  by (simp add: column_names_def fillna_def comp_def case_prod_beta)

lemma map_of_map_column:
  "map_of (map (\<lambda>(n, c). (n, f c)) xs) k = map_option f (map_of xs k)"
  by (induction xs) auto

lemma get_column_fillna:
  "get_column df n = Inr c \<Longrightarrow> get_column (fillna v df) n = Inr (map (fill_cell v) c)"
  by (simp add: get_column_def fillna_def map_of_map_column split: option.splits)

lemma get_column_clean_frame:
  "get_column df n = Inr c \<Longrightarrow> get_column (clean_frame df) n = Inr (clean_column c)"
  by (simp add: get_column_def clean_frame_def map_of_map_column split: option.splits)

lemma step1_cells:
  assumes "step1 p = Inr r" and "rectangular (materials p)" and "rectangular (manufacturer_names p)"
  shows "rectangular r \<and> cells r \<subseteq> insert NA (cells (materials p) \<union> cells (manufacturer_names p))"
proof -
  from assms(1) obtain m where m: "merge_left (materials p) (manufacturer_names p) [''ManufacturerID''] = Inr m"
    and d: "drop_column ''ManufacturerID'' m = Inr r"
    by (auto simp: step1_def andThen_Inr_iff)
  from merge_left_cells [OF m assms(2,3)] have rm: "rectangular m"
    and cm: "cells m \<subseteq> insert NA (cells (materials p) \<union> cells (manufacturer_names p))" by simp_all
  from drop_column_cells [OF d rm] cm show ?thesis by blast
qed

lemma step4_cells:
  assumes "step4 p r3 = Inr r" and "rectangular r3" and "rectangular (supplier_names p)"
  shows "rectangular r \<and> cells r \<subseteq> insert NA (cells r3 \<union> cells (supplier_names p))"
proof -
  from assms(1) obtain m where m: "merge_left r3 (supplier_names p) [''SupplierID''] = Inr m"
    and d: "drop_column ''SupplierID'' m = Inr r"
    by (auto simp: step4_def andThen_Inr_iff)
  from merge_left_cells [OF m assms(2,3)] have rm: "rectangular m"
    and cm: "cells m \<subseteq> insert NA (cells r3 \<union> cells (supplier_names p))" by simp_all
  from drop_column_cells [OF d rm] cm show ?thesis by blast
qed

lemma sentinel_tidy: "\<not> null_text (Str ''N/A'')"
  by (simp add: is_space_def)

lemma fill_cell_tidy: "\<not> null_text x \<Longrightarrow> \<not> isna (fill_cell ''N/A'' x) \<and> \<not> null_text (fill_cell ''N/A'' x)"
  by (cases x) (simp_all add: fill_cell_def is_space_def)

lemma joined_cells:
  assumes wf: "wf_dataset d" and j: "joined d = Inr sel"
  shows "\<forall>x \<in> cells sel. \<not> null_text x"
proof -
  from j obtain p r5 where p: "prepare d = Inr p" and a: "aggregate p = Inr r5"
    and s: "select_columns output_columns r5 = Inr sel"
    by (auto simp: joined_def andThen_Inr_iff)
  from a obtain r1 r2 r3 r4 where s1: "step1 p = Inr r1" and s2: "step2 p r1 = Inr r2"
    and s3: "step3 p r2 = Inr r3" and s4: "step4 p r3 = Inr r4" and s5: "step5 p r4 = Inr r5"
    by (auto simp: aggregate_def andThen_Inr_iff)
  from prepare_clean [OF wf p] have
    rect: "rectangular (materials p)" "rectangular (plants p)" "rectangular (storage p)"
      "rectangular (suppliers p)" "rectangular (supplier_names p)" "rectangular (manufacturer_names p)"
    and tidy: "\<forall>x \<in> cells (materials p) \<union> cells (plants p) \<union> cells (storage p) \<union> cells (suppliers p) \<union>
               cells (supplier_names p) \<union> cells (manufacturer_names p). \<not> null_text x"
    by simp_all
  let ?all = "insert NA (cells (materials p) \<union> cells (plants p) \<union> cells (storage p) \<union> cells (suppliers p) \<union>
               cells (supplier_names p) \<union> cells (manufacturer_names p))"
  from step1_cells [OF s1 rect(1) rect(6)] have c1: "rectangular r1" "cells r1 \<subseteq> ?all" by blast+
  from merge_left_cells [OF s2 [unfolded step2_def] c1(1) rect(2)] c1(2)
  have c2: "rectangular r2" "cells r2 \<subseteq> ?all" by blast+
  from merge_left_cells [OF s3 [unfolded step3_def] c2(1) rect(4)] c2(2)
  have c3: "rectangular r3" "cells r3 \<subseteq> ?all" by blast+
  from step4_cells [OF s4 c3(1) rect(5)] c3(2)
  have c4: "rectangular r4" "cells r4 \<subseteq> ?all" by blast+
  from merge_left_cells [OF s5 [unfolded step5_def] c4(1) rect(3)] c4(2)
  have c5: "cells r5 \<subseteq> ?all" by blast
  from select_columns_cells [OF s] c5 have "cells sel \<subseteq> ?all" by blast
  moreover have "\<forall>x \<in> ?all. \<not> null_text x" using tidy by simp
  ultimately show ?thesis by blast
qed

text \<open>
  Claim C3. The export is the joined table with every missing cell replaced by the string
  \<^verbatim>\<open>N/A\<close> and every other cell unchanged; no cell of the export is missing, and none
  is an empty string, the string \<^verbatim>\<open>nan\<close> or a string of whitespace only.
\<close>

theorem nulls_become_sentinel:
  assumes "wf_dataset d" and "transform d = Inr out"
  shows "(\<exists>sel. joined d = Inr sel \<and> out = fillna ''N/A'' sel \<and>
            (\<forall>n c. get_column sel n = Inr c \<longrightarrow> get_column out n = Inr (map (fill_cell ''N/A'') c))) \<and>
         (\<forall>x. fill_cell ''N/A'' x = (if isna x then Str ''N/A'' else x)) \<and>
         (\<forall>x \<in> cells out. \<not> isna x \<and> \<not> null_text x)"
proof -
  from assms(2) obtain sel where j: "joined d = Inr sel" and out: "out = fillna ''N/A'' sel"
    by (auto simp: transform_def andThen_Inr_iff)
  have a: "\<exists>sel. joined d = Inr sel \<and> out = fillna ''N/A'' sel \<and>
            (\<forall>n c. get_column sel n = Inr c \<longrightarrow> get_column out n = Inr (map (fill_cell ''N/A'') c))"
    using j out by (intro exI [where x = sel]) (simp add: get_column_fillna)
  have b: "\<forall>x. fill_cell ''N/A'' x = (if isna x then Str ''N/A'' else x)"
    by (simp add: fill_cell_def)
  have c: "\<forall>x \<in> cells out. \<not> isna x \<and> \<not> null_text x"
  proof
    fix x assume "x \<in> cells out"
    then obtain y where y: "y \<in> cells sel" and x: "x = fill_cell ''N/A'' y"
      unfolding out cells_fillna by blast
    from joined_cells [OF assms(1) j] y have "\<not> null_text y" by blast
    from fill_cell_tidy [OF this] x show "\<not> isna x \<and> \<not> null_text x" by simp
  qed
  from a b c show ?thesis by (intro conjI)
qed

subsection \<open>Evaluating the sample runs\<close>

lemma show_nat_small: "n < 10 \<Longrightarrow> show_nat n = [digit_char n]"
  by (simp add: show_nat.simps)

lemma show_nat_large: "\<not> n < 10 \<Longrightarrow> show_nat n = show_nat (n div 10) @ [digit_char (n mod 10)]"
  by (subst show_nat.simps) simp

lemmas text_defs = clean_cell_def replace_value_def strip_def is_space_def zfill_def
  pad_plant_cell_def clean_column_def is_object_def

lemmas join_defs = join_indexer_def join_rows_def matching_rows_def key_row_def take_left_def
  take_right_def

lemma upt_two: "[0..<2] = [0, Suc 0]"
  by (simp add: numeral_2_eq_2)

lemma replicate_two: "replicate 2 c = [c, c]"
  by (simp add: numeral_2_eq_2)

lemma replicate_three: "replicate 3 c = [c, c, c]"
  by (simp add: numeral_3_eq_3)

lemmas count_defs = upt_two replicate_two replicate_three

lemma sample_dataset_fill: "fill_typecode (materials sample_dataset) = Inr \<lparr>nrows = 1,
     cols = [(''MaterialReference'', [Str ''ABC123XY'']), (''ManufacturerID'', [Str ''MF1'']),
            (''ArticleNumber'', [Str ''A-1'']), (''TypeCode'', [Str ''TC00000000XY'']),
            (''ShortText'', [Str ''Bolt''])]\<rparr>"
  by (simp add: sample_dataset_def fill_typecode_def get_column_def set_column_def backfill_row_def last_two_def)

lemma sample_dataset_prepare: "prepare sample_dataset = Inr sample_dataset_prepared"
  by (simp add: prepare_def sample_dataset_fill)
     (simp add: sample_dataset_def sample_dataset_prepared_def replace_deleted_storage_level_def pad_plant_def map_column_def
        get_column_def set_column_def clean_frame_def text_defs show_int_def show_nat_small show_nat_large digit_char_def)

lemma sample_dataset_at_step1: "step1 sample_dataset_prepared = Inr sample_dataset_step1"
  by (simp add: sample_dataset_prepared_def sample_dataset_step1_def step1_def merge_defs join_defs)

lemma sample_dataset_at_step2: "step2 sample_dataset_prepared sample_dataset_step1 = Inr sample_dataset_step2"
  by (simp add: sample_dataset_prepared_def sample_dataset_step1_def sample_dataset_step2_def step2_def merge_defs join_defs)

lemma sample_dataset_at_step3: "step3 sample_dataset_prepared sample_dataset_step2 = Inr sample_dataset_step3"
  by (simp add: sample_dataset_prepared_def sample_dataset_step2_def sample_dataset_step3_def step3_def merge_defs join_defs)

lemma sample_dataset_at_step4: "step4 sample_dataset_prepared sample_dataset_step3 = Inr sample_dataset_step4"
  by (simp add: sample_dataset_prepared_def sample_dataset_step3_def sample_dataset_step4_def step4_def merge_defs join_defs)

lemma sample_dataset_at_step5: "step5 sample_dataset_prepared sample_dataset_step4 = Inr sample_dataset_step5"
  by (simp add: sample_dataset_prepared_def sample_dataset_step4_def sample_dataset_step5_def step5_def merge_defs join_defs)

lemma sample_dataset_indexer: "storage_indexer sample_dataset = Inr [(0, Some 0)]"
  by (simp add: storage_indexer_def sample_dataset_prepare sample_dataset_at_step1 sample_dataset_at_step2 sample_dataset_at_step3 sample_dataset_at_step4)
     (simp add: sample_dataset_prepared_def sample_dataset_step4_def merge_indexer_def get_column_def join_defs)

lemma sample_dataset_joined: "joined sample_dataset = Inr \<lparr>nrows = 1,
     cols = [(''MaterialReference'', [Str ''ABC123XY'']), (''ManufacturerName'', [Str ''Acme'']),
            (''ArticleNumber'', [Str ''A-1'']), (''TypeCode'', [Str ''TC00000000XY'']),
            (''ShortText'', [Str ''Bolt'']), (''Plant'', [Str ''0nan'']),
            (''Disposition'', [Str ''D1'']), (''ReporderPoint'', [IntV 5]),
            (''SupplierName'', [Str ''Sup'']), (''SupplierArticleNumber'', [Str ''SA-1'']),
            (''StorageLocation'', [Str ''L1'']), (''StorageBin'', [Str ''B1'']),
            (''DeletedStorageLevel'', [Str ''ACTIVE''])]\<rparr>"
  by (simp add: joined_def aggregate_def sample_dataset_prepare sample_dataset_at_step1 sample_dataset_at_step2 sample_dataset_at_step3 sample_dataset_at_step4 sample_dataset_at_step5)
     (simp add: sample_dataset_step5_def select_columns_def output_columns_def get_column_def)

lemma sample_dataset_transform: "transform sample_dataset = Inr sample_dataset_result"
  by (simp add: transform_def sample_dataset_joined) (simp add: sample_dataset_result_def fillna_def fill_cell_def)

lemma sample_dataset_wf: "wf_dataset sample_dataset"
  by (simp add: wf_dataset_def wf_frame_def column_names_def sample_dataset_def)

lemma sample_dataset_schema: "schema sample_dataset"
  by (simp add: schema_def column_names_def sample_dataset_def)

lemma scenario_fill: "fill_typecode (materials scenario) = Inr \<lparr>nrows = 1,
     cols = [(''MaterialReference'', [Str ''M1'']), (''ManufacturerID'', [Str ''MF1'']),
            (''ArticleNumber'', [Str ''A-1'']), (''TypeCode'', [Str ''TC00000000M1'']),
            (''ShortText'', [Str ''Bolt''])]\<rparr>"
  by (simp add: scenario_def fill_typecode_def get_column_def set_column_def backfill_row_def last_two_def)

lemma scenario_prepare: "prepare scenario = Inr scenario_prepared"
  by (simp add: prepare_def scenario_fill)
     (simp add: scenario_def scenario_prepared_def replace_deleted_storage_level_def pad_plant_def map_column_def
        get_column_def set_column_def clean_frame_def text_defs show_int_def show_nat_small show_nat_large digit_char_def)

lemma scenario_at_step1: "step1 scenario_prepared = Inr scenario_step1"
  by (simp add: scenario_prepared_def scenario_step1_def step1_def merge_defs join_defs)

lemma scenario_at_step2: "step2 scenario_prepared scenario_step1 = Inr scenario_step2"
  by (simp add: scenario_prepared_def scenario_step1_def scenario_step2_def step2_def merge_defs join_defs)

lemma scenario_at_step3: "step3 scenario_prepared scenario_step2 = Inr scenario_step3"
  by (simp add: scenario_prepared_def scenario_step2_def scenario_step3_def step3_def merge_defs join_defs)

lemma scenario_at_step4: "step4 scenario_prepared scenario_step3 = Inr scenario_step4"
  by (simp add: scenario_prepared_def scenario_step3_def scenario_step4_def step4_def merge_defs join_defs)

lemma scenario_at_step5: "step5 scenario_prepared scenario_step4 = Inr scenario_step5"
  by (simp add: scenario_prepared_def scenario_step4_def scenario_step5_def step5_def merge_defs join_defs)

lemma scenario_indexer: "storage_indexer scenario = Inr [(0, None)]"
  by (simp add: storage_indexer_def scenario_prepare scenario_at_step1 scenario_at_step2 scenario_at_step3 scenario_at_step4)
     (simp add: scenario_prepared_def scenario_step4_def merge_indexer_def get_column_def join_defs)

lemma scenario_joined: "joined scenario = Inr \<lparr>nrows = 1,
     cols = [(''MaterialReference'', [Str ''M1'']), (''ManufacturerName'', [Str ''Acme'']),
            (''ArticleNumber'', [Str ''A-1'']), (''TypeCode'', [Str ''TC00000000M1'']),
            (''ShortText'', [Str ''Bolt'']), (''Plant'', [NA]), (''Disposition'', [NA]),
            (''ReporderPoint'', [NA]), (''SupplierName'', [NA]),
            (''SupplierArticleNumber'', [NA]), (''StorageLocation'', [NA]),
            (''StorageBin'', [NA]), (''DeletedStorageLevel'', [NA])]\<rparr>"
  by (simp add: joined_def aggregate_def scenario_prepare scenario_at_step1 scenario_at_step2 scenario_at_step3 scenario_at_step4 scenario_at_step5)
     (simp add: scenario_step5_def select_columns_def output_columns_def get_column_def)

lemma scenario_transform: "transform scenario = Inr scenario_result"
  by (simp add: transform_def scenario_joined) (simp add: scenario_result_def fillna_def fill_cell_def)

lemma scenario_wf: "wf_dataset scenario"
  by (simp add: wf_dataset_def wf_frame_def column_names_def scenario_def)

lemma scenario_schema: "schema scenario"
  by (simp add: schema_def column_names_def scenario_def)

lemma long_plant_fill: "fill_typecode (materials long_plant) = Inr \<lparr>nrows = 1,
     cols = [(''MaterialReference'', [Str ''M1'']), (''ManufacturerID'', [Str ''MF1'']),
            (''ArticleNumber'', [Str ''A-1'']), (''TypeCode'', [Str ''T1'']),
            (''ShortText'', [Str ''Bolt''])]\<rparr>"
  by (simp add: long_plant_def fill_typecode_def get_column_def set_column_def backfill_row_def last_two_def)

lemma long_plant_prepare: "prepare long_plant = Inr long_plant_prepared"
  by (simp add: prepare_def long_plant_fill)
     (simp add: long_plant_def long_plant_prepared_def replace_deleted_storage_level_def pad_plant_def map_column_def
        get_column_def set_column_def clean_frame_def text_defs show_int_def show_nat_small show_nat_large digit_char_def)

lemma long_plant_at_step1: "step1 long_plant_prepared = Inr long_plant_step1"
  by (simp add: long_plant_prepared_def long_plant_step1_def step1_def merge_defs join_defs)

lemma long_plant_at_step2: "step2 long_plant_prepared long_plant_step1 = Inr long_plant_step2"
  by (simp add: long_plant_prepared_def long_plant_step1_def long_plant_step2_def step2_def merge_defs join_defs)

lemma long_plant_at_step3: "step3 long_plant_prepared long_plant_step2 = Inr long_plant_step3"
  by (simp add: long_plant_prepared_def long_plant_step2_def long_plant_step3_def step3_def merge_defs join_defs)

lemma long_plant_at_step4: "step4 long_plant_prepared long_plant_step3 = Inr long_plant_step4"
  by (simp add: long_plant_prepared_def long_plant_step3_def long_plant_step4_def step4_def merge_defs join_defs)

lemma long_plant_at_step5: "step5 long_plant_prepared long_plant_step4 = Inr long_plant_step5"
  by (simp add: long_plant_prepared_def long_plant_step4_def long_plant_step5_def step5_def merge_defs join_defs)

lemma long_plant_indexer: "storage_indexer long_plant = Inr [(0, None)]"
  by (simp add: storage_indexer_def long_plant_prepare long_plant_at_step1 long_plant_at_step2 long_plant_at_step3 long_plant_at_step4)
     (simp add: long_plant_prepared_def long_plant_step4_def merge_indexer_def get_column_def join_defs)

lemma long_plant_joined: "joined long_plant = Inr \<lparr>nrows = 1,
     cols = [(''MaterialReference'', [Str ''M1'']), (''ManufacturerName'', [Str ''Acme'']),
            (''ArticleNumber'', [Str ''A-1'']), (''TypeCode'', [Str ''T1'']),
            (''ShortText'', [Str ''Bolt'']), (''Plant'', [Str ''12345'']),
            (''Disposition'', [Str ''D1'']), (''ReporderPoint'', [IntV 5]),
            (''SupplierName'', [NA]), (''SupplierArticleNumber'', [NA]),
            (''StorageLocation'', [NA]), (''StorageBin'', [NA]), (''DeletedStorageLevel'', [NA])]\<rparr>"
  by (simp add: joined_def aggregate_def long_plant_prepare long_plant_at_step1 long_plant_at_step2 long_plant_at_step3 long_plant_at_step4 long_plant_at_step5)
     (simp add: long_plant_step5_def select_columns_def output_columns_def get_column_def)

lemma long_plant_transform: "transform long_plant = Inr long_plant_result"
  by (simp add: transform_def long_plant_joined) (simp add: long_plant_result_def fillna_def fill_cell_def)

lemma long_plant_wf: "wf_dataset long_plant"
  by (simp add: wf_dataset_def wf_frame_def column_names_def long_plant_def)

lemma long_plant_schema: "schema long_plant"
  by (simp add: schema_def column_names_def long_plant_def)

lemma two_plants_fill: "fill_typecode (materials two_plants) = Inr \<lparr>nrows = 1,
     cols = [(''MaterialReference'', [Str ''M1'']), (''ManufacturerID'', [Str ''MF1'']),
            (''ArticleNumber'', [Str ''A-1'']), (''TypeCode'', [Str ''T1'']),
            (''ShortText'', [Str ''Bolt''])]\<rparr>"
  by (simp add: two_plants_def fill_typecode_def get_column_def set_column_def backfill_row_def last_two_def)

lemma two_plants_prepare: "prepare two_plants = Inr two_plants_prepared"
  by (simp add: prepare_def two_plants_fill)
     (simp add: two_plants_def two_plants_prepared_def replace_deleted_storage_level_def pad_plant_def map_column_def
        get_column_def set_column_def clean_frame_def text_defs show_int_def show_nat_small show_nat_large digit_char_def count_defs)

lemma two_plants_at_step1: "step1 two_plants_prepared = Inr two_plants_step1"
  by (simp add: two_plants_prepared_def two_plants_step1_def step1_def merge_defs join_defs count_defs)

lemma two_plants_at_step2: "step2 two_plants_prepared two_plants_step1 = Inr two_plants_step2"
  by (simp add: two_plants_prepared_def two_plants_step1_def two_plants_step2_def step2_def merge_defs join_defs count_defs)

lemma two_plants_at_step3: "step3 two_plants_prepared two_plants_step2 = Inr two_plants_step3"
  by (simp add: two_plants_prepared_def two_plants_step2_def two_plants_step3_def step3_def merge_defs join_defs count_defs)

lemma two_plants_at_step4: "step4 two_plants_prepared two_plants_step3 = Inr two_plants_step4"
  by (simp add: two_plants_prepared_def two_plants_step3_def two_plants_step4_def step4_def merge_defs join_defs count_defs)

lemma two_plants_at_step5: "step5 two_plants_prepared two_plants_step4 = Inr two_plants_step5"
  by (simp add: two_plants_prepared_def two_plants_step4_def two_plants_step5_def step5_def merge_defs join_defs count_defs)

lemma two_plants_indexer: "storage_indexer two_plants = Inr [(0, Some 0), (1, None)]"
  by (simp add: storage_indexer_def two_plants_prepare two_plants_at_step1 two_plants_at_step2 two_plants_at_step3 two_plants_at_step4)
     (simp add: two_plants_prepared_def two_plants_step4_def merge_indexer_def get_column_def join_defs count_defs)

lemma two_plants_joined: "joined two_plants = Inr \<lparr>nrows = 2,
     cols = [(''MaterialReference'', [Str ''M1'', Str ''M1'']),
            (''ManufacturerName'', [Str ''Acme'', Str ''Acme'']),
            (''ArticleNumber'', [Str ''A-1'', Str ''A-1'']),
            (''TypeCode'', [Str ''T1'', Str ''T1'']),
            (''ShortText'', [Str ''Bolt'', Str ''Bolt'']),
            (''Plant'', [Str ''0007'', Str ''0042'']),
            (''Disposition'', [Str ''D1'', Str ''D2'']), (''ReporderPoint'', [IntV 5, IntV 9]),
            (''SupplierName'', [NA, NA]), (''SupplierArticleNumber'', [NA, NA]),
            (''StorageLocation'', [Str ''L1'', NA]), (''StorageBin'', [Str ''B1'', NA]),
            (''DeletedStorageLevel'', [Str ''ACTIVE'', NA])]\<rparr>"
  by (simp add: joined_def aggregate_def two_plants_prepare two_plants_at_step1 two_plants_at_step2 two_plants_at_step3 two_plants_at_step4 two_plants_at_step5)
     (simp add: two_plants_step5_def select_columns_def output_columns_def get_column_def)

lemma two_plants_transform: "transform two_plants = Inr two_plants_result"
  by (simp add: transform_def two_plants_joined) (simp add: two_plants_result_def fillna_def fill_cell_def)

lemma two_plants_wf: "wf_dataset two_plants"
  by (simp add: wf_dataset_def wf_frame_def column_names_def two_plants_def)

lemma two_plants_schema: "schema two_plants"
  by (simp add: schema_def column_names_def two_plants_def)

subsection \<open>The theorems at the sample runs\<close>

text \<open>Claim C3 at the scenario run, where the plant of the only row is missing.\<close>

theorem nulls_become_sentinel_witness:
  "wf_dataset scenario \<and> transform scenario = Inr scenario_result \<and>
   get_column scenario_result ''Plant'' = Inr [Str ''N/A''] \<and>
   Str ''Acme'' \<in> cells scenario_result \<and> \<not> null_text (Str ''Acme'')"
proof -
  note t = nulls_become_sentinel [OF scenario_wf scenario_transform]
  from t obtain sel where j: "joined scenario = Inr sel"
    and g: "\<forall>n c. get_column sel n = Inr c \<longrightarrow> get_column scenario_result n = Inr (map (fill_cell ''N/A'') c)"
    by blast
  from j have "get_column sel ''Plant'' = Inr [NA]"
    by (simp add: scenario_joined) (auto simp: get_column_def)
  with g have "get_column scenario_result ''Plant'' = Inr (map (fill_cell ''N/A'') [NA])" by blast
  then have a: "get_column scenario_result ''Plant'' = Inr [Str ''N/A'']" by (simp add: fill_cell_def)
  have m: "Str ''Acme'' \<in> cells scenario_result"
    by (simp add: cells_def scenario_result_def)
  from t have "\<forall>x \<in> cells scenario_result. \<not> isna x \<and> \<not> null_text x" by simp
  with m have b: "\<not> null_text (Str ''Acme'')" by blast
  from scenario_wf scenario_transform a m b show ?thesis by simp
qed

text \<open>Claim C6 at two runs. In the first every join finds one partner, and the export has
  the one row of the materials sheet. In the second the material is kept in two plants:
  the join with the plants sheet gives its row the partners 0 and 1, and the export has
  two rows.\<close>

theorem row_count_grows_witness:
  "transform sample_dataset = Inr sample_dataset_result \<and>
   nrows sample_dataset_result = nrows (materials sample_dataset) \<and>
   unique_matches sample_dataset \<and>
   transform two_plants = Inr two_plants_result \<and>
   nrows (materials two_plants) = 1 \<and> nrows two_plants_result = 2 \<and>
   \<not> unique_matches two_plants \<and>
   merge_left two_plants_step1 (plants two_plants_prepared) [''MaterialReference''] =
     Inr two_plants_step2 \<and>
   partners two_plants_step1 (plants two_plants_prepared) [''MaterialReference''] 0 = {0, 1} \<and>
   nrows two_plants_step1 = 1 \<and> nrows two_plants_step2 = 2 \<and>
   nrows two_plants_step2 =
     (\<Sum>i<nrows two_plants_step1.
        max 1 (card (partners two_plants_step1 (plants two_plants_prepared) [''MaterialReference''] i)))"
proof -
  note t = row_count_grows [OF sample_dataset_transform]
  note u = row_count_grows [OF two_plants_transform]
  have n: "nrows sample_dataset_result = nrows (materials sample_dataset)"
    by (simp add: sample_dataset_result_def sample_dataset_def)
  from t n have a: "unique_matches sample_dataset" by simp
  have m: "nrows (materials two_plants) = 1" "nrows two_plants_result = 2"
    by (simp_all add: two_plants_result_def two_plants_def)
  from u m have b: "\<not> unique_matches two_plants" by simp
  have j: "merge_left two_plants_step1 (plants two_plants_prepared) [''MaterialReference''] =
     Inr two_plants_step2"
    using two_plants_at_step2 by (simp add: step2_def)
  have pt: "partners two_plants_step1 (plants two_plants_prepared) [''MaterialReference''] 0 = {0, 1}"
    by (auto simp: partners_def same_key_def get_column_def two_plants_step1_def two_plants_prepared_def
        less_Suc_eq numeral_2_eq_2)
  have k: "nrows two_plants_step1 = 1" "nrows two_plants_step2 = 2"
    by (simp_all add: two_plants_step1_def two_plants_step2_def)
  from u j have s: "nrows two_plants_step2 =
     (\<Sum>i<nrows two_plants_step1.
        max 1 (card (partners two_plants_step1 (plants two_plants_prepared) [''MaterialReference''] i)))"
    by blast
  from sample_dataset_transform n a two_plants_transform m b j pt k s show ?thesis
    by (intro conjI)
qed

subsection \<open>The columns of the export\<close>

lemma drop_column_names:
  "drop_column name df = Inr res \<Longrightarrow> name \<notin> set (column_names res)"
  by (auto simp: drop_column_def column_names_def split: if_splits)

text \<open>
  Claim C8. The export has the thirteen columns of the list, in that order, and neither
  \<^verbatim>\<open>ManufacturerID\<close> nor \<^verbatim>\<open>SupplierID\<close>: the table that leaves the first step has no
  column \<^verbatim>\<open>ManufacturerID\<close>, and the table that leaves the fourth step has no column
  \<^verbatim>\<open>SupplierID\<close>.
\<close>

theorem export_columns:
  assumes "transform d = Inr out"
  shows "column_names out =
           [''MaterialReference'', ''ManufacturerName'', ''ArticleNumber'', ''TypeCode'',
            ''ShortText'', ''Plant'', ''Disposition'', ''ReporderPoint'', ''SupplierName'',
            ''SupplierArticleNumber'', ''StorageLocation'', ''StorageBin'', ''DeletedStorageLevel''] \<and>
         length (column_names out) = 13 \<and>
         ''ManufacturerID'' \<notin> set (column_names out) \<and>
         ''SupplierID'' \<notin> set (column_names out) \<and>
         (\<forall>p r. step1 p = Inr r \<longrightarrow> ''ManufacturerID'' \<notin> set (column_names r)) \<and>
         (\<forall>p r3 r. step4 p r3 = Inr r \<longrightarrow> ''SupplierID'' \<notin> set (column_names r))"
proof -
  from transform_Inr [OF assms] obtain r5 sel
    where sel: "select_columns output_columns r5 = Inr sel" and out: "out = fillna ''N/A'' sel"
    by blast
  have names: "column_names out = output_columns"
    using select_columns_names [OF sel] out by simp
  have a: "\<forall>p r. step1 p = Inr r \<longrightarrow> ''ManufacturerID'' \<notin> set (column_names r)"
    by (auto simp: step1_def andThen_Inr_iff dest: drop_column_names)
  have b: "\<forall>p r3 r. step4 p r3 = Inr r \<longrightarrow> ''SupplierID'' \<notin> set (column_names r)"
    by (auto simp: step4_def andThen_Inr_iff dest: drop_column_names)
  show ?thesis
    unfolding names using a b by (simp add: output_columns_def)
qed

text \<open>The theorem at the sample run.\<close>

theorem export_columns_witness:
  "transform sample_dataset = Inr sample_dataset_result \<and>
   step1 sample_dataset_prepared = Inr sample_dataset_step1 \<and>
   step4 sample_dataset_prepared sample_dataset_step3 = Inr sample_dataset_step4 \<and>
   length (column_names sample_dataset_result) = 13 \<and>
   ''ManufacturerID'' \<notin> set (column_names sample_dataset_step1) \<and>
   ''SupplierID'' \<notin> set (column_names sample_dataset_step4)"
proof -
  note t = export_columns [OF sample_dataset_transform]
  from t have a: "length (column_names sample_dataset_result) = 13" by simp
  from t sample_dataset_at_step1 have b: "''ManufacturerID'' \<notin> set (column_names sample_dataset_step1)"
    by blast
  from t sample_dataset_at_step4 have c: "''SupplierID'' \<notin> set (column_names sample_dataset_step4)"
    by blast
  from sample_dataset_transform sample_dataset_at_step1 sample_dataset_at_step4 a b c
  show ?thesis by simp
qed

subsection \<open>A run on the tables of the data model, column by column\<close>

lemma aggregate_explicit:
  assumes ma: "materials p = \<lparr>nrows = n, cols = [(''MaterialReference'', a1), (''ManufacturerID'', a2),
              (''ArticleNumber'', a3), (''TypeCode'', a4), (''ShortText'', a5)]\<rparr>"
    and mn: "manufacturer_names p = \<lparr>nrows = nb, cols = [(''ManufacturerID'', b1), (''ManufacturerName'', b2)]\<rparr>"
    and pl: "plants p = \<lparr>nrows = nc, cols = [(''MaterialReference'', c1), (''Plant'', c2),
                   (''Disposition'', c3), (''ReporderPoint'', c4)]\<rparr>"
    and su: "suppliers p = \<lparr>nrows = nd, cols = [(''MaterialReference'', d1), (''SupplierID'', d2),
                   (''SupplierArticleNumber'', d3)]\<rparr>"
    and sn: "supplier_names p = \<lparr>nrows = ne, cols = [(''SupplierID'', e1), (''SupplierName'', e2)]\<rparr>"
    and st: "storage p = \<lparr>nrows = nf, cols = [(''MaterialReference'', f1), (''Plant'', f2),
                   (''StorageLocation'', f3), (''StorageBin'', f4), (''DeletedStorageLevel'', f5)]\<rparr>"
    and ix1: "ix1 = join_indexer [a2] n [b1] nb"
    and ix2: "ix2 = join_indexer [take_left ix1 a1] (length ix1) [c1] nc"
    and ix3: "ix3 = join_indexer [take_left ix2 (take_left ix1 a1)] (length ix2) [d1] nd"
    and ix4: "ix4 = join_indexer [take_right ix3 d2] (length ix3) [e1] ne"
    and ix5: "ix5 = join_indexer
                [take_left ix4 (take_left ix3 (take_left ix2 (take_left ix1 a1))),
                 take_left ix4 (take_left ix3 (take_right ix2 c2))] (length ix4) [f1, f2] nf"
  shows "andThen (aggregate p) (select_columns output_columns) =
         Inr \<lparr>nrows = length ix5,
           cols = [(''MaterialReference'', take_left ix5 (take_left ix4 (take_left ix3 (take_left ix2 (take_left ix1 a1))))),
                   (''ManufacturerName'', take_left ix5 (take_left ix4 (take_left ix3 (take_left ix2 (take_right ix1 b2))))),
                   (''ArticleNumber'', take_left ix5 (take_left ix4 (take_left ix3 (take_left ix2 (take_left ix1 a3))))),
                   (''TypeCode'', take_left ix5 (take_left ix4 (take_left ix3 (take_left ix2 (take_left ix1 a4))))),
                   (''ShortText'', take_left ix5 (take_left ix4 (take_left ix3 (take_left ix2 (take_left ix1 a5))))),
                   (''Plant'', take_left ix5 (take_left ix4 (take_left ix3 (take_right ix2 c2)))),
                   (''Disposition'', take_left ix5 (take_left ix4 (take_left ix3 (take_right ix2 c3)))),
                   (''ReporderPoint'', take_left ix5 (take_left ix4 (take_left ix3 (take_right ix2 c4)))),
                   (''SupplierName'', take_left ix5 (take_right ix4 e2)),
                   (''SupplierArticleNumber'', take_left ix5 (take_left ix4 (take_right ix3 d3))),
                   (''StorageLocation'', take_right ix5 f3), (''StorageBin'', take_right ix5 f4),
                   (''DeletedStorageLevel'', take_right ix5 f5)]\<rparr>"
    and "andThen (step1 p) (\<lambda>r1. andThen (step2 p r1) (\<lambda>r2. andThen (step3 p r2) (\<lambda>r3.
           andThen (step4 p r3) (\<lambda>r4. merge_indexer r4 (storage p) [''MaterialReference'', ''Plant''])))) = Inr ix5"
proof -
  note s1 = step1_explicit [OF ma mn ix1]
  note s2 = step2_explicit [OF refl pl ix2]
  note s3 = step3_explicit [OF refl su ix3]
  note s4 = step4_explicit [OF refl sn ix4]
  note s5 = step5_explicit [OF refl st ix5]
  note f = format_explicit [OF refl]
  show "andThen (aggregate p) (select_columns output_columns) =
         Inr \<lparr>nrows = length ix5,
           cols = [(''MaterialReference'', take_left ix5 (take_left ix4 (take_left ix3 (take_left ix2 (take_left ix1 a1))))),
                   (''ManufacturerName'', take_left ix5 (take_left ix4 (take_left ix3 (take_left ix2 (take_right ix1 b2))))),
                   (''ArticleNumber'', take_left ix5 (take_left ix4 (take_left ix3 (take_left ix2 (take_left ix1 a3))))),
                   (''TypeCode'', take_left ix5 (take_left ix4 (take_left ix3 (take_left ix2 (take_left ix1 a4))))),
                   (''ShortText'', take_left ix5 (take_left ix4 (take_left ix3 (take_left ix2 (take_left ix1 a5))))),
                   (''Plant'', take_left ix5 (take_left ix4 (take_left ix3 (take_right ix2 c2)))),
                   (''Disposition'', take_left ix5 (take_left ix4 (take_left ix3 (take_right ix2 c3)))),
                   (''ReporderPoint'', take_left ix5 (take_left ix4 (take_left ix3 (take_right ix2 c4)))),
                   (''SupplierName'', take_left ix5 (take_right ix4 e2)),
                   (''SupplierArticleNumber'', take_left ix5 (take_left ix4 (take_right ix3 d3))),
                   (''StorageLocation'', take_right ix5 f3), (''StorageBin'', take_right ix5 f4),
                   (''DeletedStorageLevel'', take_right ix5 f5)]\<rparr>"
    unfolding aggregate_def s1 andThen_simps s2 s3 s4 s5 f ..
  show "andThen (step1 p) (\<lambda>r1. andThen (step2 p r1) (\<lambda>r2. andThen (step3 p r2) (\<lambda>r3.
           andThen (step4 p r3) (\<lambda>r4. merge_indexer r4 (storage p) [''MaterialReference'', ''Plant''])))) = Inr ix5"
    unfolding s1 andThen_simps s2 s3 s4
    by (simp add: merge_indexer_def get_column_def st ix5)
qed

lemma clean_frame_explicit: "clean_frame \<lparr>nrows = n, cols = cs\<rparr> = \<lparr>nrows = n, cols = map (\<lambda>(k, c). (k, clean_column c)) cs\<rparr>"
  by (simp add: clean_frame_def)

lemma clean_frame_cols: "cols (clean_frame df) = map (\<lambda>(k, c). (k, clean_column c)) (cols df)"
  by (simp add: clean_frame_def)

lemma frame_eqI: "nrows df = n \<Longrightarrow> cols df = cs \<Longrightarrow> df = \<lparr>nrows = n, cols = cs\<rparr>"
  by auto

lemma prepare_explicit:
  assumes sc: "schema d" and pr: "prepare d = Inr p"
  obtains (explicit) m1 m2 m3 m4 m5 t b1 b2 c1 c2 c3 c4 d1 d2 d3 e1 e2 f1 f2 f3 f4 f5 where
    "cols (materials d) = [(''MaterialReference'', m1), (''ManufacturerID'', m2),
        (''ArticleNumber'', m3), (''TypeCode'', m4), (''ShortText'', m5)]"
    "(\<forall>x \<in> set m4. \<not> isna x) \<and> t = m4 \<or>
       apply_rows (\<lambda>(mr, tc). backfill_row mr tc) (zip m1 m4) = Inr t"
    "cols (manufacturer_names d) = [(''ManufacturerID'', b1), (''ManufacturerName'', b2)]"
    "cols (plants d) = [(''MaterialReference'', c1), (''Plant'', c2), (''Disposition'', c3),
        (''ReporderPoint'', c4)]"
    "cols (suppliers d) = [(''MaterialReference'', d1), (''SupplierID'', d2),
        (''SupplierArticleNumber'', d3)]"
    "cols (supplier_names d) = [(''SupplierID'', e1), (''SupplierName'', e2)]"
    "cols (storage d) = [(''MaterialReference'', f1), (''Plant'', f2), (''StorageLocation'', f3),
        (''StorageBin'', f4), (''DeletedStorageLevel'', f5)]"
    "materials p = \<lparr>nrows = nrows (materials d),
        cols = [(''MaterialReference'', clean_column m1), (''ManufacturerID'', clean_column m2),
                (''ArticleNumber'', clean_column m3), (''TypeCode'', clean_column t),
                (''ShortText'', clean_column m5)]\<rparr>"
    "manufacturer_names p = \<lparr>nrows = nrows (manufacturer_names d),
        cols = [(''ManufacturerID'', clean_column b1), (''ManufacturerName'', clean_column b2)]\<rparr>"
    "plants p = \<lparr>nrows = nrows (plants d),
        cols = [(''MaterialReference'', clean_column c1),
                (''Plant'', clean_column (map pad_plant_cell c2)),
                (''Disposition'', clean_column c3), (''ReporderPoint'', clean_column c4)]\<rparr>"
    "suppliers p = \<lparr>nrows = nrows (suppliers d),
        cols = [(''MaterialReference'', clean_column d1), (''SupplierID'', clean_column d2),
                (''SupplierArticleNumber'', clean_column d3)]\<rparr>"
    "supplier_names p = \<lparr>nrows = nrows (supplier_names d),
        cols = [(''SupplierID'', clean_column e1), (''SupplierName'', clean_column e2)]\<rparr>"
    "storage p = \<lparr>nrows = nrows (storage d),
        cols = [(''MaterialReference'', clean_column f1),
                (''Plant'', clean_column (map pad_plant_cell f2)),
                (''StorageLocation'', clean_column f3), (''StorageBin'', clean_column f4),
                (''DeletedStorageLevel'',
                   clean_column (map (replace_value '' '' (Str ''ACTIVE'')) f5))]\<rparr>"
proof -
  from sc have n1: "map fst (cols (materials d)) =
      [''MaterialReference'', ''ManufacturerID'', ''ArticleNumber'', ''TypeCode'', ''ShortText'']"
    and n2: "map fst (cols (manufacturer_names d)) = [''ManufacturerID'', ''ManufacturerName'']"
    and n3: "map fst (cols (plants d)) = [''MaterialReference'', ''Plant'', ''Disposition'', ''ReporderPoint'']"
    and n4: "map fst (cols (suppliers d)) = [''MaterialReference'', ''SupplierID'', ''SupplierArticleNumber'']"
    and n5: "map fst (cols (supplier_names d)) = [''SupplierID'', ''SupplierName'']"
    and n6: "map fst (cols (storage d)) = [''MaterialReference'', ''Plant'', ''StorageLocation'',
      ''StorageBin'', ''DeletedStorageLevel'']"
    by (simp_all add: schema_def column_names_def)
  from names5 [OF n1] obtain m1 m2 m3 m4 m5 where m: "cols (materials d) = [(''MaterialReference'', m1),
        (''ManufacturerID'', m2), (''ArticleNumber'', m3), (''TypeCode'', m4), (''ShortText'', m5)]"
    by (elim exE)
  from names2 [OF n2] obtain b1 b2 where b: "cols (manufacturer_names d) = [(''ManufacturerID'', b1), (''ManufacturerName'', b2)]"
    by (elim exE)
  from names4 [OF n3] obtain c1 c2 c3 c4 where c: "cols (plants d) = [(''MaterialReference'', c1), (''Plant'', c2),
        (''Disposition'', c3), (''ReporderPoint'', c4)]"
    by (elim exE)
  from names3 [OF n4] obtain d1 d2 d3 where dd: "cols (suppliers d) = [(''MaterialReference'', d1), (''SupplierID'', d2),
        (''SupplierArticleNumber'', d3)]"
    by (elim exE)
  from names2 [OF n5] obtain e1 e2 where e: "cols (supplier_names d) = [(''SupplierID'', e1), (''SupplierName'', e2)]"
    by (elim exE)
  from names5 [OF n6] obtain f1 f2 f3 f4 f5 where f: "cols (storage d) = [(''MaterialReference'', f1), (''Plant'', f2),
        (''StorageLocation'', f3), (''StorageBin'', f4), (''DeletedStorageLevel'', f5)]"
    by (elim exE)
  from prepare_Inr [OF pr] obtain st ma pl st'
    where st: "replace_deleted_storage_level (storage d) = Inr st"
      and ma: "fill_typecode (materials d) = Inr ma"
      and pl: "pad_plant (plants d) = Inr pl"
      and st': "pad_plant st = Inr st'"
      and p: "p = \<lparr>materials = clean_frame ma, plants = clean_frame pl, storage = clean_frame st',
                suppliers = clean_frame (suppliers d),
                supplier_names = clean_frame (supplier_names d),
                manufacturer_names = clean_frame (manufacturer_names d)\<rparr>"
    by blast
  from fill_typecode_explicit [OF ma m] obtain t
    where t: "(\<forall>x \<in> set m4. \<not> isna x) \<and> t = m4 \<or>
              apply_rows (\<lambda>(mr, tc). backfill_row mr tc) (zip m1 m4) = Inr t"
      and ma': "ma = \<lparr>nrows = nrows (materials d), cols = [(''MaterialReference'', m1),
              (''ManufacturerID'', m2), (''ArticleNumber'', m3), (''TypeCode'', t), (''ShortText'', m5)]\<rparr>"
    by blast
  have pl': "pl = \<lparr>nrows = nrows (plants d), cols = [(''MaterialReference'', c1),
           (''Plant'', map pad_plant_cell c2), (''Disposition'', c3), (''ReporderPoint'', c4)]\<rparr>"
    using pl pad_plant_plants [OF c] by simp
  have "andThen (replace_deleted_storage_level (storage d)) pad_plant = Inr st'"
    using st st' by simp
  then have st'': "st' = \<lparr>nrows = nrows (storage d), cols = [(''MaterialReference'', f1),
           (''Plant'', map pad_plant_cell f2), (''StorageLocation'', f3), (''StorageBin'', f4),
           (''DeletedStorageLevel'', map (replace_value '' '' (Str ''ACTIVE'')) f5)]\<rparr>"
    using prepare_storage [OF f] by simp
  have p1: "materials p = \<lparr>nrows = nrows (materials d),
        cols = [(''MaterialReference'', clean_column m1), (''ManufacturerID'', clean_column m2),
                (''ArticleNumber'', clean_column m3), (''TypeCode'', clean_column t),
                (''ShortText'', clean_column m5)]\<rparr>"
    unfolding p ma' by (simp add: clean_frame_explicit)
  have p2: "manufacturer_names p = \<lparr>nrows = nrows (manufacturer_names d),
        cols = [(''ManufacturerID'', clean_column b1), (''ManufacturerName'', clean_column b2)]\<rparr>"
    unfolding p by (rule frame_eqI) (simp_all add: clean_frame_cols b)
  have p3: "plants p = \<lparr>nrows = nrows (plants d),
        cols = [(''MaterialReference'', clean_column c1),
                (''Plant'', clean_column (map pad_plant_cell c2)),
                (''Disposition'', clean_column c3), (''ReporderPoint'', clean_column c4)]\<rparr>"
    unfolding p pl' by (simp add: clean_frame_explicit)
  have p4: "suppliers p = \<lparr>nrows = nrows (suppliers d),
        cols = [(''MaterialReference'', clean_column d1), (''SupplierID'', clean_column d2),
                (''SupplierArticleNumber'', clean_column d3)]\<rparr>"
    unfolding p by (rule frame_eqI) (simp_all add: clean_frame_cols dd)
  have p5: "supplier_names p = \<lparr>nrows = nrows (supplier_names d),
        cols = [(''SupplierID'', clean_column e1), (''SupplierName'', clean_column e2)]\<rparr>"
    unfolding p by (rule frame_eqI) (simp_all add: clean_frame_cols e)
  have p6: "storage p = \<lparr>nrows = nrows (storage d),
        cols = [(''MaterialReference'', clean_column f1),
                (''Plant'', clean_column (map pad_plant_cell f2)),
                (''StorageLocation'', clean_column f3), (''StorageBin'', clean_column f4),
                (''DeletedStorageLevel'',
                   clean_column (map (replace_value '' '' (Str ''ACTIVE'')) f5))]\<rparr>"
    unfolding p st'' by (simp add: clean_frame_explicit)
  from that [OF m t b c dd e f p1 p2 p3 p4 p5 p6] show thesis .
qed

lemma fillna_explicit:
  "fillna v \<lparr>nrows = n, cols = cs\<rparr> = \<lparr>nrows = n, cols = map (\<lambda>(k, c). (k, map (fill_cell v) c)) cs\<rparr>"
  by (simp add: fillna_def)

lemma transform_explicit:
  assumes sc: "schema d" and tr: "transform d = Inr out"
  obtains (explicit) m1 m2 m3 m4 m5 t b1 b2 c1 c2 c3 c4 d1 d2 d3 e1 e2 f1 f2 f3 f4 f5 ix1 ix2 ix3 ix4 ix5 where
    "cols (materials d) = [(''MaterialReference'', m1), (''ManufacturerID'', m2),
        (''ArticleNumber'', m3), (''TypeCode'', m4), (''ShortText'', m5)]"
    "(\<forall>x \<in> set m4. \<not> isna x) \<and> t = m4 \<or>
       apply_rows (\<lambda>(mr, tc). backfill_row mr tc) (zip m1 m4) = Inr t"
    "cols (manufacturer_names d) = [(''ManufacturerID'', b1), (''ManufacturerName'', b2)]"
    "cols (plants d) = [(''MaterialReference'', c1), (''Plant'', c2), (''Disposition'', c3),
        (''ReporderPoint'', c4)]"
    "cols (suppliers d) = [(''MaterialReference'', d1), (''SupplierID'', d2),
        (''SupplierArticleNumber'', d3)]"
    "cols (supplier_names d) = [(''SupplierID'', e1), (''SupplierName'', e2)]"
    "cols (storage d) = [(''MaterialReference'', f1), (''Plant'', f2), (''StorageLocation'', f3),
        (''StorageBin'', f4), (''DeletedStorageLevel'', f5)]"
    "ix1 = join_indexer [clean_column m2] (nrows (materials d)) [clean_column b1]
             (nrows (manufacturer_names d))"
    "ix2 = join_indexer [take_left ix1 (clean_column m1)] (length ix1) [clean_column c1]
             (nrows (plants d))"
    "ix3 = join_indexer [take_left ix2 (take_left ix1 (clean_column m1))] (length ix2)
             [clean_column d1] (nrows (suppliers d))"
    "ix4 = join_indexer [take_right ix3 (clean_column d2)] (length ix3) [clean_column e1]
             (nrows (supplier_names d))"
    "ix5 = join_indexer
             [take_left ix4 (take_left ix3 (take_left ix2 (take_left ix1 (clean_column m1)))),
              take_left ix4 (take_left ix3 (take_right ix2 (clean_column (map pad_plant_cell c2))))]
             (length ix4)
             [clean_column f1, clean_column (map pad_plant_cell f2)] (nrows (storage d))"
    "storage_indexer d = Inr ix5"
    "out = \<lparr>nrows = length ix5,
        cols = [(''MaterialReference'', map (fill_cell ''N/A'') (take_left ix5 (take_left ix4 (take_left ix3 (take_left ix2 (take_left ix1 (clean_column m1))))))),
                (''ManufacturerName'', map (fill_cell ''N/A'') (take_left ix5 (take_left ix4 (take_left ix3 (take_left ix2 (take_right ix1 (clean_column b2))))))),
                (''ArticleNumber'', map (fill_cell ''N/A'') (take_left ix5 (take_left ix4 (take_left ix3 (take_left ix2 (take_left ix1 (clean_column m3))))))),
                (''TypeCode'', map (fill_cell ''N/A'') (take_left ix5 (take_left ix4 (take_left ix3 (take_left ix2 (take_left ix1 (clean_column t))))))),
                (''ShortText'', map (fill_cell ''N/A'') (take_left ix5 (take_left ix4 (take_left ix3 (take_left ix2 (take_left ix1 (clean_column m5))))))),
                (''Plant'', map (fill_cell ''N/A'') (take_left ix5 (take_left ix4 (take_left ix3 (take_right ix2 (clean_column (map pad_plant_cell c2))))))),
                (''Disposition'', map (fill_cell ''N/A'') (take_left ix5 (take_left ix4 (take_left ix3 (take_right ix2 (clean_column c3)))))),
                (''ReporderPoint'', map (fill_cell ''N/A'') (take_left ix5 (take_left ix4 (take_left ix3 (take_right ix2 (clean_column c4)))))),
                (''SupplierName'', map (fill_cell ''N/A'') (take_left ix5 (take_right ix4 (clean_column e2)))),
                (''SupplierArticleNumber'', map (fill_cell ''N/A'') (take_left ix5 (take_left ix4 (take_right ix3 (clean_column d3))))),
                (''StorageLocation'', map (fill_cell ''N/A'') (take_right ix5 (clean_column f3))),
                (''StorageBin'', map (fill_cell ''N/A'') (take_right ix5 (clean_column f4))),
                (''DeletedStorageLevel'', map (fill_cell ''N/A'')
                   (take_right ix5 (clean_column (map (replace_value '' '' (Str ''ACTIVE'')) f5))))]\<rparr>"
proof -
  from tr obtain sel where j: "joined d = Inr sel" and out: "out = fillna ''N/A'' sel"
    by (auto simp: transform_def andThen_Inr_iff)
  from j obtain p where pr: "prepare d = Inr p"
    and ag: "andThen (aggregate p) (select_columns output_columns) = Inr sel"
    by (auto simp: joined_def andThen_Inr_iff)
  from sc pr show thesis
  proof (cases rule: prepare_explicit)
    case (explicit m1 m2 m3 m4 m5 t b1 b2 c1 c2 c3 c4 d1 d2 d3 e1 e2 f1 f2 f3 f4 f5)
    note i1 = explicit(1) and i2 = explicit(2) and i3 = explicit(3) and i4 = explicit(4)
      and i5 = explicit(5) and i6 = explicit(6) and i7 = explicit(7)
      and p1 = explicit(8) and p2 = explicit(9) and p3 = explicit(10) and p4 = explicit(11)
      and p5 = explicit(12) and p6 = explicit(13)
  define ix1 where "ix1 = join_indexer [clean_column m2] (nrows (materials d)) [clean_column b1]
             (nrows (manufacturer_names d))"
  define ix2 where "ix2 = join_indexer [take_left ix1 (clean_column m1)] (length ix1) [clean_column c1]
             (nrows (plants d))"
  define ix3 where "ix3 = join_indexer [take_left ix2 (take_left ix1 (clean_column m1))] (length ix2)
             [clean_column d1] (nrows (suppliers d))"
  define ix4 where "ix4 = join_indexer [take_right ix3 (clean_column d2)] (length ix3) [clean_column e1]
             (nrows (supplier_names d))"
  define ix5 where "ix5 = join_indexer
             [take_left ix4 (take_left ix3 (take_left ix2 (take_left ix1 (clean_column m1)))),
              take_left ix4 (take_left ix3 (take_right ix2 (clean_column (map pad_plant_cell c2))))]
             (length ix4)
             [clean_column f1, clean_column (map pad_plant_cell f2)] (nrows (storage d))"
  note a = aggregate_explicit [OF p1 p2 p3 p4 p5 p6 ix1_def ix2_def ix3_def ix4_def ix5_def]
  have si: "storage_indexer d = Inr ix5"
    unfolding storage_indexer_def pr andThen_simps by (rule a(2))
  from ag a(1) have "sel = \<lparr>nrows = length ix5,
           cols = [(''MaterialReference'', take_left ix5 (take_left ix4 (take_left ix3 (take_left ix2 (take_left ix1 (clean_column m1)))))),
                   (''ManufacturerName'', take_left ix5 (take_left ix4 (take_left ix3 (take_left ix2 (take_right ix1 (clean_column b2)))))),
                   (''ArticleNumber'', take_left ix5 (take_left ix4 (take_left ix3 (take_left ix2 (take_left ix1 (clean_column m3)))))),
                   (''TypeCode'', take_left ix5 (take_left ix4 (take_left ix3 (take_left ix2 (take_left ix1 (clean_column t)))))),
                   (''ShortText'', take_left ix5 (take_left ix4 (take_left ix3 (take_left ix2 (take_left ix1 (clean_column m5)))))),
                   (''Plant'', take_left ix5 (take_left ix4 (take_left ix3 (take_right ix2 (clean_column (map pad_plant_cell c2)))))),
                   (''Disposition'', take_left ix5 (take_left ix4 (take_left ix3 (take_right ix2 (clean_column c3))))),
                   (''ReporderPoint'', take_left ix5 (take_left ix4 (take_left ix3 (take_right ix2 (clean_column c4))))),
                   (''SupplierName'', take_left ix5 (take_right ix4 (clean_column e2))),
                   (''SupplierArticleNumber'', take_left ix5 (take_left ix4 (take_right ix3 (clean_column d3)))),
                   (''StorageLocation'', take_right ix5 (clean_column f3)),
                   (''StorageBin'', take_right ix5 (clean_column f4)),
                   (''DeletedStorageLevel'', take_right ix5 (clean_column (map (replace_value '' '' (Str ''ACTIVE'')) f5)))]\<rparr>"
    by simp
  then have o: "out = \<lparr>nrows = length ix5,
        cols = [(''MaterialReference'', map (fill_cell ''N/A'') (take_left ix5 (take_left ix4 (take_left ix3 (take_left ix2 (take_left ix1 (clean_column m1))))))),
                (''ManufacturerName'', map (fill_cell ''N/A'') (take_left ix5 (take_left ix4 (take_left ix3 (take_left ix2 (take_right ix1 (clean_column b2))))))),
                (''ArticleNumber'', map (fill_cell ''N/A'') (take_left ix5 (take_left ix4 (take_left ix3 (take_left ix2 (take_left ix1 (clean_column m3))))))),
                (''TypeCode'', map (fill_cell ''N/A'') (take_left ix5 (take_left ix4 (take_left ix3 (take_left ix2 (take_left ix1 (clean_column t))))))),
                (''ShortText'', map (fill_cell ''N/A'') (take_left ix5 (take_left ix4 (take_left ix3 (take_left ix2 (take_left ix1 (clean_column m5))))))),
                (''Plant'', map (fill_cell ''N/A'') (take_left ix5 (take_left ix4 (take_left ix3 (take_right ix2 (clean_column (map pad_plant_cell c2))))))),
                (''Disposition'', map (fill_cell ''N/A'') (take_left ix5 (take_left ix4 (take_left ix3 (take_right ix2 (clean_column c3)))))),
                (''ReporderPoint'', map (fill_cell ''N/A'') (take_left ix5 (take_left ix4 (take_left ix3 (take_right ix2 (clean_column c4)))))),
                (''SupplierName'', map (fill_cell ''N/A'') (take_left ix5 (take_right ix4 (clean_column e2)))),
                (''SupplierArticleNumber'', map (fill_cell ''N/A'') (take_left ix5 (take_left ix4 (take_right ix3 (clean_column d3))))),
                (''StorageLocation'', map (fill_cell ''N/A'') (take_right ix5 (clean_column f3))),
                (''StorageBin'', map (fill_cell ''N/A'') (take_right ix5 (clean_column f4))),
                (''DeletedStorageLevel'', map (fill_cell ''N/A'')
                   (take_right ix5 (clean_column (map (replace_value '' '' (Str ''ACTIVE'')) f5))))]\<rparr>"
    unfolding out by (simp add: fillna_explicit)
  from that [OF i1 i2 i3 i4 i5 i6 i7 ix1_def ix2_def ix3_def ix4_def ix5_def si o] show thesis .
  qed
qed

subsection \<open>Padding and trimming\<close>

lemma length_zfill: "length (zfill w s) = max w (length s)"
  by (cases s) (auto simp: zfill_def)

lemma dropWhile_id_iff: "dropWhile P xs = xs \<longleftrightarrow> (xs = [] \<or> \<not> P (hd xs))"
proof (cases xs)
  case Nil
  then show ?thesis by simp
next
  case (Cons a list)
  have "length (dropWhile P list) \<le> length list" by (rule length_dropWhile_le)
  then have "dropWhile P list \<noteq> a # list" by auto
  with Cons show ?thesis by simp
qed

lemma strip_id_iff: "strip s = s \<longleftrightarrow> (s = [] \<or> (\<not> is_space (hd s) \<and> \<not> is_space (last s)))"
proof (cases "s = []")
  case True
  then show ?thesis by (simp add: strip_def)
next
  case False
  show ?thesis
  proof
    assume eq: "strip s = s"
    then have ne: "strip s \<noteq> []" using False by simp
    from strip_last [OF ne] eq have l: "\<not> is_space (last s)" by simp
    have "\<not> is_space (hd s)"
    proof
      assume sp: "is_space (hd s)"
      then have "length (dropWhile is_space s) < length s"
        using False by (cases s) (auto simp: le_imp_less_Suc length_dropWhile_le)
      moreover have "length (strip s) \<le> length (dropWhile is_space s)"
        unfolding strip_def by (simp add: length_dropWhile_le [of is_space "rev (dropWhile is_space s)", simplified])
      ultimately show False using eq by simp
    qed
    with l show "s = [] \<or> (\<not> is_space (hd s) \<and> \<not> is_space (last s))" by simp
  next
    assume "s = [] \<or> (\<not> is_space (hd s) \<and> \<not> is_space (last s))"
    with False have h: "\<not> is_space (hd s)" and l: "\<not> is_space (last s)" by simp_all
    from h False have a: "dropWhile is_space s = s" by (simp add: dropWhile_id_iff)
    from l False have b: "dropWhile is_space (rev s) = rev s"
      by (simp add: dropWhile_id_iff hd_rev)
    show "strip s = s" by (simp add: strip_def a b)
  qed
qed

lemma strip_wide: "strip (CHR 0xA0 # ''M1'' @ [CHR 0x85, CHR '' '']) = ''M1''"
  by (simp add: strip_def is_space_def)

lemma zero_not_space: "\<not> is_space (CHR ''0'')" "\<not> is_space (CHR ''+'')" "\<not> is_space (CHR ''-'')"
  by (simp_all add: is_space_def)

lemma strip_zfill:
  assumes "strip s = s" and "length s \<le> 4"
  shows "strip (zfill 4 s) = zfill 4 s \<and> length (zfill 4 s) = 4"
proof -
  have len: "length (zfill 4 s) = 4" using assms(2) by (simp add: length_zfill)
  show ?thesis
  proof (cases "length s = 4")
    case True
    then have "zfill 4 s = s" by (simp add: zfill_def)
    with assms(1) len show ?thesis by simp
  next
    case False
    with assms(2) have short: "length s < 4" by simp
    show ?thesis
    proof (cases s)
      case Nil
      then have "zfill 4 s = ''0000''" by (simp add: zfill_def numeral_eq_Suc)
      then show ?thesis using len by (simp add: strip_id_iff zero_not_space)
    next
      case (Cons c rest)
      from assms(1) Cons have l: "\<not> is_space (last s)" and h: "\<not> is_space c"
        by (simp_all add: strip_id_iff)
      have pos: "0 < 4 - length s" using short by simp
      show ?thesis
      proof (cases "c = CHR ''+'' \<or> c = CHR ''-''")
        case True
        then have z: "zfill 4 s = c # replicate (4 - length s) (CHR ''0'') @ rest"
          using Cons short by (simp add: zfill_def)
        have "\<not> is_space (last (replicate (4 - length s) (CHR ''0'') @ rest))"
        proof (cases "rest = []")
          case True
          then show ?thesis using pos by (simp add: zero_not_space)
        next
          case False
          then show ?thesis using l Cons by simp
        qed
        moreover have "last (zfill 4 s) = last (replicate (4 - length s) (CHR ''0'') @ rest)"
          unfolding z using pos by (simp del: last_append)
        ultimately have "\<not> is_space (last (zfill 4 s))" by simp
        moreover have "\<not> is_space (hd (zfill 4 s))" unfolding z using h by simp
        ultimately show ?thesis using len by (simp add: strip_id_iff)
      next
        case False
        then have z: "zfill 4 s = replicate (4 - length s) (CHR ''0'') @ s"
          using Cons short by (auto simp: zfill_def)
        have "hd (zfill 4 s) = CHR ''0''" unfolding z using pos by (simp add: hd_append)
        moreover have "last (zfill 4 s) = last s" unfolding z using Cons by simp
        ultimately show ?thesis using len l by (simp add: strip_id_iff zero_not_space)
      qed
    qed
  qed
qed

lemma clean_column_text:
  assumes "\<forall>x \<in> set c. is_str x"
  shows "clean_column c = map clean_cell c"
proof (cases c)
  case Nil
  then show ?thesis by (simp add: clean_column_def)
next
  case (Cons x xs)
  with assms have "is_object c" by (auto simp: is_object_def)
  then show ?thesis by (simp add: clean_column_def)
qed

lemma clean_padded: "clean_column (map pad_plant_cell c) = map (\<lambda>x. clean_cell (pad_plant_cell x)) c"
proof -
  have "\<forall>x \<in> set (map pad_plant_cell c). is_str x" by (simp add: pad_plant_cell_def)
  from clean_column_text [OF this] show ?thesis by simp
qed


lemma clean_pad_cases:
  "clean_cell (pad_plant_cell x) = NA \<or>
   clean_cell (pad_plant_cell x) = Str (strip (zfill 4 (astype_str x)))"
  using clean_cell_cases [of "pad_plant_cell x"] by (auto simp: pad_plant_cell_def)

subsection \<open>The plant column of the export\<close>

lemma set_take_left_eq:
  "ix = join_indexer lk n rk m \<Longrightarrow> length c = n \<Longrightarrow> set (take_left ix c) = set c"
  by (simp add: set_take_left)

lemma set_take_right_sub:
  "ix = join_indexer lk n rk m \<Longrightarrow> length c = m \<Longrightarrow> set (take_right ix c) \<subseteq> insert NA (set c)"
  by (simp add: set_take_right)

lemma fill_cell_cases: "fill_cell v x = (if x = NA then Str v else x)"
  by (cases x) (simp_all add: fill_cell_def)

lemma export_plant_cell:
  assumes sc: "schema d" and wf: "wf_dataset d" and tr: "transform d = Inr out"
    and pp: "get_column (plants d) ''Plant'' = Inr pp"
    and op: "get_column out ''Plant'' = Inr op"
    and v: "v \<in> set op" and present: "v \<noteq> Str ''N/A''"
  shows "\<exists>x \<in> set pp.
           v = Str (strip (zfill 4 (astype_str x))) \<and>
           length (zfill 4 (astype_str x)) = max 4 (length (astype_str x)) \<and>
           (length (astype_str x) \<le> 4 \<and> strip (astype_str x) = astype_str x \<longrightarrow>
              length (strip (zfill 4 (astype_str x))) = 4)"
  using sc tr
proof (cases rule: transform_explicit)
  case (explicit m1 m2 m3 m4 m5 t b1 b2 c1 c2 c3 c4 d1 d2 d3 e1 e2 f1 f2 f3 f4 f5 ix1 ix2 ix3 ix4 ix5)
  let ?cp = "clean_column (map pad_plant_cell c2)"
  have c2: "pp = c2" using pp explicit(4) by (simp add: get_column_def)
  have wfp: "wf_frame (plants d)" using wf by (simp add: wf_dataset_def)
  have len: "length ?cp = nrows (plants d)"
    using get_column_length [OF wfp pp] c2 by simp
  have opv: "op = map (fill_cell ''N/A'') (take_left ix5 (take_left ix4 (take_left ix3 (take_right ix2 ?cp))))"
    using op unfolding explicit(14) by (simp add: get_column_def)
  have s5: "set (take_left ix5 (take_left ix4 (take_left ix3 (take_right ix2 ?cp)))) =
            set (take_left ix4 (take_left ix3 (take_right ix2 ?cp)))"
    by (rule set_take_left_eq [OF explicit(12)]) simp
  have s4: "set (take_left ix4 (take_left ix3 (take_right ix2 ?cp))) = set (take_left ix3 (take_right ix2 ?cp))"
    by (rule set_take_left_eq [OF explicit(11)]) simp
  have s3: "set (take_left ix3 (take_right ix2 ?cp)) = set (take_right ix2 ?cp)"
    by (rule set_take_left_eq [OF explicit(10)]) simp
  have s2: "set (take_right ix2 ?cp) \<subseteq> insert NA (set ?cp)"
    by (rule set_take_right_sub [OF explicit(9) len])
  from v opv obtain y where y: "y \<in> set (take_left ix5 (take_left ix4 (take_left ix3 (take_right ix2 ?cp))))"
    and vy: "v = fill_cell ''N/A'' y"
    by auto
  from vy present have yna: "y \<noteq> NA" and vy': "v = y" by (auto simp: fill_cell_cases)
  from y s5 s4 s3 s2 yna have "y \<in> set ?cp" by auto
  then obtain x where x: "x \<in> set c2" and yx: "y = clean_cell (pad_plant_cell x)"
    unfolding clean_padded by auto
  from clean_pad_cases [of x] yx yna have "y = Str (strip (zfill 4 (astype_str x)))" by auto
  with vy' have a: "v = Str (strip (zfill 4 (astype_str x)))" by simp
  have b: "length (zfill 4 (astype_str x)) = max 4 (length (astype_str x))" by (rule length_zfill)
  have c: "length (astype_str x) \<le> 4 \<and> strip (astype_str x) = astype_str x \<longrightarrow>
              length (strip (zfill 4 (astype_str x))) = 4"
    using strip_zfill [of "astype_str x"] by auto
  from x c2 a b c show ?thesis by (intro bexI [where x = x] conjI) simp_all
qed

lemma prepared_plant_columns:
  assumes sc: "schema d" and pr: "prepare d = Inr p"
    and pp: "get_column (plants d) ''Plant'' = Inr pp"
    and sp: "get_column (storage d) ''Plant'' = Inr sp"
  shows "get_column (plants p) ''Plant'' = Inr (map (\<lambda>x. clean_cell (Str (zfill 4 (astype_str x)))) pp) \<and>
         get_column (storage p) ''Plant'' = Inr (map (\<lambda>x. clean_cell (Str (zfill 4 (astype_str x)))) sp)"
  using sc pr
proof (cases rule: prepare_explicit)
  case (explicit m1 m2 m3 m4 m5 t b1 b2 c1 c2 c3 c4 d1 d2 d3 e1 e2 f1 f2 f3 f4 f5)
  have c2: "pp = c2" using pp explicit(4) by (simp add: get_column_def)
  have f2: "sp = f2" using sp explicit(7) by (simp add: get_column_def)
  have a: "get_column (plants p) ''Plant'' = Inr (clean_column (map pad_plant_cell pp))"
    unfolding explicit(10) c2 by (simp add: get_column_def)
  have b: "get_column (storage p) ''Plant'' = Inr (clean_column (map pad_plant_cell sp))"
    unfolding explicit(13) f2 by (simp add: get_column_def)
  from a b show ?thesis by (simp add: clean_padded pad_plant_cell_def)
qed

text \<open>
  Claim C2, amended. In a run on the tables of the data model, a plant of the export
  that is not the sentinel is the trimmed form of the string of a cell of the plants
  sheet, padded with zeros on the left to at least four characters: the padded string has
  four characters or, when the string of the cell is longer, the length of that string.
  The exported plant has exactly four characters whenever the string of the cell has at
  most four characters and no whitespace at its ends. The plant column of the plants sheet
  and the plant column of the storage sheet are both treated this way before the joins:
  each cell is turned into its string, padded, and cleaned.
\<close>

theorem plant_is_padded:
  assumes sc: "schema d" and wf: "wf_dataset d" and tr: "transform d = Inr out"
    and pp: "get_column (plants d) ''Plant'' = Inr pp"
    and sp: "get_column (storage d) ''Plant'' = Inr sp"
    and op: "get_column out ''Plant'' = Inr op"
    and v: "v \<in> set op" and present: "v \<noteq> Str ''N/A''"
  shows "(\<exists>x \<in> set pp.
            v = Str (strip (zfill 4 (astype_str x))) \<and>
            length (zfill 4 (astype_str x)) = max 4 (length (astype_str x)) \<and>
            (length (astype_str x) \<le> 4 \<and> strip (astype_str x) = astype_str x \<longrightarrow>
               length (strip (zfill 4 (astype_str x))) = 4)) \<and>
         (\<exists>p. prepare d = Inr p \<and>
            get_column (plants p) ''Plant'' =
              Inr (map (\<lambda>x. clean_cell (Str (zfill 4 (astype_str x)))) pp) \<and>
            get_column (storage p) ''Plant'' =
              Inr (map (\<lambda>x. clean_cell (Str (zfill 4 (astype_str x)))) sp)) \<and>
         (\<forall>s. length (zfill 4 s) = max 4 (length s))"
proof -
  from transform_Inr [OF tr] obtain p where p: "prepare d = Inr p" by blast
  note a = export_plant_cell [OF sc wf tr pp op v present]
  from prepared_plant_columns [OF sc p pp sp] p
  have b: "\<exists>p. prepare d = Inr p \<and>
            get_column (plants p) ''Plant'' =
              Inr (map (\<lambda>x. clean_cell (Str (zfill 4 (astype_str x)))) pp) \<and>
            get_column (storage p) ''Plant'' =
              Inr (map (\<lambda>x. clean_cell (Str (zfill 4 (astype_str x)))) sp)"
    by (intro exI [where x = p]) simp
  have c: "\<forall>s. length (zfill 4 s) = max 4 (length s)" by (simp add: length_zfill)
  from a b c show ?thesis by (intro conjI)
qed

subsection \<open>The storage level of the export\<close>

lemma clean_active: "clean_cell (Str ''ACTIVE'') = Str ''ACTIVE''"
  by (simp add: text_defs)

lemma clean_column_nth_str:
  assumes "j < length c" and "is_str (c ! j)"
  shows "clean_column c ! j = clean_cell (c ! j)"
proof -
  from assms have "is_object c" by (auto simp: is_object_def)
  with assms(1) show ?thesis by (simp add: clean_column_def)
qed

text \<open>
  Claim C5. In a run on the tables of the data model, every row of the export that the
  last join pairs with a storage row whose level was a single space has the storage level
  \<^verbatim>\<open>ACTIVE\<close>. The substitution comes first: cleaning keeps \<^verbatim>\<open>ACTIVE\<close>, whereas cleaning
  the space first would leave a missing value that the substitution does not touch.
\<close>

theorem blank_storage_level_is_active:
  assumes sc: "schema d" and wf: "wf_dataset d" and tr: "transform d = Inr out"
    and lv: "get_column (storage d) ''DeletedStorageLevel'' = Inr levels"
    and j: "j < nrows (storage d)" and blank: "levels ! j = Str '' ''"
  shows "\<exists>ix exported.
           storage_indexer d = Inr ix \<and>
           get_column out ''DeletedStorageLevel'' = Inr exported \<and>
           length ix = nrows out \<and> length exported = nrows out \<and>
           (\<forall>k<nrows out. snd (ix ! k) = Some j \<longrightarrow> exported ! k = Str ''ACTIVE'') \<and>
           clean_cell (replace_value '' '' (Str ''ACTIVE'') (Str '' '')) = Str ''ACTIVE'' \<and>
           replace_value '' '' (Str ''ACTIVE'') (clean_cell (Str '' '')) = NA"
  using sc tr
proof (cases rule: transform_explicit)
  case (explicit m1 m2 m3 m4 m5 t b1 b2 c1 c2 c3 c4 d1 d2 d3 e1 e2 f1 f2 f3 f4 f5 ix1 ix2 ix3 ix4 ix5)
  let ?st = "clean_column (map (replace_value '' '' (Str ''ACTIVE'')) f5)"
  let ?ex = "map (fill_cell ''N/A'') (take_right ix5 ?st)"
  have f5: "levels = f5" using lv explicit(7) by (simp add: get_column_def)
  have wfs: "wf_frame (storage d)" using wf by (simp add: wf_dataset_def)
  have len: "length f5 = nrows (storage d)" using get_column_length [OF wfs lv] f5 by simp
  have rep: "map (replace_value '' '' (Str ''ACTIVE'')) f5 ! j = Str ''ACTIVE''"
    using j len blank f5 by (simp add: replace_value_def)
  have stj: "?st ! j = Str ''ACTIVE''"
    using clean_column_nth_str [of j "map (replace_value '' '' (Str ''ACTIVE'')) f5"] rep j len
    by (simp add: clean_active)
  have g: "get_column out ''DeletedStorageLevel'' = Inr ?ex"
    unfolding explicit(14) by (simp add: get_column_def)
  have n: "nrows out = length ix5" unfolding explicit(14) by simp
  have rows: "\<forall>k<nrows out. snd (ix5 ! k) = Some j \<longrightarrow> ?ex ! k = Str ''ACTIVE''"
  proof (intro allI impI)
    fix k assume k: "k < nrows out" and m: "snd (ix5 ! k) = Some j"
    from k n have k': "k < length ix5" by simp
    then have "take_right ix5 ?st ! k = ?st ! j" using m by (simp add: nth_take_right)
    with stj k' show "?ex ! k = Str ''ACTIVE''" by (simp add: fill_cell_def)
  qed
  have c1: "clean_cell (replace_value '' '' (Str ''ACTIVE'') (Str '' '')) = Str ''ACTIVE''"
    by (simp add: text_defs)
  have c2: "replace_value '' '' (Str ''ACTIVE'') (clean_cell (Str '' '')) = NA"
    by (simp add: text_defs)
  show ?thesis
    apply (rule exI [where x = ix5])
    apply (rule exI [where x = ?ex])
    using explicit(13) g n rows c1 c2 by simp
qed

subsection \<open>A missing plant\<close>



text \<open>Claim C2, amended, at the run with the plants 7 and 42.\<close>

theorem plant_is_padded_witness:
  "schema two_plants \<and> wf_dataset two_plants \<and>
   transform two_plants = Inr two_plants_result \<and>
   get_column (plants two_plants) ''Plant'' = Inr [IntV 7, IntV 42] \<and>
   get_column (storage two_plants) ''Plant'' = Inr [IntV 7] \<and>
   get_column two_plants_result ''Plant'' = Inr [Str ''0007'', Str ''0042''] \<and>
   Str ''0042'' \<in> set [Str ''0007'', Str ''0042''] \<and> Str ''0042'' \<noteq> Str ''N/A'' \<and>
   astype_str (IntV 42) = ''42'' \<and>
   Str ''0042'' = Str (strip (zfill 4 (astype_str (IntV 42)))) \<and>
   length (strip (zfill 4 (astype_str (IntV 42)))) = 4 \<and>
   (\<exists>p. prepare two_plants = Inr p \<and>
      get_column (plants p) ''Plant'' = Inr [Str ''0007'', Str ''0042''] \<and>
      get_column (storage p) ''Plant'' = Inr [Str ''0007''])"
proof -
  have pp: "get_column (plants two_plants) ''Plant'' = Inr [IntV 7, IntV 42]"
    and sp: "get_column (storage two_plants) ''Plant'' = Inr [IntV 7]"
    by (simp_all add: two_plants_def get_column_def)
  have op: "get_column two_plants_result ''Plant'' = Inr [Str ''0007'', Str ''0042'']"
    by (simp add: two_plants_result_def get_column_def)
  have v: "Str ''0042'' \<in> set [Str ''0007'', Str ''0042'']" by simp
  have present: "Str ''0042'' \<noteq> Str ''N/A''" by simp
  have s7: "astype_str (IntV 7) = ''7''" and s42: "astype_str (IntV 42) = ''42''"
    by (simp_all add: show_int_def show_nat_small show_nat_large digit_char_def)
  have z7: "clean_cell (Str (zfill 4 ''7'')) = Str ''0007''"
    and z42: "clean_cell (Str (zfill 4 ''42'')) = Str ''0042''"
    by (simp_all add: text_defs count_defs)
  note t = plant_is_padded [OF two_plants_schema two_plants_wf two_plants_transform pp sp op v present]
  from t obtain x where x: "x \<in> set [IntV 7, IntV 42]"
    and a: "Str ''0042'' = Str (strip (zfill 4 (astype_str x)))"
    and b: "length (astype_str x) \<le> 4 \<and> strip (astype_str x) = astype_str x \<longrightarrow>
              length (strip (zfill 4 (astype_str x))) = 4"
    by blast
  have x42: "x = IntV 42"
  proof (rule ccontr)
    assume "x \<noteq> IntV 42"
    with x have "x = IntV 7" by simp
    with a have "Str ''0042'' = Str (strip (zfill 4 (astype_str (IntV 7))))" by simp
    then show False unfolding s7 by (simp add: strip_def is_space_def zfill_def count_defs)
  qed
  have "length (astype_str (IntV 42)) \<le> 4 \<and> strip (astype_str (IntV 42)) = astype_str (IntV 42)"
    unfolding s42 by (simp add: strip_def is_space_def)
  with b x42 have c: "length (strip (zfill 4 (astype_str (IntV 42)))) = 4" by blast
  from a x42 have a': "Str ''0042'' = Str (strip (zfill 4 (astype_str (IntV 42))))" by simp
  from t obtain p where p: "prepare two_plants = Inr p"
    and g1: "get_column (plants p) ''Plant'' =
              Inr (map (\<lambda>x. clean_cell (Str (zfill 4 (astype_str x)))) [IntV 7, IntV 42])"
    and g2: "get_column (storage p) ''Plant'' =
              Inr (map (\<lambda>x. clean_cell (Str (zfill 4 (astype_str x)))) [IntV 7])"
    by blast
  from p g1 g2 have d: "\<exists>p. prepare two_plants = Inr p \<and>
      get_column (plants p) ''Plant'' = Inr [Str ''0007'', Str ''0042''] \<and>
      get_column (storage p) ''Plant'' = Inr [Str ''0007'']"
    unfolding list.map s7 s42 z7 z42 by (intro exI [where x = p]) simp
  from two_plants_schema two_plants_wf two_plants_transform pp sp op v present s42 a' c d
  show ?thesis by (intro conjI)
qed

text \<open>Claim C2 as stated fails for a plant with five digits: the export keeps all five.\<close>

theorem plant_longer_than_four_counterexample:
  "transform long_plant = Inr long_plant_result \<and>
   get_column long_plant_result ''Plant'' = Inr [Str ''12345''] \<and>
   Str ''12345'' \<noteq> Str ''N/A'' \<and>
   length ''12345'' \<noteq> 4"
  using long_plant_transform by (simp add: long_plant_result_def get_column_def)

text \<open>Claim C5 at the sample run.\<close>

theorem blank_storage_level_is_active_witness:
  "schema sample_dataset \<and> wf_dataset sample_dataset \<and>
   transform sample_dataset = Inr sample_dataset_result \<and>
   get_column (storage sample_dataset) ''DeletedStorageLevel'' = Inr [Str '' ''] \<and>
   (0::nat) < nrows (storage sample_dataset) \<and> [Str '' ''] ! 0 = Str '' '' \<and>
   storage_indexer sample_dataset = Inr [(0, Some 0)] \<and>
   (\<exists>exported. get_column sample_dataset_result ''DeletedStorageLevel'' = Inr exported \<and>
      exported ! 0 = Str ''ACTIVE'')"
proof -
  have lv: "get_column (storage sample_dataset) ''DeletedStorageLevel'' = Inr [Str '' '']"
    by (simp add: sample_dataset_def get_column_def)
  have j: "(0::nat) < nrows (storage sample_dataset)" by (simp add: sample_dataset_def)
  have blank: "[Str '' ''] ! 0 = Str '' ''" by simp
  from blank_storage_level_is_active [OF sample_dataset_schema sample_dataset_wf
      sample_dataset_transform lv j blank]
  obtain ix exported where ix: "storage_indexer sample_dataset = Inr ix"
    and g: "get_column sample_dataset_result ''DeletedStorageLevel'' = Inr exported"
    and rows: "\<forall>k<nrows sample_dataset_result. snd (ix ! k) = Some 0 \<longrightarrow> exported ! k = Str ''ACTIVE''"
    by blast
  from ix have ix': "ix = [(0, Some 0)]" by (simp add: sample_dataset_indexer)
  have "(0::nat) < nrows sample_dataset_result" by (simp add: sample_dataset_result_def)
  with rows ix' have "exported ! 0 = Str ''ACTIVE''" by simp
  with g have e: "\<exists>exported. get_column sample_dataset_result ''DeletedStorageLevel'' = Inr exported \<and>
      exported ! 0 = Str ''ACTIVE''"
    by (intro exI [where x = exported]) simp
  from sample_dataset_schema sample_dataset_wf sample_dataset_transform lv j blank
    sample_dataset_indexer e
  show ?thesis by (intro conjI)
qed


text \<open>Claim C1 as stated fails: the type code of the scenario ends with the two
  characters of \<^verbatim>\<open>M1\<close>.\<close>

theorem scenario_typecode_counterexample:
  "transform scenario = Inr scenario_result \<and>
   get_column scenario_result ''TypeCode'' = Inr [Str ''TC00000000M1''] \<and>
   get_column scenario_result ''TypeCode'' \<noteq> Inr [Str ''TC000000001'']"
  using scenario_transform by (simp add: scenario_result_def get_column_def)

subsection \<open>The end-to-end scenario\<close>

lemma prepare_total:
  assumes sc: "schema d" and ma: "fill_typecode (materials d) = Inr ma"
  shows "\<exists>p. prepare d = Inr p"
proof -
  from sc have n3: "map fst (cols (plants d)) = [''MaterialReference'', ''Plant'', ''Disposition'', ''ReporderPoint'']"
    and n6: "map fst (cols (storage d)) = [''MaterialReference'', ''Plant'', ''StorageLocation'',
      ''StorageBin'', ''DeletedStorageLevel'']"
    by (simp_all add: schema_def column_names_def)
  from names4 [OF n3] obtain c1 c2 c3 c4 where c: "cols (plants d) = [(''MaterialReference'', c1), (''Plant'', c2),
        (''Disposition'', c3), (''ReporderPoint'', c4)]"
    by (elim exE)
  from names5 [OF n6] obtain f1 f2 f3 f4 f5 where f: "cols (storage d) = [(''MaterialReference'', f1), (''Plant'', f2),
        (''StorageLocation'', f3), (''StorageBin'', f4), (''DeletedStorageLevel'', f5)]"
    by (elim exE)
  from prepare_storage [OF f] obtain st st' where st: "replace_deleted_storage_level (storage d) = Inr st"
    and st': "pad_plant st = Inr st'"
    unfolding andThen_Inr_iff by blast
  show ?thesis
    unfolding prepare_def by (simp add: st ma pad_plant_plants [OF c] st')
qed

lemma key_of_clean_cell: "key_of (clean_cell x) = clean_cell x"
  using clean_cell_cases [of x] by auto

lemma clean_text_no_match:
  assumes "\<forall>x \<in> set c. \<exists>s. x = Str s \<and> strip s \<noteq> k" and "j < length c"
  shows "key_of (clean_column c ! j) \<noteq> Str k"
proof -
  from assms have "\<forall>x \<in> set c. is_str x" by auto
  from clean_column_text [OF this] assms(2) have e: "clean_column c ! j = clean_cell (c ! j)" by simp
  from assms obtain s where s: "c ! j = Str s" "strip s \<noteq> k" by (meson nth_mem)
  from clean_cell_cases [of "Str s"] s(2) have "clean_cell (Str s) \<noteq> Str k" by auto
  with e s(1) show ?thesis by (simp add: key_of_clean_cell)
qed

lemma clean_text_no_null:
  assumes "\<forall>x \<in> set c. \<exists>s. x = Str s \<and> strip s \<noteq> [] \<and> strip s \<noteq> ''nan''" and "j < length c"
  shows "key_of (clean_column c ! j) \<noteq> NA"
proof -
  from assms have "\<forall>x \<in> set c. is_str x" by auto
  from clean_column_text [OF this] assms(2) have e: "clean_column c ! j = clean_cell (c ! j)" by simp
  from assms obtain s where s: "c ! j = Str s" "strip s \<noteq> []" "strip s \<noteq> ''nan''" by (meson nth_mem)
  then have "clean_cell (Str s) = Str (strip s)" by (simp add: clean_cell_def replace_value_def)
  with e s(1) show ?thesis by simp
qed

lemma no_match_rows:
  assumes "\<forall>x \<in> set c. \<exists>s. x = Str s \<and> strip s \<noteq> k" and "length c = m"
  shows "\<forall>j<m. key_row ([Str k] # ls) 0 \<noteq> key_row (clean_column c # rs) j"
proof (intro allI impI)
  fix j assume "j < m"
  with assms(2) have "j < length c" by simp
  from clean_text_no_match [OF assms(1) this] have "Str k \<noteq> key_of (clean_column c ! j)" by simp
  then show "key_row ([Str k] # ls) 0 \<noteq> key_row (clean_column c # rs) j"
    by (simp add: key_row_def)
qed

lemma no_null_rows:
  assumes "\<forall>x \<in> set c. \<exists>s. x = Str s \<and> strip s \<noteq> [] \<and> strip s \<noteq> ''nan''" and "length c = m"
  shows "\<forall>j<m. key_row [[NA]] 0 \<noteq> key_row [clean_column c] j"
proof (intro allI impI)
  fix j assume "j < m"
  with assms(2) have "j < length c" by simp
  from clean_text_no_null [OF assms(1) this] have "NA \<noteq> key_of (clean_column c ! j)" by simp
  then show "key_row [[NA]] 0 \<noteq> key_row [clean_column c] j"
    by (simp add: key_row_def)
qed

lemma single_row_no_match:
  assumes "\<forall>j<m. key_row lk 0 \<noteq> key_row rk j"
  shows "join_indexer lk 1 rk m = [(0, None)]"
proof -
  have "matching_rows lk rk m 0 = []"
    using assms by (auto simp: matching_rows_def filter_empty_conv)
  then show ?thesis by (simp add: join_indexer_def join_rows_def)
qed

lemma take_single [simp]:
  "take_left [(0, j)] c = [c ! 0]" "take_right [(i, None)] c = [NA]" "take_right [(i, Some k)] c = [c ! k]"
  by (simp_all add: take_left_def take_right_def)

text \<open>
  Claim C1, amended. Materials has the one row of the scenario (reference \<^verbatim>\<open>M1\<close>,
  manufacturer \<^verbatim>\<open>MF1\<close>, no type code), the manufacturer names map \<^verbatim>\<open>MF1\<close> to
  \<^verbatim>\<open>Acme\<close>, no row of the plants, suppliers and storage sheets has the reference
  \<^verbatim>\<open>M1\<close> once trimmed, and every row of the supplier names has a supplier number; the
  key columns hold text, as in the data model. Then the run exports exactly one row, with
  the manufacturer name \<^verbatim>\<open>Acme\<close>, the type code \<^verbatim>\<open>TC00000000M1\<close>, and \<^verbatim>\<open>N/A\<close> in
  every column that comes from the plants, suppliers and storage sheets.
\<close>

theorem scenario_row:
  assumes sc: "schema d" and wf: "wf_dataset d"
    and ma: "materials d = \<lparr>nrows = 1,
        cols = [(''MaterialReference'', [Str ''M1'']), (''ManufacturerID'', [Str ''MF1'']),
                (''ArticleNumber'', [article_number]), (''TypeCode'', [NA]), (''ShortText'', [short_text])]\<rparr>"
    and mn: "manufacturer_names d = \<lparr>nrows = 1,
        cols = [(''ManufacturerID'', [Str ''MF1'']), (''ManufacturerName'', [Str ''Acme''])]\<rparr>"
    and pl: "get_column (plants d) ''MaterialReference'' = Inr pr"
      "\<forall>x \<in> set pr. \<exists>s. x = Str s \<and> strip s \<noteq> ''M1''"
    and su: "get_column (suppliers d) ''MaterialReference'' = Inr sr"
      "\<forall>x \<in> set sr. \<exists>s. x = Str s \<and> strip s \<noteq> ''M1''"
    and si: "get_column (suppliers d) ''SupplierID'' = Inr sid" "\<forall>x \<in> set sid. is_str x"
    and sn: "get_column (supplier_names d) ''SupplierID'' = Inr nid"
      "\<forall>x \<in> set nid. \<exists>s. x = Str s \<and> strip s \<noteq> [] \<and> strip s \<noteq> ''nan''"
    and st: "get_column (storage d) ''MaterialReference'' = Inr tr"
      "\<forall>x \<in> set tr. \<exists>s. x = Str s \<and> strip s \<noteq> ''M1''"
  shows "\<exists>out. transform d = Inr out \<and> nrows out = 1 \<and>
           get_column out ''MaterialReference'' = Inr [Str ''M1''] \<and>
           get_column out ''ManufacturerName'' = Inr [Str ''Acme''] \<and>
           get_column out ''TypeCode'' = Inr [Str ''TC00000000M1''] \<and>
           get_column out ''Plant'' = Inr [Str ''N/A''] \<and>
           get_column out ''Disposition'' = Inr [Str ''N/A''] \<and>
           get_column out ''ReporderPoint'' = Inr [Str ''N/A''] \<and>
           get_column out ''SupplierName'' = Inr [Str ''N/A''] \<and>
           get_column out ''SupplierArticleNumber'' = Inr [Str ''N/A''] \<and>
           get_column out ''StorageLocation'' = Inr [Str ''N/A''] \<and>
           get_column out ''StorageBin'' = Inr [Str ''N/A''] \<and>
           get_column out ''DeletedStorageLevel'' = Inr [Str ''N/A'']"
proof -
  have fill: "fill_typecode (materials d) = Inr \<lparr>nrows = 1,
        cols = [(''MaterialReference'', [Str ''M1'']), (''ManufacturerID'', [Str ''MF1'']),
                (''ArticleNumber'', [article_number]), (''TypeCode'', [Str ''TC00000000M1'']),
                (''ShortText'', [short_text])]\<rparr>"
    unfolding ma
    by (simp add: fill_typecode_def get_column_def set_column_def backfill_row_def last_two_def)
  from prepare_total [OF sc fill] obtain p where p: "prepare d = Inr p" by blast
  have wfp: "wf_frame (plants d)" and wfs: "wf_frame (suppliers d)" and wfn: "wf_frame (supplier_names d)"
    and wft: "wf_frame (storage d)"
    using wf by (simp_all add: wf_dataset_def)
  from sc p show ?thesis
  proof (cases rule: prepare_explicit)
    case (explicit m1 m2 m3 m4 m5 t b1 b2 c1 c2 c3 c4 d1 d2 d3 e1 e2 f1 f2 f3 f4 f5)
    from explicit(1) ma have m: "m1 = [Str ''M1'']" "m2 = [Str ''MF1'']" "m4 = [NA]" by simp_all
    from explicit(3) mn have b: "b1 = [Str ''MF1'']" "b2 = [Str ''Acme'']" by simp_all
    from explicit(2) m have t: "t = [Str ''TC00000000M1'']"
      by (simp add: backfill_row_def last_two_def)
    have c1: "pr = c1" using pl(1) explicit(4) by (simp add: get_column_def)
    have d1: "sr = d1" using su(1) explicit(5) by (simp add: get_column_def)
    have d2: "sid = d2" using si(1) explicit(5) by (simp add: get_column_def)
    have e1: "nid = e1" using sn(1) explicit(6) by (simp add: get_column_def)
    have f1: "tr = f1" using st(1) explicit(7) by (simp add: get_column_def)
    have lc1: "length c1 = nrows (plants d)" using get_column_length [OF wfp pl(1)] c1 by simp
    have ld1: "length d1 = nrows (suppliers d)" using get_column_length [OF wfs su(1)] d1 by simp
    have le1: "length e1 = nrows (supplier_names d)" using get_column_length [OF wfn sn(1)] e1 by simp
    have lf1: "length f1 = nrows (storage d)" using get_column_length [OF wft st(1)] f1 by simp
    have n: "nrows (materials d) = 1" "nrows (manufacturer_names d) = 1" using ma mn by simp_all
    have cm1: "clean_column [Str ''M1''] = [Str ''M1'']" and cm2: "clean_column [Str ''MF1''] = [Str ''MF1'']"
      and cb2: "clean_column [Str ''Acme''] = [Str ''Acme'']"
      and ct: "clean_column [Str ''TC00000000M1''] = [Str ''TC00000000M1'']"
      by (simp_all add: text_defs)
    define ix1 where "ix1 = join_indexer [clean_column m2] (nrows (materials d)) [clean_column b1]
             (nrows (manufacturer_names d))"
    define ix2 where "ix2 = join_indexer [take_left ix1 (clean_column m1)] (length ix1) [clean_column c1]
             (nrows (plants d))"
    define ix3 where "ix3 = join_indexer [take_left ix2 (take_left ix1 (clean_column m1))] (length ix2)
             [clean_column d1] (nrows (suppliers d))"
    define ix4 where "ix4 = join_indexer [take_right ix3 (clean_column d2)] (length ix3) [clean_column e1]
             (nrows (supplier_names d))"
    define ix5 where "ix5 = join_indexer
             [take_left ix4 (take_left ix3 (take_left ix2 (take_left ix1 (clean_column m1)))),
              take_left ix4 (take_left ix3 (take_right ix2 (clean_column (map pad_plant_cell c2))))]
             (length ix4)
             [clean_column f1, clean_column (map pad_plant_cell f2)] (nrows (storage d))"
    have i1: "ix1 = [(0, Some 0)]"
      unfolding ix1_def m b n cm2 by (simp add: join_defs)
    have i2: "ix2 = [(0, None)]"
    proof -
      have "\<forall>j<nrows (plants d). key_row [[Str ''M1'']] 0 \<noteq> key_row [clean_column c1] j"
        by (rule no_match_rows [OF pl(2) [unfolded c1] lc1])
      from single_row_no_match [OF this] show ?thesis
        unfolding ix2_def i1 m cm1 by simp
    qed
    have i3: "ix3 = [(0, None)]"
    proof -
      have "\<forall>j<nrows (suppliers d). key_row [[Str ''M1'']] 0 \<noteq> key_row [clean_column d1] j"
        by (rule no_match_rows [OF su(2) [unfolded d1] ld1])
      from single_row_no_match [OF this] show ?thesis
        unfolding ix3_def i2 i1 m cm1 by simp
    qed
    have i4: "ix4 = [(0, None)]"
    proof -
      have "\<forall>j<nrows (supplier_names d). key_row [[NA]] 0 \<noteq> key_row [clean_column e1] j"
        by (rule no_null_rows [OF sn(2) [unfolded e1] le1])
      from single_row_no_match [OF this] show ?thesis
        unfolding ix4_def i3 by simp
    qed
    have i5: "ix5 = [(0, None)]"
    proof -
      have "\<forall>j<nrows (storage d). key_row [[Str ''M1''], [NA]] 0 \<noteq>
              key_row [clean_column f1, clean_column (map pad_plant_cell f2)] j"
        by (rule no_match_rows [OF st(2) [unfolded f1] lf1])
      from single_row_no_match [OF this] show ?thesis
        unfolding ix5_def i4 i3 i2 i1 m cm1 by simp
    qed
    note a = aggregate_explicit(1) [OF explicit(8-13) ix1_def ix2_def ix3_def ix4_def ix5_def]
    have j: "joined d = Inr \<lparr>nrows = 1,
           cols = [(''MaterialReference'', [Str ''M1'']),
                   (''ManufacturerName'', [Str ''Acme'']),
                   (''ArticleNumber'', [clean_column m3 ! 0]),
                   (''TypeCode'', [Str ''TC00000000M1'']),
                   (''ShortText'', [clean_column m5 ! 0]),
                   (''Plant'', [NA]), (''Disposition'', [NA]), (''ReporderPoint'', [NA]),
                   (''SupplierName'', [NA]), (''SupplierArticleNumber'', [NA]),
                   (''StorageLocation'', [NA]), (''StorageBin'', [NA]),
                   (''DeletedStorageLevel'', [NA])]\<rparr>"
      unfolding joined_def p andThen_simps a
      unfolding i5 i4 i3 i2 i1 m b t cm1 cb2 ct by simp
    show ?thesis
      unfolding transform_def j andThen_simps
      by (intro exI [where x = "fillna ''N/A'' \<lparr>nrows = 1,
           cols = [(''MaterialReference'', [Str ''M1'']),
                   (''ManufacturerName'', [Str ''Acme'']),
                   (''ArticleNumber'', [clean_column m3 ! 0]),
                   (''TypeCode'', [Str ''TC00000000M1'']),
                   (''ShortText'', [clean_column m5 ! 0]),
                   (''Plant'', [NA]), (''Disposition'', [NA]), (''ReporderPoint'', [NA]),
                   (''SupplierName'', [NA]), (''SupplierArticleNumber'', [NA]),
                   (''StorageLocation'', [NA]), (''StorageBin'', [NA]),
                   (''DeletedStorageLevel'', [NA])]\<rparr>"])
         (simp add: fillna_def get_column_def fill_cell_def)
  qed
qed

text \<open>Claim C1, amended, at sheets that hold rows of another material.\<close>

theorem scenario_row_witness:
  "schema scenario_with_other_rows \<and> wf_dataset scenario_with_other_rows \<and>
   get_column (plants scenario_with_other_rows) ''MaterialReference'' = Inr [Str ''M2''] \<and>
   get_column (suppliers scenario_with_other_rows) ''MaterialReference'' = Inr [Str ''M2''] \<and>
   get_column (storage scenario_with_other_rows) ''MaterialReference'' = Inr [Str ''M2''] \<and>
   get_column (suppliers scenario_with_other_rows) ''SupplierID'' = Inr [Str ''S1''] \<and>
   get_column (supplier_names scenario_with_other_rows) ''SupplierID'' = Inr [Str ''S1''] \<and>
   strip ''M2'' \<noteq> ''M1'' \<and> strip ''S1'' \<noteq> [] \<and> strip ''S1'' \<noteq> ''nan'' \<and>
   (\<exists>out. transform scenario_with_other_rows = Inr out \<and> nrows out = 1 \<and>
      get_column out ''ManufacturerName'' = Inr [Str ''Acme''] \<and>
      get_column out ''TypeCode'' = Inr [Str ''TC00000000M1''] \<and>
      get_column out ''Plant'' = Inr [Str ''N/A''] \<and>
      get_column out ''SupplierName'' = Inr [Str ''N/A''] \<and>
      get_column out ''DeletedStorageLevel'' = Inr [Str ''N/A''])"
proof -
  have sc: "schema scenario_with_other_rows"
    by (simp add: schema_def column_names_def scenario_with_other_rows_def)
  have wf: "wf_dataset scenario_with_other_rows"
    by (simp add: wf_dataset_def wf_frame_def column_names_def scenario_with_other_rows_def)
  have ma: "materials scenario_with_other_rows = \<lparr>nrows = 1,
        cols = [(''MaterialReference'', [Str ''M1'']), (''ManufacturerID'', [Str ''MF1'']),
                (''ArticleNumber'', [Str ''A-1'']), (''TypeCode'', [NA]), (''ShortText'', [Str ''Bolt''])]\<rparr>"
    and mn: "manufacturer_names scenario_with_other_rows = \<lparr>nrows = 1,
        cols = [(''ManufacturerID'', [Str ''MF1'']), (''ManufacturerName'', [Str ''Acme''])]\<rparr>"
    by (simp_all add: scenario_with_other_rows_def)
  have g: "get_column (plants scenario_with_other_rows) ''MaterialReference'' = Inr [Str ''M2'']"
    "get_column (suppliers scenario_with_other_rows) ''MaterialReference'' = Inr [Str ''M2'']"
    "get_column (storage scenario_with_other_rows) ''MaterialReference'' = Inr [Str ''M2'']"
    "get_column (suppliers scenario_with_other_rows) ''SupplierID'' = Inr [Str ''S1'']"
    "get_column (supplier_names scenario_with_other_rows) ''SupplierID'' = Inr [Str ''S1'']"
    by (simp_all add: scenario_with_other_rows_def get_column_def)
  have s: "strip ''M2'' \<noteq> ''M1''" "strip ''S1'' \<noteq> []" "strip ''S1'' \<noteq> ''nan''"
    by (simp_all add: strip_def is_space_def)
  have other: "\<forall>x \<in> set [Str ''M2'']. \<exists>s. x = Str s \<and> strip s \<noteq> ''M1''"
    using s(1) by simp
  have strs: "\<forall>x \<in> set [Str ''S1'']. is_str x" by simp
  have named: "\<forall>x \<in> set [Str ''S1'']. \<exists>s. x = Str s \<and> strip s \<noteq> [] \<and> strip s \<noteq> ''nan''"
    using s(2,3) by simp
  from scenario_row [OF sc wf ma mn g(1) other g(2) other g(4) strs g(5) named g(3) other]
  obtain out where "transform scenario_with_other_rows = Inr out" "nrows out = 1"
    "get_column out ''ManufacturerName'' = Inr [Str ''Acme'']"
    "get_column out ''TypeCode'' = Inr [Str ''TC00000000M1'']"
    "get_column out ''Plant'' = Inr [Str ''N/A'']"
    "get_column out ''SupplierName'' = Inr [Str ''N/A'']"
    "get_column out ''DeletedStorageLevel'' = Inr [Str ''N/A'']"
    by blast
  then have "\<exists>out. transform scenario_with_other_rows = Inr out \<and> nrows out = 1 \<and>
      get_column out ''ManufacturerName'' = Inr [Str ''Acme''] \<and>
      get_column out ''TypeCode'' = Inr [Str ''TC00000000M1''] \<and>
      get_column out ''Plant'' = Inr [Str ''N/A''] \<and>
      get_column out ''SupplierName'' = Inr [Str ''N/A''] \<and>
      get_column out ''DeletedStorageLevel'' = Inr [Str ''N/A'']"
    by (intro exI [where x = out]) simp
  with sc wf g s show ?thesis by (intro conjI)
qed

end
